theory Spec2Isabelle
  imports Main "HOL-Library.Word"
begin

unbundle bit_operations_syntax

section \<open>Common types\<close>

type_synonym u8 = "8 word"
type_synonym u16 = "16 word"
type_synonym u32 = "32 word"
type_synonym u64 = "64 word"

subsection \<open>The file collaborator\<close>

text \<open>
  Modelled from the spec: the \<open>IRpFile\<close> collaborator (librpbase/file/IRpFile.hpp, which is
  not among the sources). Section 4.1 and 6 of the specification give its contract:
  \<open>read(buf, len)\<close> returns the bytes read, clipped to the length of the source,
  \<open>seek(abs_pos)\<close> moves the position, \<open>size()\<close> is the length, \<open>rewind()\<close> seeks to 0.
  A file is its content, its position, and the list of read requests (position, length)
  issued so far, latest first; the list lets the theorems speak about whether a read
  was attempted at all.
\<close>

record 'a rpfile =
  f_data :: "'a list"
  f_pos :: nat
  f_log :: "(nat \<times> nat) list"

definition open_file :: "'a list \<Rightarrow> 'a rpfile" where
  "open_file bs = \<lparr>f_data = bs, f_pos = 0, f_log = []\<rparr>"

definition file_size :: "'a rpfile \<Rightarrow> nat" where
  "file_size f = length (f_data f)"

definition file_seek :: "'a rpfile \<Rightarrow> nat \<Rightarrow> 'a rpfile" where
  "file_seek f p = f\<lparr>f_pos := p\<rparr>"

definition file_rewind :: "'a rpfile \<Rightarrow> 'a rpfile" where
  "file_rewind f = file_seek f 0"

definition file_read :: "'a rpfile \<Rightarrow> nat \<Rightarrow> 'a list \<times> 'a rpfile" where
  "file_read f n =
     (let got = take n (drop (f_pos f) (f_data f))
      in (got, f\<lparr>f_pos := f_pos f + length got, f_log := (f_pos f, n) # f_log f\<rparr>))"

definition seekAndRead :: "'a rpfile \<Rightarrow> nat \<Rightarrow> nat \<Rightarrow> 'a list \<times> 'a rpfile" where
  "seekAndRead f p n = file_read (file_seek f p) n"

text \<open>The latest read request issued on a file, if there is a file and a request.\<close>

definition last_read :: "'a rpfile option \<Rightarrow> (nat \<times> nat) option" where
  "last_read fo = (case fo of None \<Rightarrow> None
                   | Some f \<Rightarrow> (case f_log f of [] \<Rightarrow> None | r # _ \<Rightarrow> Some r))"

section \<open>Atari SAP audio header (Audio/SAP.cpp)\<close>

subsection \<open>C library functions used by the tag parser\<close>

definition NUL :: char where "NUL = CHR 0x00"
definition LF :: char where "LF = CHR 0x0A"
definition CR :: char where "CR = CHR 0x0D"

text \<open>\<open>isspace\<close> in the C locale: space, TAB, LF, VT, FF, CR.\<close>

definition ISSPACE :: "char \<Rightarrow> bool" where
  "ISSPACE c = (c = CHR '' '' \<or> c = CHR 0x09 \<or> c = CHR 0x0A \<or> c = CHR 0x0B
                \<or> c = CHR 0x0C \<or> c = CHR 0x0D)"

definition to_upper :: "char \<Rightarrow> char" where
  "to_upper c = (let n = (of_char c :: int)
                 in if 97 \<le> n \<and> n \<le> 122 then char_of (n - 32) else c)"

text \<open>\<open>strcasecmp(a, b) == 0\<close>.\<close>

definition strcasecmp_eq :: "string \<Rightarrow> string \<Rightarrow> bool" where
  "strcasecmp_eq a b = (map to_upper a = map to_upper b)"

text \<open>The value of a digit character in \<open>strtol\<close>, for bases up to 36.\<close>

definition digit_val :: "char \<Rightarrow> nat option" where
  "digit_val c =
     (let n = (of_char c :: nat)
      in if 48 \<le> n \<and> n \<le> 57 then Some (n - 48)
         else if 97 \<le> n \<and> n \<le> 122 then Some (n - 87)
         else if 65 \<le> n \<and> n \<le> 90 then Some (n - 55)
         else None)"

definition is_digit :: "nat \<Rightarrow> char \<Rightarrow> bool" where
  "is_digit base c = (case digit_val c of None \<Rightarrow> False | Some d \<Rightarrow> d < base)"

definition digits_value :: "nat \<Rightarrow> string \<Rightarrow> nat" where
  "digits_value base ds = foldl (\<lambda>a c. a * base + the (digit_val c)) 0 ds"

text \<open>
  \<open>strtol(s, &endptr, base)\<close> for base 10 or 16, on a NUL-free string \<open>s\<close>: leading
  white space, an optional sign, for base 16 an optional \<open>0x\<close> that is followed by a
  hexadecimal digit, then the longest run of digits. The result is the value, clamped to
  the range of a \<open>long\<close> of \<open>lbits\<close> bits, and the number of characters consumed
  (\<open>endptr - s\<close>); with no digits nothing is consumed and the value is 0.
\<close>

definition strtol :: "nat \<Rightarrow> string \<Rightarrow> nat \<Rightarrow> int \<times> nat" where
  "strtol lbits s base =
     (let ws = takeWhile ISSPACE s;
          s1 = dropWhile ISSPACE s;
          sgn = (case s1 of [] \<Rightarrow> False | c # _ \<Rightarrow> c = CHR ''-'' \<or> c = CHR ''+'');
          neg = (case s1 of [] \<Rightarrow> False | c # _ \<Rightarrow> c = CHR ''-'');
          s2 = (if sgn then tl s1 else s1);
          pfx = (case s2 of
                   z # x # h # _ \<Rightarrow> base = 16 \<and> z = CHR ''0''
                        \<and> (x = CHR ''x'' \<or> x = CHR ''X'') \<and> is_digit 16 h
                 | _ \<Rightarrow> False);
          s3 = (if pfx then drop 2 s2 else s2);
          ds = takeWhile (is_digit base) s3;
          v = int (digits_value base ds)
      in if ds = [] then (0, 0)
         else (if neg then max (- v) (- (2 ^ (lbits - 1))) else min v (2 ^ (lbits - 1) - 1),
               length ws + (if sgn then 1 else 0) + (if pfx then 2 else 0) + length ds))"

text \<open>
  \<open>strtok_r(str, "\n", &saveptr)\<close> called until it returns null: the non-empty maximal
  runs of characters other than LF, in order. \<open>cur\<close> is the token being collected.
\<close>

fun strtok_all :: "string \<Rightarrow> string \<Rightarrow> string list" where
  "strtok_all cur [] = (if cur = [] then [] else [cur])"
| "strtok_all cur (c # cs) =
     (if c = LF then (if cur = [] then strtok_all [] cs else cur # strtok_all [] cs)
      else strtok_all (cur @ [c]) cs)"

text \<open>
  \<open>latin1_to_utf8\<close> (librpbase/TextFuncs.hpp) is not among the sources; the parser takes
  it as a parameter. This is the conversion used at concrete inputs: a byte below 0x80
  is kept, a byte from 0x80 becomes the two-byte UTF-8 sequence of that code point.
\<close>

definition latin1_to_utf8_std :: "string \<Rightarrow> string" where
  "latin1_to_utf8_std s =
     concat (map (\<lambda>c. let n = (of_char c :: nat)
                       in if n < 128 then [c]
                          else [char_of (192 + n div 64), char_of (128 + n mod 64)]) s)"

subsection \<open>The parsed tags\<close>

text \<open>
  Parameters of the platform the parser is compiled for: byte order, the width of
  \<open>long\<close>, and the Latin-1 conversion.
\<close>

record sap_host =
  big_endian :: bool
  long_bits :: nat
  latin1_to_utf8 :: "string \<Rightarrow> string"

definition host_le64 :: sap_host where
  "host_le64 = \<lparr>big_endian = False, long_bits = 64, latin1_to_utf8 = latin1_to_utf8_std\<rparr>"

definition host_be64 :: sap_host where
  "host_be64 = \<lparr>big_endian = True, long_bits = 64, latin1_to_utf8 = latin1_to_utf8_std\<rparr>"

record TagData =
  tags_read :: bool
  author :: string
  name :: string
  date :: string
  songs :: u8
  def_song :: u8
  ntsc :: bool
  stereo :: bool
  type :: char
  fastplay :: u16
  init_addr :: u16
  music_addr :: u16
  player_addr :: u16
  covox_addr :: u16

text \<open>The constructor \<open>TagData()\<close>; the strings are default-constructed (empty).\<close>

definition TagData_init :: TagData where
  "TagData_init = \<lparr>tags_read = False, author = [], name = [], date = [],
     songs = 1, def_song = 0, ntsc = False, stereo = False, type = NUL,
     fastplay = 0, init_addr = 0, music_addr = 0, player_addr = 0, covox_addr = 0\<rparr>"

subsection \<open>Writes through the keyword table's untyped pointers\<close>

text \<open>
  The keyword table stores a \<open>void*\<close> to the field of each keyword, and the numeric
  cases write through it as a \<open>uint16_t*\<close>, whatever the field's type. \<open>SONGS\<close> and
  \<open>DEFSONG\<close> name the one-byte fields \<open>songs\<close> and \<open>def_song\<close>, so their two-byte
  store also writes the byte that follows. The fields from \<open>songs\<close> on are laid out in
  declaration order: \<open>songs\<close> at byte 0, \<open>def_song\<close> 1, \<open>ntsc\<close> 2, \<open>stereo\<close> 3,
  \<open>type\<close> 4, one byte of padding, then the five \<open>uint16_t\<close> fields at 6, 8, 10, 12, 14.
\<close>

datatype tag_ptr =
  P_author | P_name | P_date | P_songs | P_def_song | P_stereo | P_ntsc | P_type
  | P_fastplay | P_init_addr | P_music_addr | P_player_addr | P_covox_addr

text \<open>Byte offset of a field, relative to \<open>songs\<close> (the strings come before it).\<close>

fun tag_offset :: "tag_ptr \<Rightarrow> nat" where
  "tag_offset P_songs = 0"
| "tag_offset P_def_song = 1"
| "tag_offset P_ntsc = 2"
| "tag_offset P_stereo = 3"
| "tag_offset P_type = 4"
| "tag_offset P_fastplay = 6"
| "tag_offset P_init_addr = 8"
| "tag_offset P_music_addr = 10"
| "tag_offset P_player_addr = 12"
| "tag_offset P_covox_addr = 14"
| "tag_offset _ = 0"

text \<open>Replace the low or the high byte of a 16-bit value; which of the two lies at the
  lower address depends on the host's byte order.\<close>

definition set_lo :: "u8 \<Rightarrow> u16 \<Rightarrow> u16" where
  "set_lo b w = push_bit 8 (drop_bit 8 w) OR ucast b"

definition set_hi :: "u8 \<Rightarrow> u16 \<Rightarrow> u16" where
  "set_hi b w = take_bit 8 w OR push_bit 8 (ucast b)"

definition set_mem_byte :: "bool \<Rightarrow> bool \<Rightarrow> u8 \<Rightarrow> u16 \<Rightarrow> u16" where
  "set_mem_byte be second b w = (if be = second then set_lo b w else set_hi b w)"

text \<open>Store one byte at an offset from \<open>songs\<close>. The padding byte and anything past the
  last field are not part of any field.\<close>

definition poke8 :: "bool \<Rightarrow> nat \<Rightarrow> u8 \<Rightarrow> TagData \<Rightarrow> TagData" where
  "poke8 be off b t =
     (if off = 0 then t\<lparr>songs := b\<rparr>
      else if off = 1 then t\<lparr>def_song := b\<rparr>
      else if off = 2 then t\<lparr>ntsc := (b \<noteq> 0)\<rparr>
      else if off = 3 then t\<lparr>stereo := (b \<noteq> 0)\<rparr>
      else if off = 4 then t\<lparr>type := char_of (unat b)\<rparr>
      else if off = 6 \<or> off = 7 then t\<lparr>fastplay := set_mem_byte be (off = 7) b (fastplay t)\<rparr>
      else if off = 8 \<or> off = 9 then t\<lparr>init_addr := set_mem_byte be (off = 9) b (init_addr t)\<rparr>
      else if off = 10 \<or> off = 11 then t\<lparr>music_addr := set_mem_byte be (off = 11) b (music_addr t)\<rparr>
      else if off = 12 \<or> off = 13 then t\<lparr>player_addr := set_mem_byte be (off = 13) b (player_addr t)\<rparr>
      else if off = 14 \<or> off = 15 then t\<lparr>covox_addr := set_mem_byte be (off = 15) b (covox_addr t)\<rparr>
      else t)"

text \<open>\<open>*(static_cast<uint16_t*>(ptr)) = v\<close>: two bytes, in the host's byte order.\<close>

definition store_u16 :: "bool \<Rightarrow> nat \<Rightarrow> u16 \<Rightarrow> TagData \<Rightarrow> TagData" where
  "store_u16 be off v t =
     (let lo = (ucast v :: u8); hi = (ucast (drop_bit 8 v) :: u8)
      in poke8 be (off + 1) (if be then lo else hi) (poke8 be off (if be then hi else lo) t))"

definition store_string :: "tag_ptr \<Rightarrow> string \<Rightarrow> TagData \<Rightarrow> TagData" where
  "store_string p s t =
     (case p of P_author \<Rightarrow> t\<lparr>author := s\<rparr> | P_name \<Rightarrow> t\<lparr>name := s\<rparr>
              | P_date \<Rightarrow> t\<lparr>date := s\<rparr> | _ \<Rightarrow> t)"

subsection \<open>\<open>SAPPrivate::parseTags\<close>\<close>

datatype KeywordType = KT_UNKNOWN | KT_BOOL | KT_UINT16_DEC | KT_UINT16_HEX | KT_CHAR
  | KT_STRING | KT_TIME_LOOP

type_synonym KeywordDef = "string \<times> KeywordType \<times> tag_ptr"

definition kwds :: "KeywordDef list" where
  "kwds = [
     (''AUTHOR'', KT_STRING, P_author),
     (''NAME'', KT_STRING, P_name),
     (''DATE'', KT_STRING, P_date),
     (''SONGS'', KT_UINT16_DEC, P_songs),
     (''DEFSONG'', KT_UINT16_DEC, P_def_song),
     (''STEREO'', KT_BOOL, P_stereo),
     (''NTSC'', KT_BOOL, P_ntsc),
     (''TYPE'', KT_CHAR, P_type),
     (''FASTPLAY'', KT_UINT16_DEC, P_fastplay),
     (''INIT'', KT_UINT16_HEX, P_init_addr),
     (''MUSIC'', KT_UINT16_HEX, P_music_addr),
     (''PLAYER'', KT_UINT16_HEX, P_player_addr),
     (''COVOX'', KT_UINT16_HEX, P_covox_addr)]"

text \<open>
  The numeric cases: the parameter is converted by \<open>strtol\<close> and stored when at least one
  character was consumed and the conversion stopped at the end of the parameter or at
  white space.
\<close>

definition parse_uint16 :: "sap_host \<Rightarrow> nat \<Rightarrow> tag_ptr \<Rightarrow> string \<Rightarrow> TagData \<Rightarrow> TagData" where
  "parse_uint16 h base p params t =
     (let (val, n) = strtol (long_bits h) params base
      in if 0 < n \<and> (n = length params \<or> ISSPACE (params ! n))
         then store_u16 (big_endian h) (tag_offset p) (word_of_int val) t
         else t)"

text \<open>
  The loop over the keyword table for one line. \<open>token\<close> is the keyword (the line up to
  its first space, or up to a CR when it has no space), \<open>params\<close> the parameter, \<open>None\<close>
  for the null pointer. The first entry whose keyword matches decides; \<open>continue\<close> in
  the string case goes on with the entries after it.

  In the character case the source tests
  \<open>!ISSPACE(params[0] && (params[1] == '\0' || ISSPACE(params[1])))\<close>: the argument of
  \<open>ISSPACE\<close> is the truth value of the conjunction, 0 or 1, and neither is white space.
\<close>

fun match_kwds :: "sap_host \<Rightarrow> KeywordDef list \<Rightarrow> string \<Rightarrow> string option \<Rightarrow> TagData \<Rightarrow> TagData" where
  "match_kwds h [] token params t = t"
| "match_kwds h ((kw, ty, p) # ks) token params t =
     (if \<not> strcasecmp_eq kw token then match_kwds h ks token params t
      else case ty of
        KT_BOOL \<Rightarrow> poke8 (big_endian h) (tag_offset p) 1 t
      | KT_UINT16_DEC \<Rightarrow>
          (case params of None \<Rightarrow> t | Some ps \<Rightarrow> parse_uint16 h 10 p ps t)
      | KT_UINT16_HEX \<Rightarrow>
          (case params of None \<Rightarrow> t | Some ps \<Rightarrow> parse_uint16 h 16 p ps t)
      | KT_CHAR \<Rightarrow>
          (case params of None \<Rightarrow> t
           | Some ps \<Rightarrow>
               (let arg = (ps \<noteq> [] \<and> (length ps = 1 \<or> ISSPACE (ps ! 1)))
                in if \<not> ISSPACE (if arg then CHR 0x01 else NUL)
                   then poke8 (big_endian h) (tag_offset p) (of_nat (of_char (hd ps))) t
                   else t))
      | KT_STRING \<Rightarrow>
          (case params of None \<Rightarrow> t
           | Some ps \<Rightarrow>
               if hd ps \<noteq> CHR 0x22 then match_kwds h ks token params t
               else if CHR 0x22 \<notin> set (tl ps) then match_kwds h ks token params t
               else store_string p (latin1_to_utf8 h (takeWhile (\<lambda>c. c \<noteq> CHR 0x22) (tl ps))) t)
      | _ \<Rightarrow> t)"

text \<open>Splitting one line into keyword and parameter, then the table lookup.\<close>

definition parse_line :: "sap_host \<Rightarrow> string \<Rightarrow> TagData \<Rightarrow> TagData" where
  "parse_line h token t =
     (if CHR '' '' \<in> set token
      then (let kw = takeWhile (\<lambda>c. c \<noteq> CHR '' '') token;
                ps = dropWhile ISSPACE (tl (dropWhile (\<lambda>c. c \<noteq> CHR '' '') token))
            in match_kwds h kwds kw (if ps = [] then None else Some ps) t)
      else match_kwds h kwds (takeWhile (\<lambda>c. c \<noteq> CR) token) None t)"

text \<open>The loop over the lines; a line whose first byte is 0xFF ends the tags.\<close>

fun parse_lines :: "sap_host \<Rightarrow> string list \<Rightarrow> TagData \<Rightarrow> TagData" where
  "parse_lines h [] t = t"
| "parse_lines h (token # rest) t =
     (if hd token = CHR 0xFF then t else parse_lines h rest (parse_line h token t))"

text \<open>
  The buffer holds the bytes read and a terminating NUL, so the C string that starts at
  \<open>str\<close> ends at the first NUL byte.
\<close>

definition c_str :: "string \<Rightarrow> string" where
  "c_str s = takeWhile (\<lambda>c. c \<noteq> NUL) s"

definition parseTags :: "sap_host \<Rightarrow> char rpfile \<Rightarrow> TagData" where
  "parseTags h file =
     (let header = fst (seekAndRead file 0 4096);
          sz = length header
      in if sz < 6 then TagData_init
         else if take 5 header = [CHR ''S'', CHR ''A'', CHR ''P'', CR, LF]
         then (parse_lines h (strtok_all [] (c_str (drop 5 header))) TagData_init)\<lparr>tags_read := True\<rparr>
         else if take 4 header = [CHR ''S'', CHR ''A'', CHR ''P'', LF]
         then (parse_lines h (strtok_all [] (c_str (drop 4 header))) TagData_init)\<lparr>tags_read := True\<rparr>
         else TagData_init)"


text \<open>The example header of the specification: CRLF after the magic, three tag lines
  ended by LF, and the 0xFF byte that ends the tags.\<close>

definition sap_example :: string where
  "sap_example = ''SAP'' @ [CR, LF] @ ''AUTHOR '' @ [CHR 0x22] @ ''Foo'' @ [CHR 0x22, LF]
     @ ''SONGS 3'' @ [LF] @ ''DEFSONG 1'' @ [LF, CHR 0xFF]"

text \<open>The same header with the lines \<open>DEFSONG\<close> and \<open>SONGS\<close> in the other order.\<close>

definition sap_example_swapped :: string where
  "sap_example_swapped = ''SAP'' @ [CR, LF] @ ''AUTHOR '' @ [CHR 0x22] @ ''Foo'' @ [CHR 0x22, LF]
     @ ''DEFSONG 1'' @ [LF] @ ''SONGS 3'' @ [LF, CHR 0xFF]"

section \<open>Detection\<close>

text \<open>
  \<open>RomData::DetectInfo\<close>: the first bytes of the file (\<open>header.addr\<close>, \<open>header.size\<close>,
  \<open>header.pData\<close>), the file extension and the file size. A null \<open>pData\<close> or \<open>ext\<close> is
  \<open>None\<close>; \<open>pData\<close> points to \<open>header_size\<close> bytes. The detectors take a pointer to the
  structure, so their argument is an option, \<open>None\<close> for the null pointer. (\<open>assert\<close> is
  compiled out in a release build; the conditions the source asserts are tested again
  by the code that follows them.)
\<close>

record DetectInfo =
  header_addr :: u32
  header_size :: nat
  header_pData :: "u8 list option"
  ext :: "string option"
  szFile :: int

text \<open>\<open>memcmp(p + off, s, n) == 0\<close> for a string \<open>s\<close> of \<open>n\<close> bytes.\<close>

definition bytes_at :: "u8 list \<Rightarrow> nat \<Rightarrow> nat \<Rightarrow> u8 list" where
  "bytes_at bs off n = take n (drop off bs)"

definition ascii :: "string \<Rightarrow> u8 list" where
  "ascii s = map (\<lambda>c. of_nat (of_char c)) s"

section \<open>Xbox 360 XDBF resources (Console/Xbox360_XDBF.cpp)\<close>

subsection \<open>Structures and collaborators\<close>

text \<open>
  The base class \<open>RomDataPrivate\<close>: the open file (the member \<open>file\<close>, here \<open>rpFile\<close>;
  null when it could not be opened or was closed after a failure) and the result of
  detection.
\<close>

record RomDataPrivate =
  rpFile :: "u8 rpfile option"
  isValid :: bool

text \<open>
  Outcomes that are not a return value of the source: a read or a write past the end of
  a buffer, an access through a null pointer (undefined behaviour in C++), and a loop
  that does not end.
\<close>

datatype fault = ReadPastBuffer | WritePastBuffer | NullPointer | LoopForever

text \<open>
  The on-disk structures (xbox360_xdbf_structs.h is not among the sources). Each record
  holds the fields the code reads, as the numbers the big-endian bytes denote: the code
  compares raw fields with byte-swapped constants (\<open>cpu_to_be32\<close>) or swaps them on
  access (\<open>be32_to_cpu\<close>), which is the same comparison on the decoded values.
  \<open>entry_offset\<close>, \<open>entry_length\<close> and \<open>xstr_length\<close> are the fields \<open>offset\<close> and
  \<open>length\<close> of the source.
\<close>

record XDBF_Header =
  xdbf_magic :: u32
  xdbf_version :: u32
  entry_table_length :: u32
  entry_count :: u32
  free_space_table_length :: u32
  free_space_table_count :: u32

record XDBF_Entry =
  namespace_id :: u16
  resource_id :: u64
  entry_offset :: u32
  entry_length :: u32

record XDBF_XSTR_Header =
  xstr_magic :: u32
  xstr_version :: u32

record XDBF_XSTR_Entry_Header =
  string_id :: u16
  xstr_length :: u16

record XDBF_XACH_Header =
  xach_magic :: u32
  xach_version :: u32
  achievement_count :: u16

record XDBF_XACH_Entry =
  achievement_id :: u16
  image_id :: u32
  gamerscore :: u16
  title_id :: u16
  unlocked_desc_id :: u16
  locked_desc_id :: u16

record XDBF_XSTC =
  xstc_magic :: u32
  xstc_version :: u32
  xstc_size :: u32
  default_language :: u32

text \<open>
  What the code takes from outside this file: the size and the field layout of each
  structure (\<open>sizeof_S\<close>, and \<open>decode_S\<close> from the bytes of one \<open>S\<close>), the constants of the
  format, the PNG decoder \<open>RpPng::load\<close>, \<open>dos2unix\<close>, the system language of
  \<open>XboxLanguage::getXbox360Language\<close>, and the translated format string of the column
  that shows string IDs. \<open>'img\<close> is the decoded image, \<open>rp_image\<close>.
\<close>

record 'img xdbf_env =
  sizeof_XDBF_Header :: nat
  decode_XDBF_Header :: "u8 list \<Rightarrow> XDBF_Header"
  sizeof_XDBF_Entry :: nat
  sizeof_XSTR_Header :: nat
  decode_XSTR_Header :: "u8 list \<Rightarrow> XDBF_XSTR_Header"
  sizeof_XSTR_Entry_Header :: nat
  decode_XSTR_Entry_Header :: "u8 list \<Rightarrow> XDBF_XSTR_Entry_Header"
  sizeof_XACH_Header :: nat
  decode_XACH_Header :: "u8 list \<Rightarrow> XDBF_XACH_Header"
  sizeof_XACH_Entry :: nat
  decode_XACH_Entry :: "u8 list \<Rightarrow> XDBF_XACH_Entry"
  sizeof_XSTC :: nat
  decode_XSTC :: "u8 list \<Rightarrow> XDBF_XSTC"
  XDBF_MAGIC :: u32
  XDBF_VERSION :: u32
  XDBF_XSTR_MAGIC :: u32
  XDBF_XSTR_VERSION :: u32
  XDBF_XACH_MAGIC :: u32
  XDBF_XACH_VERSION :: u32
  XDBF_XSTC_MAGIC :: u32
  XDBF_XSTC_VERSION :: u32
  XDBF_SPA_NAMESPACE_METADATA :: u16
  XDBF_SPA_NAMESPACE_IMAGE :: u16
  XDBF_SPA_NAMESPACE_STRING_TABLE :: u16
  XDBF_LANGUAGE_UNKNOWN :: int
  XDBF_LANGUAGE_ENGLISH :: int
  XDBF_LANGUAGE_MAX :: int
  RpPng_load :: "u8 list \<Rightarrow> 'img option"
  dos2unix :: "u8 list \<Rightarrow> string"
  getXbox360Language :: int
  ids_format :: "u16 \<Rightarrow> u16 \<Rightarrow> u16 \<Rightarrow> string"

text \<open>The private data of one decoder. \<open>strTbl\<close> is indexed by language ID.\<close>

record 'img Xbox360_XDBF_Private = RomDataPrivate +
  img_icon :: "'img option"
  map_images :: "u64 \<rightharpoonup> 'img"
  xdbfHeader :: XDBF_Header
  entryTable :: "XDBF_Entry list option"
  data_offset :: u32
  m_langID :: int
  xex :: bool
  strTbl :: "int \<Rightarrow> u8 list option"

subsection \<open>\<open>findResource\<close>\<close>

text \<open>A linear scan of the first \<open>entry_table_length\<close> entries; the first match wins.\<close>

definition findResource :: "'img Xbox360_XDBF_Private \<Rightarrow> u16 \<Rightarrow> u64 \<Rightarrow> XDBF_Entry option" where
  "findResource d ns rid =
     (case entryTable d of
        None \<Rightarrow> None
      | Some tbl \<Rightarrow>
          find (\<lambda>p. namespace_id p = ns \<and> resource_id p = rid)
               (take (unat (entry_table_length (xdbfHeader d))) tbl))"

subsection \<open>\<open>loadStringTable\<close>\<close>

text \<open>
  The address of a resource is \<open>be32_to_cpu(entry->offset) + data_offset\<close> in 32-bit
  unsigned arithmetic. The result is the table (null is \<open>None\<close>) and the decoder
  afterwards; the file in it carries the read request when one was issued.
\<close>

definition loadStringTable ::
  "'img xdbf_env \<Rightarrow> 'img Xbox360_XDBF_Private \<Rightarrow> int
     \<Rightarrow> u8 list option \<times> 'img Xbox360_XDBF_Private" where
  "loadStringTable env d language_id =
     (if language_id \<le> XDBF_LANGUAGE_UNKNOWN env \<or> language_id \<ge> XDBF_LANGUAGE_MAX env
      then (None, d)
      else case strTbl d language_id of
        Some vec \<Rightarrow> (Some vec, d)
      | None \<Rightarrow>
         (case rpFile d of
            None \<Rightarrow> (None, d)
          | Some f \<Rightarrow>
             if \<not> isValid d then (None, d)
             else case findResource d (XDBF_SPA_NAMESPACE_STRING_TABLE env) (word_of_int language_id) of
               None \<Rightarrow> (None, d)
             | Some entry \<Rightarrow>
                 let str_tbl_sz = unat (entry_length entry)
                 in if str_tbl_sz \<le> sizeof_XSTR_Header env \<or> str_tbl_sz > 1024 * 1024
                    then (None, d)
                    else
                      let str_tbl_addr = entry_offset entry + data_offset d;
                          (vec, f') = seekAndRead f (unat str_tbl_addr) str_tbl_sz;
                          d' = d\<lparr>rpFile := Some f'\<rparr>;
                          tblHdr = decode_XSTR_Header env (take (sizeof_XSTR_Header env) vec)
                      in if length vec \<noteq> str_tbl_sz then (None, d')
                         else if xstr_magic tblHdr \<noteq> XDBF_XSTR_MAGIC env
                                 \<or> xstr_version tblHdr \<noteq> XDBF_XSTR_VERSION env
                         then (None, d')
                         else (Some vec, d'\<lparr>strTbl := (strTbl d')(language_id := Some vec)\<rparr>)))"

subsection \<open>\<open>loadString\<close>\<close>

text \<open>
  The scan of the string records. \<open>rest\<close> is the part of the table from \<open>p\<close> to \<open>p_end\<close>.
  The entry header is read at \<open>p\<close> whenever \<open>p < p_end\<close>, also when fewer bytes than a
  header remain. A record that does not match moves \<open>p\<close> by the header size plus the
  record's length; with a layout in which that is 0 the loop would not advance.
\<close>

function xstr_scan :: "'img xdbf_env \<Rightarrow> u16 \<Rightarrow> u8 list \<Rightarrow> fault + string" where
  "xstr_scan env sid rest =
     (if rest = [] then Inr []
      else if length rest < sizeof_XSTR_Entry_Header env then Inl ReadPastBuffer
      else
        let hdr = decode_XSTR_Entry_Header env (take (sizeof_XSTR_Entry_Header env) rest);
            len = unat (xstr_length hdr)
        in if string_id hdr = sid
           then (if sizeof_XSTR_Entry_Header env + len \<le> length rest
                 then Inr (dos2unix env (take len (drop (sizeof_XSTR_Entry_Header env) rest)))
                 else Inr [])
           else if sizeof_XSTR_Entry_Header env + len = 0 then Inl LoopForever
           else xstr_scan env sid (drop (sizeof_XSTR_Entry_Header env + len) rest))"
  by pat_completeness auto
termination
  by (relation "measure (\<lambda>(env, sid, rest). length rest)") auto

definition loadString ::
  "'img xdbf_env \<Rightarrow> 'img Xbox360_XDBF_Private \<Rightarrow> int \<Rightarrow> u16
     \<Rightarrow> (fault + string) \<times> 'img Xbox360_XDBF_Private" where
  "loadString env d language_id sid =
     (if language_id < 0 \<or> language_id \<ge> XDBF_LANGUAGE_MAX env then (Inr [], d)
      else
        let (vec, d') = (case strTbl d language_id of
                           Some v \<Rightarrow> (Some v, d)
                         | None \<Rightarrow> loadStringTable env d language_id)
        in case vec of
             None \<Rightarrow> (Inr [], d')
           | Some v \<Rightarrow> (xstr_scan env sid (drop (sizeof_XSTR_Header env) v), d'))"

subsection \<open>\<open>getLangID\<close>\<close>

text \<open>
  The function is \<open>const\<close> and loads string tables through a cast; the model returns the
  decoder it leaves behind. It reads the XSTC structure through \<open>file\<close> without a null
  check.
\<close>

definition getLangID ::
  "'img xdbf_env \<Rightarrow> 'img Xbox360_XDBF_Private \<Rightarrow> (fault + int) \<times> 'img Xbox360_XDBF_Private" where
  "getLangID env d =
     (if m_langID d \<noteq> XDBF_LANGUAGE_UNKNOWN env then (Inr (m_langID d), d)
      else
        let sysLang = getXbox360Language env;
            try1 = (if sysLang > XDBF_LANGUAGE_UNKNOWN env \<and> sysLang < XDBF_LANGUAGE_MAX env
                    then loadStringTable env d sysLang else (None, d))
        in case try1 of
          (Some _, d1) \<Rightarrow> (Inr sysLang, d1\<lparr>m_langID := sysLang\<rparr>)
        | (None, d1) \<Rightarrow>
           (case findResource d1 (XDBF_SPA_NAMESPACE_METADATA env) (ucast (XDBF_XSTC_MAGIC env)) of
              None \<Rightarrow> (Inr (XDBF_LANGUAGE_UNKNOWN env), d1)
            | Some entry \<Rightarrow>
               let addr = entry_offset entry + data_offset d1
               in if unat (entry_length entry) \<noteq> sizeof_XSTC env
                  then (Inr (XDBF_LANGUAGE_UNKNOWN env), d1)
                  else case rpFile d1 of
                    None \<Rightarrow> (Inl NullPointer, d1)
                  | Some f \<Rightarrow>
                     let (buf, f') = seekAndRead f (unat addr) (sizeof_XSTC env);
                         d2 = d1\<lparr>rpFile := Some f'\<rparr>;
                         xstc = decode_XSTC env buf;
                         langID = sint (default_language xstc)
                     in if length buf \<noteq> sizeof_XSTC env then (Inr (XDBF_LANGUAGE_UNKNOWN env), d2)
                        else if xstc_magic xstc \<noteq> XDBF_XSTC_MAGIC env
                                \<or> xstc_version xstc \<noteq> XDBF_XSTC_VERSION env
                                \<or> xstc_size xstc \<noteq> of_nat (sizeof_XSTC env) - 4
                        then (Inr (XDBF_LANGUAGE_UNKNOWN env), d2)
                        else if langID \<le> XDBF_LANGUAGE_UNKNOWN env \<or> langID \<ge> XDBF_LANGUAGE_MAX env
                        then (Inr (XDBF_LANGUAGE_UNKNOWN env), d2)
                        else case loadStringTable env d2 langID of
                          (Some _, d3) \<Rightarrow> (Inr langID, d3\<lparr>m_langID := langID\<rparr>)
                        | (None, d3) \<Rightarrow>
                           if langID \<noteq> XDBF_LANGUAGE_ENGLISH env
                           then (case loadStringTable env d3 (XDBF_LANGUAGE_ENGLISH env) of
                                   (Some _, d4) \<Rightarrow>
                                     (Inr (XDBF_LANGUAGE_ENGLISH env),
                                      d4\<lparr>m_langID := XDBF_LANGUAGE_ENGLISH env\<rparr>)
                                 | (None, d4) \<Rightarrow> (Inr (XDBF_LANGUAGE_UNKNOWN env), d4))
                           else (Inr (XDBF_LANGUAGE_UNKNOWN env), d3)))"

subsection \<open>\<open>loadImage\<close>\<close>

definition loadImage ::
  "'img xdbf_env \<Rightarrow> 'img Xbox360_XDBF_Private \<Rightarrow> u64
     \<Rightarrow> 'img option \<times> 'img Xbox360_XDBF_Private" where
  "loadImage env d image_id' =
     (case map_images d image_id' of
        Some img \<Rightarrow> (Some img, d)
      | None \<Rightarrow>
         if entryTable d = None then (None, d)
         else case rpFile d of
           None \<Rightarrow> (None, d)
         | Some f \<Rightarrow>
            if \<not> isValid d then (None, d)
            else case findResource d (XDBF_SPA_NAMESPACE_IMAGE env) image_id' of
              None \<Rightarrow> (None, d)
            | Some entry \<Rightarrow>
               let addr = entry_offset entry + data_offset d;
                   len = entry_length entry
               in if len < 16 \<or> len > 1024 * 1024 then (None, d)
                  else
                    let (png_buf, f') = seekAndRead f (unat addr) (unat len);
                        d' = d\<lparr>rpFile := Some f'\<rparr>
                    in if length png_buf \<noteq> unat len then (None, d')
                       else case RpPng_load env png_buf of
                         None \<Rightarrow> (None, d')
                       | Some img \<Rightarrow> (Some img, d'\<lparr>map_images := (map_images d')(image_id' \<mapsto> img)\<rparr>))"

subsection \<open>\<open>addFields_achievements\<close>\<close>

text \<open>\<open>rp_sprintf("%u", n)\<close>: the decimal digits of \<open>n\<close>.\<close>

fun dec_str :: "nat \<Rightarrow> string" where
  "dec_str n = (if n < 10 then [char_of (48 + n)]
                else dec_str (n div 10) @ [char_of (48 + n mod 10)])"

text \<open>The bounds on the size of the achievements table, in \<open>uint32_t\<close> arithmetic.\<close>

definition XACH_MAX_COUNT :: nat where
  "XACH_MAX_COUNT = 512"

definition XACH_MIN_SIZE :: "'img xdbf_env \<Rightarrow> u32" where
  "XACH_MIN_SIZE env = of_nat (sizeof_XACH_Header env)"

definition XACH_MAX_SIZE :: "'img xdbf_env \<Rightarrow> u32" where
  "XACH_MAX_SIZE env = XACH_MIN_SIZE env + of_nat (sizeof_XACH_Entry env * XACH_MAX_COUNT)"

text \<open>
  "Validate the entry count": \<open>count\<close> is the header's \<open>achievement_count\<close>, \<open>len\<close> the
  length of the resource. The second test is the \<open>else\<close> branch of the first.
\<close>

definition xach_count :: "'img xdbf_env \<Rightarrow> nat \<Rightarrow> nat \<Rightarrow> nat" where
  "xach_count env count len =
     (if count > XACH_MAX_COUNT then XACH_MAX_COUNT
      else if count > (len - sizeof_XACH_Header env) div sizeof_XACH_Entry env
      then (len - sizeof_XACH_Header env) div sizeof_XACH_Entry env
      else count)"

text \<open>
  The description column of one row: the title and the locked description from the
  string table, joined by a newline when both are present.
\<close>

definition xach_desc ::
  "'img xdbf_env \<Rightarrow> 'img Xbox360_XDBF_Private \<Rightarrow> int \<Rightarrow> XDBF_XACH_Entry
     \<Rightarrow> (fault + string) \<times> 'img Xbox360_XDBF_Private" where
  "xach_desc env d langID p =
     (if langID \<noteq> XDBF_LANGUAGE_UNKNOWN env
      then (case loadString env d langID (title_id p) of
              (Inl e, d1) \<Rightarrow> (Inl e, d1)
            | (Inr desc, d1) \<Rightarrow>
               (case loadString env d1 langID (locked_desc_id p) of
                  (Inl e, d2) \<Rightarrow> (Inl e, d2)
                | (Inr lck_desc, d2) \<Rightarrow>
                    (Inr (if lck_desc \<noteq> []
                          then (if desc \<noteq> [] then desc @ [LF] @ lck_desc else lck_desc)
                          else desc), d2)))
      else (Inr (ids_format env (title_id p) (locked_desc_id p) (unlocked_desc_id p)), d))"

text \<open>
  The loop over the records: \<open>off\<close> is the offset of \<open>p\<close> in the buffer that holds the
  resource, \<open>n\<close> the number of records still to go (\<open>p_end - p\<close>; the two vectors have
  \<open>xach_count\<close> elements, so the second loop condition is the same one). Each record
  gives one row of three columns and one icon. A record is read through \<open>p\<close> wherever the
  buffer ends; the model reports a record that does not lie within the buffer as a read
  past the buffer.
\<close>

fun xach_loop ::
  "'img xdbf_env \<Rightarrow> int \<Rightarrow> u8 list \<Rightarrow> nat \<Rightarrow> nat \<Rightarrow> 'img Xbox360_XDBF_Private
     \<Rightarrow> (fault + (string list list \<times> 'img option list)) \<times> 'img Xbox360_XDBF_Private" where
  "xach_loop env langID buf off 0 d = (Inr ([], []), d)"
| "xach_loop env langID buf off (Suc n) d =
     (if off + sizeof_XACH_Entry env > length buf then (Inl ReadPastBuffer, d)
      else
        let p = decode_XACH_Entry env (take (sizeof_XACH_Entry env) (drop off buf));
            (icon, d1) = loadImage env d (ucast (image_id p))
        in case xach_desc env d1 langID p of
             (Inl e, d2) \<Rightarrow> (Inl e, d2)
           | (Inr desc, d2) \<Rightarrow>
              (let data_row = [dec_str (unat (achievement_id p)), desc, dec_str (unat (gamerscore p))]
               in case xach_loop env langID buf (off + sizeof_XACH_Entry env) n d2 of
                    (Inl e, d3) \<Rightarrow> (Inl e, d3)
                  | (Inr (rows, icons), d3) \<Rightarrow> (Inr (data_row # rows, icon # icons), d3)))"

text \<open>
  The result is the return code and, with code 0, the list data added to the fields:
  the rows and their icons.
\<close>

definition addFields_achievements ::
  "'img xdbf_env \<Rightarrow> 'img Xbox360_XDBF_Private
     \<Rightarrow> (fault + int \<times> (string list list \<times> 'img option list) option)
        \<times> 'img Xbox360_XDBF_Private" where
  "addFields_achievements env d =
     (if entryTable d = None then (Inr (1, None), d)
      else case rpFile d of
        None \<Rightarrow> (Inr (2, None), d)
      | Some f \<Rightarrow>
         if \<not> isValid d then (Inr (2, None), d)
         else case findResource d (XDBF_SPA_NAMESPACE_METADATA env) (ucast (XDBF_XACH_MAGIC env)) of
           None \<Rightarrow> (Inr (3, None), d)
         | Some entry \<Rightarrow>
            let addr = entry_offset entry + data_offset d;
                len = entry_length entry
            in if len < XACH_MIN_SIZE env \<or> len > XACH_MAX_SIZE env then (Inr (4, None), d)
               else
                 let (xach_buf, f') = seekAndRead f (unat addr) (unat len);
                     d1 = d\<lparr>rpFile := Some f'\<rparr>;
                     hdr = decode_XACH_Header env (take (sizeof_XACH_Header env) xach_buf)
                 in if length xach_buf \<noteq> unat len then (Inr (5, None), d1)
                    else if xach_magic hdr \<noteq> XDBF_XACH_MAGIC env
                            \<or> xach_version hdr \<noteq> XDBF_XACH_VERSION env
                    then (Inr (6, None), d1)
                    else
                      let cnt = xach_count env (unat (achievement_count hdr)) (unat len)
                      in case getLangID env d1 of
                           (Inl e, d2) \<Rightarrow> (Inl e, d2)
                         | (Inr langID, d2) \<Rightarrow>
                            (case xach_loop env langID xach_buf (sizeof_XACH_Header env) cnt d2 of
                               (Inl e, d3) \<Rightarrow> (Inl e, d3)
                             | (Inr rows_icons, d3) \<Rightarrow> (Inr (0, Some rows_icons), d3)))"

subsection \<open>\<open>Xbox360_XDBF::isRomSupported_static\<close> and \<open>Xbox360_XDBF::init\<close>\<close>

definition XDBF_isRomSupported_static :: "'img xdbf_env \<Rightarrow> DetectInfo option \<Rightarrow> int" where
  "XDBF_isRomSupported_static env info =
     (case info of
        None \<Rightarrow> -1
      | Some i \<Rightarrow>
         (case header_pData i of
            None \<Rightarrow> -1
          | Some pData \<Rightarrow>
             if header_addr i \<noteq> 0 \<or> header_size i < sizeof_XDBF_Entry env then -1
             else
               let xdbfHeader = decode_XDBF_Header env (take (sizeof_XDBF_Header env) pData)
               in if xdbf_magic xdbfHeader = XDBF_MAGIC env
                     \<and> xdbf_version xdbfHeader = XDBF_VERSION env
                  then 0 else -1))"

text \<open>
  The decoder as the constructor leaves it before \<open>init\<close> runs: the header and the
  string table pointers cleared, the language not yet determined.
\<close>

definition XDBF_Private_new :: "'img xdbf_env \<Rightarrow> u8 rpfile option \<Rightarrow> bool \<Rightarrow> 'img Xbox360_XDBF_Private" where
  "XDBF_Private_new env f x = \<lparr>rpFile = f, isValid = False,
     img_icon = None, map_images = Map.empty,
     xdbfHeader = \<lparr>xdbf_magic = 0, xdbf_version = 0, entry_table_length = 0, entry_count = 0,
        free_space_table_length = 0, free_space_table_count = 0\<rparr>,
     entryTable = None, data_offset = 0, m_langID = XDBF_LANGUAGE_UNKNOWN env, xex = x,
     strTbl = (\<lambda>l. None)\<rparr>"

text \<open>
  \<open>init\<close> reads the header, runs the detector on it, computes the data offset and reads
  the entry table. \<open>decode_entry\<close> and \<open>sizeof_free\<close> are the layout of a table entry and
  the size of a free-space entry. The size of the entry table is computed in \<open>size_t\<close>,
  taken here to be wider than 32 bits, and the data offset is truncated to 32 bits.
  The header structure was cleared by the constructor, so after a short read the bytes
  not read are 0. The header record holds decoded values also where the source leaves
  the fields unswapped (the paths on which the decoder is invalid and the header is not
  read again).
\<close>

definition XDBF_init ::
  "'img xdbf_env \<Rightarrow> (u8 list \<Rightarrow> XDBF_Entry) \<Rightarrow> nat \<Rightarrow> 'img Xbox360_XDBF_Private
     \<Rightarrow> 'img Xbox360_XDBF_Private" where
  "XDBF_init env decode_entry sizeof_free d =
     (case rpFile d of
        None \<Rightarrow> d
      | Some f \<Rightarrow>
         let (hb, f1) = file_read (file_rewind f) (sizeof_XDBF_Header env);
             raw = decode_XDBF_Header env
                     (hb @ replicate (sizeof_XDBF_Header env - length hb) 0)
         in if length hb \<noteq> sizeof_XDBF_Header env
            then d\<lparr>xdbfHeader := raw\<lparr>xdbf_magic := 0\<rparr>, rpFile := None\<rparr>
            else
              let info = \<lparr>header_addr = 0, header_size = sizeof_XDBF_Header env,
                          header_pData = Some hb, ext = None, szFile = 0\<rparr>;
                  valid = (XDBF_isRomSupported_static env (Some info) \<ge> 0)
              in if \<not> valid
                 then d\<lparr>xdbfHeader := raw\<lparr>xdbf_magic := 0\<rparr>, rpFile := None, isValid := False\<rparr>
                 else
                   let doff = (of_nat (sizeof_XDBF_Header env)
                               + entry_table_length raw * of_nat (sizeof_XDBF_Entry env)
                               + free_space_table_length raw * of_nat sizeof_free :: u32);
                       entry_table_sz = unat (entry_table_length raw) * sizeof_XDBF_Entry env;
                       (tb, f2) = file_read f1 entry_table_sz
                   in if length tb \<noteq> entry_table_sz
                      then d\<lparr>xdbfHeader := raw\<lparr>xdbf_magic := 0\<rparr>, rpFile := None, isValid := True,
                             data_offset := doff, entryTable := None\<rparr>
                      else d\<lparr>xdbfHeader := raw, rpFile := Some f2, isValid := True,
                             data_offset := doff,
                             entryTable := Some (map (\<lambda>k. decode_entry
                                 (bytes_at tb (k * sizeof_XDBF_Entry env) (sizeof_XDBF_Entry env)))
                               [0 ..< unat (entry_table_length raw)])\<rparr>)"

subsection \<open>A reference layout and example containers\<close>

text \<open>Big-endian numbers in a byte list.\<close>

definition be_word :: "u8 list \<Rightarrow> 'a::len word" where
  "be_word bs = foldl (\<lambda>a b. a * 256 + ucast b) 0 bs"

definition be16_at :: "u8 list \<Rightarrow> nat \<Rightarrow> u16" where
  "be16_at bs off = be_word (take 2 (drop off bs))"

definition be32_at :: "u8 list \<Rightarrow> nat \<Rightarrow> u32" where
  "be32_at bs off = be_word (take 4 (drop off bs))"

text \<open>
  The layout used where a theorem evaluates the decoder on concrete bytes: packed
  structures with big-endian fields, 14-byte XSTR and XACH headers (magic, version,
  size, count), 36-byte achievement records, 18-byte table entries; no PNG decodes, and
  there is no system language.
\<close>

definition xdbf_ref :: "unit xdbf_env" where
  "xdbf_ref = \<lparr>
     sizeof_XDBF_Header = 24,
     decode_XDBF_Header = (\<lambda>bs. \<lparr>xdbf_magic = be32_at bs 0, xdbf_version = be32_at bs 4,
        entry_table_length = be32_at bs 8, entry_count = be32_at bs 12,
        free_space_table_length = be32_at bs 16, free_space_table_count = be32_at bs 20\<rparr>),
     sizeof_XDBF_Entry = 18,
     sizeof_XSTR_Header = 14,
     decode_XSTR_Header = (\<lambda>bs. \<lparr>xstr_magic = be32_at bs 0, xstr_version = be32_at bs 4\<rparr>),
     sizeof_XSTR_Entry_Header = 4,
     decode_XSTR_Entry_Header = (\<lambda>bs. \<lparr>string_id = be16_at bs 0, xstr_length = be16_at bs 2\<rparr>),
     sizeof_XACH_Header = 14,
     decode_XACH_Header = (\<lambda>bs. \<lparr>xach_magic = be32_at bs 0, xach_version = be32_at bs 4,
        achievement_count = be16_at bs 12\<rparr>),
     sizeof_XACH_Entry = 36,
     decode_XACH_Entry = (\<lambda>bs. \<lparr>achievement_id = be16_at bs 0, image_id = be32_at bs 8,
        gamerscore = be16_at bs 12, title_id = be16_at bs 2, unlocked_desc_id = be16_at bs 4,
        locked_desc_id = be16_at bs 6\<rparr>),
     sizeof_XSTC = 16,
     decode_XSTC = (\<lambda>bs. \<lparr>xstc_magic = be32_at bs 0, xstc_version = be32_at bs 4,
        xstc_size = be32_at bs 8, default_language = be32_at bs 12\<rparr>),
     XDBF_MAGIC = 0x58444246,
     XDBF_VERSION = 0x10000,
     XDBF_XSTR_MAGIC = 0x58535452,
     XDBF_XSTR_VERSION = 1,
     XDBF_XACH_MAGIC = 0x58414348,
     XDBF_XACH_VERSION = 1,
     XDBF_XSTC_MAGIC = 0x58535443,
     XDBF_XSTC_VERSION = 1,
     XDBF_SPA_NAMESPACE_METADATA = 1,
     XDBF_SPA_NAMESPACE_IMAGE = 2,
     XDBF_SPA_NAMESPACE_STRING_TABLE = 3,
     XDBF_LANGUAGE_UNKNOWN = 0,
     XDBF_LANGUAGE_ENGLISH = 1,
     XDBF_LANGUAGE_MAX = 10,
     RpPng_load = (\<lambda>bs. None),
     dos2unix = (\<lambda>bs. map (\<lambda>b. char_of (unat b)) (filter (\<lambda>b. b \<noteq> 0x0D) bs)),
     getXbox360Language = 0,
     ids_format = (\<lambda>a b c. [])\<rparr>"

text \<open>The layout of a table entry that goes with \<open>xdbf_ref\<close>.\<close>

definition be64_at :: "u8 list \<Rightarrow> nat \<Rightarrow> u64" where
  "be64_at bs off = be_word (take 8 (drop off bs))"

definition decode_XDBF_Entry_ref :: "u8 list \<Rightarrow> XDBF_Entry" where
  "decode_XDBF_Entry_ref bs = \<lparr>namespace_id = be16_at bs 0, resource_id = be64_at bs 2,
     entry_offset = be32_at bs 10, entry_length = be32_at bs 14\<rparr>"

text \<open>The 24-byte header of a container with one table entry and no free-space table.\<close>

definition xdbf_header_1 :: "u8 list" where
  "xdbf_header_1 = [0x58, 0x44, 0x42, 0x46, 0, 1, 0, 0, 0, 0, 0, 1, 0, 0, 0, 1,
                    0, 0, 0, 0, 0, 0, 0, 0]"

text \<open>
  An achievements table of 14 bytes, the header alone, whose header declares 513
  records. The container holds the header, one table entry that names these 14 bytes
  (namespace 1, ID \<open>XACH\<close>, offset 0, length 14), and the table.
\<close>

definition xach_header_513 :: "u8 list" where
  "xach_header_513 = [0x58, 0x41, 0x43, 0x48, 0, 0, 0, 1, 0, 0, 0, 0x0A, 0x02, 0x01]"

definition xach_container_513 :: "u8 list" where
  "xach_container_513 = xdbf_header_1
     @ [0, 1, 0, 0, 0, 0, 0x58, 0x41, 0x43, 0x48, 0, 0, 0, 0, 0, 0, 0, 14]
     @ xach_header_513"

definition xach_decoder_513 :: "unit Xbox360_XDBF_Private" where
  "xach_decoder_513 = XDBF_init xdbf_ref decode_XDBF_Entry_ref 8
     (XDBF_Private_new xdbf_ref (Some (open_file xach_container_513)) False)"

text \<open>
  A container cut short. Its header declares two table entries: a string table for
  language 1 of 100 bytes at offset 0 of the data, and an image with ID 0x8000 of 64
  bytes at offset 20. Only 20 bytes of data follow the entry table, so the container is
  80 bytes long and the data starts at byte 60.
\<close>

definition xstr_table_20 :: "u8 list" where
  "xstr_table_20 = [0x58, 0x53, 0x54, 0x52, 0, 0, 0, 1, 0, 0, 0, 0x0A, 0, 1,
                    0, 7, 0, 2, 0x48, 0x69]"

definition xstr_entry_100 :: XDBF_Entry where
  "xstr_entry_100 = \<lparr>namespace_id = 3, resource_id = 1, entry_offset = 0, entry_length = 100\<rparr>"

definition image_entry_64 :: XDBF_Entry where
  "image_entry_64 = \<lparr>namespace_id = 2, resource_id = 0x8000, entry_offset = 20, entry_length = 64\<rparr>"

definition xdbf_container_cut :: "u8 list" where
  "xdbf_container_cut =
     [0x58, 0x44, 0x42, 0x46, 0, 1, 0, 0, 0, 0, 0, 2, 0, 0, 0, 2, 0, 0, 0, 0, 0, 0, 0, 0]
     @ [0, 3, 0, 0, 0, 0, 0, 0, 0, 1, 0, 0, 0, 0, 0, 0, 0, 100]
     @ [0, 2, 0, 0, 0, 0, 0, 0, 0x80, 0, 0, 0, 0, 20, 0, 0, 0, 64]
     @ xstr_table_20"

definition xdbf_file_cut :: "u8 rpfile" where
  "xdbf_file_cut = \<lparr>f_data = xdbf_container_cut, f_pos = 60, f_log = [(24, 36), (0, 24)]\<rparr>"

definition xdbf_decoder_cut :: "unit Xbox360_XDBF_Private" where
  "xdbf_decoder_cut = XDBF_init xdbf_ref decode_XDBF_Entry_ref 8
     (XDBF_Private_new xdbf_ref (Some (open_file xdbf_container_cut)) False)"

section \<open>Nintendo 3DS (Nintendo3DS.cpp)\<close>

subsection \<open>Structures\<close>

text \<open>
  The structures of n3ds_structs.h, which is not among the sources, with the fields the
  code reads. Integer fields hold the numbers the little-endian (TMD: big-endian) bytes
  denote; \<open>cia_type\<close> and \<open>cia_version\<close> are the fields \<open>type\<close> and \<open>version\<close>.
\<close>

record N3DS_CIA_Header_t =
  cia_header_size :: u32
  cia_type :: u16
  cia_version :: u16
  cert_chain_size :: u32
  ticket_size :: u32
  tmd_size :: u32
  meta_size :: u32
  content_size :: u64

record N3DS_NCSD_Header_NoSig_t =
  ncsd_magic :: "u8 list"
  crypt_type :: "u8 list"
  partition_offset :: "nat \<Rightarrow> u32"
  partition_length :: "nat \<Rightarrow> u32"


subsection \<open>\<open>Nintendo3DSPrivate::toNext64\<close> and the ROM types\<close>

definition toNext64 :: "'a::len word \<Rightarrow> 'a word" where
  "toNext64 val = (val + 63) AND NOT 63"

definition ROM_TYPE_UNKNOWN :: int where "ROM_TYPE_UNKNOWN = -1"
definition ROM_TYPE_SMDH :: int where "ROM_TYPE_SMDH = 0"
definition ROM_TYPE_3DSX :: int where "ROM_TYPE_3DSX = 1"
definition ROM_TYPE_CCI :: int where "ROM_TYPE_CCI = 2"
definition ROM_TYPE_eMMC :: int where "ROM_TYPE_eMMC = 3"
definition ROM_TYPE_CIA :: int where "ROM_TYPE_CIA = 4"

subsection \<open>\<open>Nintendo3DS::isRomSupported_static\<close>\<close>






subsection \<open>The claim's reading of the CIA test, and an example\<close>



text \<open>Little-endian numbers in a byte list.\<close>

definition le_word :: "u8 list \<Rightarrow> 'a::len word" where
  "le_word bs = foldr (\<lambda>b a. a * 256 + ucast b) bs 0"

definition le16_at :: "u8 list \<Rightarrow> nat \<Rightarrow> u16" where
  "le16_at bs off = le_word (take 2 (drop off bs))"

definition le32_at :: "u8 list \<Rightarrow> nat \<Rightarrow> u32" where
  "le32_at bs off = le_word (take 4 (drop off bs))"

definition le64_at :: "u8 list \<Rightarrow> nat \<Rightarrow> u64" where
  "le64_at bs off = le_word (take 8 (drop off bs))"







section \<open>Xbox 360 XEX executables (Console/Xbox360_XEX.cpp)\<close>

subsection \<open>Structures and collaborators\<close>

text \<open>
  The structures of xbox360_xex_structs.h, which is not among the sources, with the
  fields the code reads, as the numbers their big-endian bytes denote. \<open>opt_offset\<close> is
  the field \<open>offset\<close> of an optional header table entry, \<open>ffi_size\<close> the field \<open>size\<close> of
  the file format info.
\<close>

record XEX2_Header =
  xex2_magic :: u32
  module_flags :: u32
  pe_offset :: u32
  reserved :: u32
  sec_info_offset :: u32
  opt_header_count :: u32

record XEX2_Security_Info =
  title_key :: "u8 list"
  load_address :: u32

record XEX2_Optional_Header_Tbl =
  header_id :: u32
  opt_offset :: u32

record XEX2_File_Format_Info =
  ffi_size :: u32
  encryption_type :: u16
  compression_type :: u16

record XEX2_Compression_Basic_Info =
  data_size :: u32
  zero_size :: u32

record BasicZDataSeg_t =
  vaddr :: u32
  physaddr :: u32
  seg_length :: u32

text \<open>
  What the code takes from outside this file. The layout and constants of the
  structures; whether the build has \<open>ENABLE_DECRYPTION\<close>; the key manager, which gives
  the key of a name when it is present and passes verification against the given data;
  the AES cipher (\<open>cipher_init key\<close>: \<open>setKey\<close> and \<open>setChainingMode(CM_CBC)\<close> both
  returned 0; \<open>cipher_decrypt key iv data\<close>: the decrypted data, \<open>None\<close> when the length
  returned is not the length of the data); the reader \<open>CBCReader\<close> over a range of the
  file, decrypting with a key and an IV when given; and what uninitialised memory holds.
  \<open>'rd\<close> is a \<open>CBCReader\<close>. \<open>encode_XEX2_File_Format_Info\<close> gives the bytes of a file
  format info, most significant byte first: the layout read the other way.
\<close>

record 'rd xex_env =
  xex_host_big_endian :: bool
  sizeof_XEX2_Header :: nat
  decode_XEX2_Header :: "u8 list \<Rightarrow> XEX2_Header"
  XEX2_MAGIC :: u32
  sizeof_XEX2_Security_Info :: nat
  decode_XEX2_Security_Info :: "u8 list \<Rightarrow> XEX2_Security_Info"
  sizeof_XEX2_Optional_Header_Tbl :: nat
  decode_XEX2_Optional_Header_Tbl :: "u8 list \<Rightarrow> XEX2_Optional_Header_Tbl"
  sizeof_XEX2_File_Format_Info :: nat
  decode_XEX2_File_Format_Info :: "u8 list \<Rightarrow> XEX2_File_Format_Info"
  encode_XEX2_File_Format_Info :: "XEX2_File_Format_Info \<Rightarrow> u8 list"
  sizeof_XEX2_Compression_Basic_Info :: nat
  decode_XEX2_Compression_Basic_Info :: "u8 list \<Rightarrow> XEX2_Compression_Basic_Info"
  XEX2_OPTHDR_FILE_FORMAT_INFO :: u32
  XEX2_COMPRESSION_TYPE_NONE :: u16
  XEX2_COMPRESSION_TYPE_BASIC :: u16
  XEX2_ENCRYPTION_TYPE_NONE :: u16
  ENABLE_DECRYPTION :: bool
  KeyManager_getAndVerify :: "string \<Rightarrow> u8 list \<Rightarrow> u8 list option"
  cipher_init :: "u8 list \<Rightarrow> bool"
  cipher_decrypt :: "u8 list \<Rightarrow> u8 list \<Rightarrow> u8 list \<Rightarrow> u8 list option"
  CBCReader_new :: "u8 rpfile \<Rightarrow> nat \<Rightarrow> nat \<Rightarrow> (u8 list \<times> u8 list) option \<Rightarrow> 'rd"
  CBCReader_isOpen :: "'rd \<Rightarrow> bool"
  CBCReader_read :: "'rd \<Rightarrow> nat \<Rightarrow> u8 list \<times> 'rd"
  uninit_byte :: "nat \<Rightarrow> u8"
  uninit_seg :: BasicZDataSeg_t

text \<open>
  The private data of the decoder. The members \<open>peFile\<close> and \<open>pe_xdbf\<close>, which only
  \<open>initXDBF\<close> sets, are left out. \<open>fileFormatInfo\<close> holds the values of its fields as
  the host reads them: after the byte swap of \<open>initPeReader\<close> these are the numbers the
  big-endian bytes denote, on either kind of host.
\<close>

record 'rd Xbox360_XEX_Private = RomDataPrivate +
  xex2Header :: XEX2_Header
  xex2Security :: XEX2_Security_Info
  optHdrTbl :: "XEX2_Optional_Header_Tbl list"
  fileFormatInfo :: XEX2_File_Format_Info
  keyInUse :: int
  basicZDataSegments :: "BasicZDataSeg_t list"
  peReader :: "'rd option"

subsection \<open>\<open>getOptHdrTblEntry\<close>\<close>

definition getOptHdrTblEntry ::
  "'rd Xbox360_XEX_Private \<Rightarrow> u32 \<Rightarrow> XEX2_Optional_Header_Tbl option" where
  "getOptHdrTblEntry d hid =
     (if optHdrTbl d = [] then None
      else find (\<lambda>e. header_id e = hid) (optHdrTbl d))"

subsection \<open>\<open>Xbox360_XEX::isRomSupported_static\<close> and the constructor\<close>

definition XEX_isRomSupported_static :: "'rd xex_env \<Rightarrow> DetectInfo option \<Rightarrow> int" where
  "XEX_isRomSupported_static env info =
     (case info of
        None \<Rightarrow> -1
      | Some i \<Rightarrow>
         (case header_pData i of
            None \<Rightarrow> -1
          | Some pData \<Rightarrow>
             if header_addr i \<noteq> 0 \<or> header_size i < sizeof_XEX2_Header env then -1
             else if xex2_magic (decode_XEX2_Header env (take (sizeof_XEX2_Header env) pData))
                       = XEX2_MAGIC env
             then 0 else -1))"

text \<open>The decoder as \<open>Xbox360_XEX_Private\<close>'s constructor leaves it: headers cleared.\<close>

definition XEX_Private_new :: "u8 rpfile option \<Rightarrow> 'rd Xbox360_XEX_Private" where
  "XEX_Private_new f = \<lparr>rpFile = f, isValid = False,
     xex2Header = \<lparr>xex2_magic = 0, module_flags = 0, pe_offset = 0, reserved = 0,
                    sec_info_offset = 0, opt_header_count = 0\<rparr>,
     xex2Security = \<lparr>title_key = replicate 16 0, load_address = 0\<rparr>,
     optHdrTbl = [],
     fileFormatInfo = \<lparr>ffi_size = 0, encryption_type = 0, compression_type = 0\<rparr>,
     keyInUse = -1, basicZDataSegments = [], peReader = None\<rparr>"

text \<open>
  The body of the constructor \<open>Xbox360_XEX::Xbox360_XEX\<close>. The optional header table
  is read with at most 32 entries, whatever the header declares. After a short read the
  structure being read holds the bytes that were read and zeros (it was cleared before).
\<close>

definition XEX_init :: "'rd xex_env \<Rightarrow> 'rd Xbox360_XEX_Private \<Rightarrow> 'rd Xbox360_XEX_Private" where
  "XEX_init env d =
     (case rpFile d of
        None \<Rightarrow> d
      | Some f \<Rightarrow>
         let (hb, f1) = file_read (file_rewind f) (sizeof_XEX2_Header env);
             raw = decode_XEX2_Header env (hb @ replicate (sizeof_XEX2_Header env - length hb) 0)
         in if length hb \<noteq> sizeof_XEX2_Header env
            then d\<lparr>xex2Header := raw\<lparr>xex2_magic := 0\<rparr>, rpFile := None\<rparr>
            else
              let info = \<lparr>header_addr = 0, header_size = sizeof_XEX2_Header env,
                          header_pData = Some hb, ext = None, szFile = 0\<rparr>;
                  valid = (XEX_isRomSupported_static env (Some info) \<ge> 0)
              in if \<not> valid
                 then d\<lparr>xex2Header := raw\<lparr>xex2_magic := 0\<rparr>, rpFile := None, isValid := False\<rparr>
                 else
                   let (sb, f2) = seekAndRead f1 (unat (sec_info_offset raw))
                                    (sizeof_XEX2_Security_Info env);
                       sec = decode_XEX2_Security_Info env
                               (sb @ replicate (sizeof_XEX2_Security_Info env - length sb) 0)
                   in if length sb \<noteq> sizeof_XEX2_Security_Info env
                      then d\<lparr>xex2Header := raw\<lparr>xex2_magic := 0\<rparr>, xex2Security := sec,
                             rpFile := None, isValid := True\<rparr>
                      else
                        let opt_header_count' = min (unat (opt_header_count raw)) 32;
                            opt_header_sz = opt_header_count' * sizeof_XEX2_Optional_Header_Tbl env;
                            (ob, f3) = seekAndRead f2 (sizeof_XEX2_Header env) opt_header_sz
                        in if length ob \<noteq> opt_header_sz
                           then d\<lparr>xex2Header := raw\<lparr>xex2_magic := 0\<rparr>, xex2Security := sec,
                                  optHdrTbl := [], rpFile := None, isValid := True\<rparr>
                           else d\<lparr>xex2Header := raw, xex2Security := sec,
                                  optHdrTbl := map (\<lambda>k. decode_XEX2_Optional_Header_Tbl env
                                      (bytes_at ob (k * sizeof_XEX2_Optional_Header_Tbl env)
                                         (sizeof_XEX2_Optional_Header_Tbl env)))
                                    [0 ..< opt_header_count'],
                                  rpFile := Some f3, isValid := True\<rparr>)"

text \<open>
  The optional header table as the file declares it: \<open>opt_header_count\<close> entries that
  follow the header. This is what the constructor is compared with, not a part of it.
\<close>

definition declared_opt_headers :: "'rd xex_env \<Rightarrow> u8 list \<Rightarrow> XEX2_Optional_Header_Tbl list" where
  "declared_opt_headers env bs =
     map (\<lambda>k. decode_XEX2_Optional_Header_Tbl env
              (bytes_at bs (sizeof_XEX2_Header env + k * sizeof_XEX2_Optional_Header_Tbl env)
                 (sizeof_XEX2_Optional_Header_Tbl env)))
       [0 ..< unat (opt_header_count (decode_XEX2_Header env (take (sizeof_XEX2_Header env) bs)))]"

subsection \<open>\<open>initPeReader\<close>\<close>

definition byteswap16 :: "u16 \<Rightarrow> u16" where
  "byteswap16 w = push_bit 8 w OR drop_bit 8 w"

definition cpu_to_be16 :: "'rd xex_env \<Rightarrow> u16 \<Rightarrow> u16" where
  "cpu_to_be16 env w = (if xex_host_big_endian env then w else byteswap16 w)"

definition zero16 :: "u8 list" where
  "zero16 = replicate 16 0"

text \<open>The name and the verification data of the retail key, from the source.\<close>

definition EncryptionKeyNames_0 :: string where
  "EncryptionKeyNames_0 = ''xbox360-xex-retail''"

definition EncryptionKeyVerifyData_0 :: "u8 list" where
  "EncryptionKeyVerifyData_0 = [0xAC, 0xA0, 0xC9, 0xE3, 0x78, 0xD3, 0xC6, 0x54,
                                0xA3, 0x1D, 0x65, 0x67, 0x38, 0xAB, 0xB0, 0x6B]"

text \<open>
  The keys the loop goes through, with their indices: the retail key (0) when the key
  manager has it and it passes verification, then the debug key (1), which is all zero.
\<close>

definition key_candidates :: "'rd xex_env \<Rightarrow> (int \<times> u8 list) list" where
  "key_candidates env =
     (case KeyManager_getAndVerify env EncryptionKeyNames_0 EncryptionKeyVerifyData_0 of
        Some retail \<Rightarrow> [(0, retail), (1, zero16)]
      | None \<Rightarrow> [(1, zero16)])"

text \<open>\<open>(size_t)file->size() - xex2Header.pe_offset\<close>, in a \<open>size_t\<close> of 64 bits.\<close>

definition pe_length :: "'rd Xbox360_XEX_Private \<Rightarrow> u8 rpfile \<Rightarrow> nat" where
  "pe_length d f = (file_size f + 2 ^ 64 - unat (pe_offset (xex2Header d))) mod 2 ^ 64"

text \<open>
  One pass of the loop for one key: the cipher is set up, the title key is decrypted
  with it, a reader over the PE image is opened with the decrypted title key, and the
  first two bytes read through it are compared with \<open>MZ\<close>. \<open>None\<close> is \<open>continue\<close>; the
  result is the reader after the two bytes were read.
\<close>

definition try_key :: "'rd xex_env \<Rightarrow> 'rd Xbox360_XEX_Private \<Rightarrow> u8 rpfile \<Rightarrow> u8 list \<Rightarrow> 'rd option" where
  "try_key env d f key =
     (if \<not> cipher_init env key then None
      else case cipher_decrypt env key zero16 (title_key (xex2Security d)) of
        None \<Rightarrow> None
      | Some title_key' \<Rightarrow>
         let reader = CBCReader_new env f (unat (pe_offset (xex2Header d))) (pe_length d f)
                        (Some (title_key', zero16))
         in if \<not> CBCReader_isOpen env reader then None
            else
              let (mz, reader') = CBCReader_read env reader 2
              in if length mz \<noteq> 2 then None
                 else if mz \<noteq> [0x4D, 0x5A] then None
                 else Some reader')"

fun try_keys ::
  "'rd xex_env \<Rightarrow> 'rd Xbox360_XEX_Private \<Rightarrow> u8 rpfile \<Rightarrow> (int \<times> u8 list) list
     \<Rightarrow> (int \<times> 'rd) option" where
  "try_keys env d f [] = None"
| "try_keys env d f ((i, key) # rest) =
     (case try_key env d f key of
        None \<Rightarrow> try_keys env d f rest
      | Some reader \<Rightarrow> Some (i, reader))"

text \<open>
  The second half of \<open>initPeReader\<close>, from the computation of the length of the PE
  image on: the reader is created without a key when the image is not encrypted, and by
  the loop over the keys otherwise, which exists only with \<open>ENABLE_DECRYPTION\<close>.
\<close>

definition open_pe_reader ::
  "'rd xex_env \<Rightarrow> 'rd Xbox360_XEX_Private \<Rightarrow> u8 rpfile
     \<Rightarrow> 'rd option \<times> 'rd Xbox360_XEX_Private" where
  "open_pe_reader env d f =
     (if encryption_type (fileFormatInfo d) = cpu_to_be16 env (XEX2_ENCRYPTION_TYPE_NONE env)
      then (let reader = CBCReader_new env f (unat (pe_offset (xex2Header d))) (pe_length d f) None
            in if CBCReader_isOpen env reader then (Some reader, d\<lparr>peReader := Some reader\<rparr>)
               else (None, d))
      else if ENABLE_DECRYPTION env
      then (case try_keys env d f (key_candidates env) of
              None \<Rightarrow> (None, d)
            | Some (i, reader) \<Rightarrow>
               if CBCReader_isOpen env reader
               then (Some reader, d\<lparr>keyInUse := i, peReader := Some reader\<rparr>)
               else (None, d\<lparr>keyInUse := i\<rparr>))
      else (None, d))"

text \<open>
  The file format info in memory before the byte swap. On a little-endian host a field
  read from big-endian bytes is the byte-swapped number; \<open>host_File_Format_Info\<close> is the
  structure as the host reads it from given bytes, and \<open>bytes_of_File_Format_Info\<close> the
  bytes in memory of a structure the host reads as given.
\<close>

definition byteswap32 :: "u32 \<Rightarrow> u32" where
  "byteswap32 w = push_bit 24 w OR push_bit 8 (w AND 0xFF00)
                  OR (drop_bit 8 w AND 0xFF00) OR drop_bit 24 w"

definition byteswap_File_Format_Info :: "XEX2_File_Format_Info \<Rightarrow> XEX2_File_Format_Info" where
  "byteswap_File_Format_Info r =
     \<lparr>ffi_size = byteswap32 (ffi_size r), encryption_type = byteswap16 (encryption_type r),
      compression_type = byteswap16 (compression_type r)\<rparr>"

definition host_File_Format_Info :: "'rd xex_env \<Rightarrow> u8 list \<Rightarrow> XEX2_File_Format_Info" where
  "host_File_Format_Info env bs =
     (if xex_host_big_endian env then decode_XEX2_File_Format_Info env bs
      else byteswap_File_Format_Info (decode_XEX2_File_Format_Info env bs))"

definition bytes_of_File_Format_Info :: "'rd xex_env \<Rightarrow> XEX2_File_Format_Info \<Rightarrow> u8 list" where
  "bytes_of_File_Format_Info env r =
     encode_XEX2_File_Format_Info env
       (if xex_host_big_endian env then r else byteswap_File_Format_Info r)"

text \<open>
  The segments of basic compression: the virtual and physical address of each data
  block. The table of \<open>seg_len\<close> bytes is read into an array of \<open>seg_count\<close> records, which
  is shorter when \<open>seg_len\<close> is not a multiple of the size of a record (the source
  asserts that it is; the assertion is compiled out in a release build): the read then
  writes past the array when the file delivers that many bytes. The size read is not
  checked and the array is not initialised. The vector \<open>basicZDataSegments\<close> does not
  initialise its elements either (\<open>ao::uvector\<close>); it is resized to the length of the table
  in bytes, keeping the elements it had, and the loop fills the first \<open>seg_count\<close>.

  After a short read of the file format info the function returns before the byte
  swap: the structure then holds the bytes that were read, in front of the bytes it
  held before, as the host reads them.
\<close>

definition uvector_resize :: "nat \<Rightarrow> 'a \<Rightarrow> 'a list \<Rightarrow> 'a list" where
  "uvector_resize n u xs = take n xs @ replicate (n - length xs) u"

fun basic_segments :: "u32 \<Rightarrow> u32 \<Rightarrow> XEX2_Compression_Basic_Info list \<Rightarrow> BasicZDataSeg_t list" where
  "basic_segments va pa [] = []"
| "basic_segments va pa (p # ps) =
     \<lparr>vaddr = va, physaddr = pa, seg_length = data_size p\<rparr>
       # basic_segments (va + data_size p + zero_size p) (pa + data_size p) ps"

definition initPeReader ::
  "'rd xex_env \<Rightarrow> 'rd Xbox360_XEX_Private
     \<Rightarrow> (fault + 'rd option) \<times> 'rd Xbox360_XEX_Private" where
  "initPeReader env d =
     (case peReader d of
        Some reader \<Rightarrow> (Inr (Some reader), d)
      | None \<Rightarrow>
         (case getOptHdrTblEntry d (XEX2_OPTHDR_FILE_FORMAT_INFO env) of
            None \<Rightarrow> (Inr None, d)
          | Some entry \<Rightarrow>
             (case rpFile d of
                None \<Rightarrow> (Inl NullPointer, d)
              | Some f \<Rightarrow>
                 let (fb, f1) = seekAndRead f (unat (opt_offset entry))
                                  (sizeof_XEX2_File_Format_Info env)
                 in if length fb \<noteq> sizeof_XEX2_File_Format_Info env
                    then (Inr None, d\<lparr>rpFile := Some f1,
                            fileFormatInfo := host_File_Format_Info env
                              (fb @ drop (length fb)
                                      (bytes_of_File_Format_Info env (fileFormatInfo d)))\<rparr>)
                    else
                      let ffi = decode_XEX2_File_Format_Info env fb;
                          d1 = d\<lparr>rpFile := Some f1, fileFormatInfo := ffi\<rparr>
                      in if compression_type ffi = XEX2_COMPRESSION_TYPE_BASIC env
                            \<and> compression_type ffi \<noteq> XEX2_COMPRESSION_TYPE_NONE env
                         then
                           (if unat (ffi_size ffi) \<le> sizeof_XEX2_File_Format_Info env
                            then (Inr None, d1)
                            else
                              let seg_len = unat (ffi_size ffi - of_nat (sizeof_XEX2_File_Format_Info env));
                                  seg_count = seg_len div sizeof_XEX2_Compression_Basic_Info env;
                                  cbi_size = seg_count * sizeof_XEX2_Compression_Basic_Info env;
                                  (cb, f2) = file_read f1 seg_len;
                                  cbi = cb @ map (uninit_byte env) [length cb ..< cbi_size];
                                  segs = basic_segments 0 0
                                    (map (\<lambda>k. decode_XEX2_Compression_Basic_Info env
                                         (bytes_at cbi (k * sizeof_XEX2_Compression_Basic_Info env)
                                            (sizeof_XEX2_Compression_Basic_Info env)))
                                       [0 ..< seg_count]);
                                  d2 = d1\<lparr>rpFile := Some f2,
                                         basicZDataSegments := segs
                                           @ drop seg_count
                                               (uvector_resize seg_len (uninit_seg env)
                                                  (basicZDataSegments d1))\<rparr>
                              in if length cb > cbi_size
                                 then (Inl WritePastBuffer, d1\<lparr>rpFile := Some f2\<rparr>)
                                 else (case open_pe_reader env d2 f2 of (r, d3) \<Rightarrow> (Inr r, d3)))
                         else (case open_pe_reader env d1 f1 of (r, d3) \<Rightarrow> (Inr r, d3)))))"

subsection \<open>A reference layout, a stand-in cipher and example files\<close>

text \<open>
  The layout used at concrete inputs: a 24-byte header, 8-byte optional header table
  entries, an 8-byte file format info, and a security info cut down to the title key
  and the load address. The cipher is a stand-in, not AES: every byte is combined by XOR
  with the first byte of the key. A reader is the bytes of its range after decryption,
  and its position. The key manager has a retail key of sixteen bytes 0x11.
\<close>

definition be_bytes :: "nat \<Rightarrow> 'a::len word \<Rightarrow> u8 list" where
  "be_bytes n w = map (\<lambda>k. ucast (drop_bit (8 * (n - 1 - k)) w)) [0 ..< n]"

definition xor_key :: "u8 list \<Rightarrow> u8 list \<Rightarrow> u8 list" where
  "xor_key key bs = map (\<lambda>b. b XOR hd key) bs"

definition retail_key_ref :: "u8 list" where
  "retail_key_ref = replicate 16 0x11"

definition xex_ref :: "(u8 list \<times> nat) xex_env" where
  "xex_ref = \<lparr>
     xex_host_big_endian = False,
     sizeof_XEX2_Header = 24,
     decode_XEX2_Header = (\<lambda>bs. \<lparr>xex2_magic = be32_at bs 0, module_flags = be32_at bs 4,
        pe_offset = be32_at bs 8, reserved = be32_at bs 12, sec_info_offset = be32_at bs 16,
        opt_header_count = be32_at bs 20\<rparr>),
     XEX2_MAGIC = 0x58455832,
     sizeof_XEX2_Security_Info = 20,
     decode_XEX2_Security_Info = (\<lambda>bs. \<lparr>title_key = take 16 bs, load_address = be32_at bs 16\<rparr>),
     sizeof_XEX2_Optional_Header_Tbl = 8,
     decode_XEX2_Optional_Header_Tbl = (\<lambda>bs. \<lparr>header_id = be32_at bs 0, opt_offset = be32_at bs 4\<rparr>),
     sizeof_XEX2_File_Format_Info = 8,
     decode_XEX2_File_Format_Info = (\<lambda>bs. \<lparr>ffi_size = be32_at bs 0,
        encryption_type = be16_at bs 4, compression_type = be16_at bs 6\<rparr>),
     encode_XEX2_File_Format_Info = (\<lambda>r. be_bytes 4 (ffi_size r)
        @ be_bytes 2 (encryption_type r) @ be_bytes 2 (compression_type r)),
     sizeof_XEX2_Compression_Basic_Info = 8,
     decode_XEX2_Compression_Basic_Info = (\<lambda>bs. \<lparr>data_size = be32_at bs 0, zero_size = be32_at bs 4\<rparr>),
     XEX2_OPTHDR_FILE_FORMAT_INFO = 0x3FF,
     XEX2_COMPRESSION_TYPE_NONE = 0,
     XEX2_COMPRESSION_TYPE_BASIC = 1,
     XEX2_ENCRYPTION_TYPE_NONE = 0,
     ENABLE_DECRYPTION = True,
     KeyManager_getAndVerify = (\<lambda>name verify. Some retail_key_ref),
     cipher_init = (\<lambda>key. True),
     cipher_decrypt = (\<lambda>key iv bs. Some (xor_key key bs)),
     CBCReader_new = (\<lambda>f off len keyiv.
        (case keyiv of
           None \<Rightarrow> take len (drop off (f_data f))
         | Some (key, iv) \<Rightarrow> xor_key key (take len (drop off (f_data f))), 0)),
     CBCReader_isOpen = (\<lambda>rd. True),
     CBCReader_read = (\<lambda>rd n. (take n (drop (snd rd) (fst rd)),
                                (fst rd, snd rd + length (take n (drop (snd rd) (fst rd)))))),
     uninit_byte = (\<lambda>k. 0),
     uninit_seg = \<lparr>vaddr = 0, physaddr = 0, seg_length = 0\<rparr>\<rparr>"

text \<open>The same, with a key manager that does not have the retail key.\<close>

definition xex_ref_no_retail :: "(u8 list \<times> nat) xex_env" where
  "xex_ref_no_retail = xex_ref\<lparr>KeyManager_getAndVerify := (\<lambda>name verify. None)\<rparr>"

text \<open>
  An XEX file whose header declares 33 optional headers, with IDs 1 to 33; the security
  info follows the table, at byte 288.
\<close>

definition xex_file_33 :: "u8 list" where
  "xex_file_33 = [0x58, 0x45, 0x58, 0x32, 0, 0, 0, 0, 0, 0, 0, 0, 0, 0, 0, 0,
                  0, 0, 1, 0x20, 0, 0, 0, 33]
     @ concat (map (\<lambda>k. [0, 0, 0, of_nat (k + 1), 0, 0, 0, 0]) [0 ..< 33])
     @ replicate 20 0"

text \<open>
  Three PE images of four bytes for the key loop. The title key of the example decoders
  is all zero, so with the stand-in cipher the retail key decrypts an image by XOR with
  0x11 and the debug key leaves it as it is. The images begin with MZ after decryption
  with the retail key, with the debug key, and with neither.
\<close>

definition pe_retail :: "u8 list" where
  "pe_retail = [0x5C, 0x4B, 0x81, 0x11]"

definition pe_debug :: "u8 list" where
  "pe_debug = [0x4D, 0x5A, 0x90, 0x00]"

definition pe_garbage :: "u8 list" where
  "pe_garbage = [0x00, 0x01, 0x02, 0x03]"

text \<open>
  A decoder before \<open>initPeReader\<close>: one optional header, the file format info, at byte 4
  of the file; the file is the four bytes of a PE image and the file format info
  (size 8, encryption type 1, no compression).
\<close>

definition xex_with_ffi :: "u8 list \<Rightarrow> (u8 list \<times> nat) Xbox360_XEX_Private" where
  "xex_with_ffi pe = (XEX_Private_new (Some (open_file (pe @ [0, 0, 0, 8, 0, 1, 0, 0]))))
     \<lparr>isValid := True, optHdrTbl := [\<lparr>header_id = 0x3FF, opt_offset = 4\<rparr>]\<rparr>"

text \<open>The same decoder after the file format info was read, and its file.\<close>

definition xex_file_after_ffi :: "u8 list \<Rightarrow> u8 rpfile" where
  "xex_file_after_ffi pe = \<lparr>f_data = pe @ [0, 0, 0, 8, 0, 1, 0, 0], f_pos = 12, f_log = [(4, 8)]\<rparr>"

definition xex_after_ffi :: "u8 list \<Rightarrow> (u8 list \<times> nat) Xbox360_XEX_Private" where
  "xex_after_ffi pe = (xex_with_ffi pe)
     \<lparr>rpFile := Some (xex_file_after_ffi pe),
      fileFormatInfo := \<lparr>ffi_size = 8, encryption_type = 1, compression_type = 0\<rparr>\<rparr>"

section \<open>Nintendo 3DS: the lazy loaders (Nintendo3DS.cpp)\<close>

subsection \<open>Seeking with a result\<close>

text \<open>
  Modelled from the spec: \<open>seek(abs_offset)\<close> of the file collaborator reports success
  (0) or failure. The loaders pass a signed 64-bit offset; the model lets the seek fail
  for a negative offset and leaves the position alone then. A seek past the end
  succeeds, and the read after it is short.
\<close>

definition file_seek_ret :: "'a rpfile \<Rightarrow> int \<Rightarrow> int \<times> 'a rpfile" where
  "file_seek_ret f pos = (if pos < 0 then (-1, f) else (0, file_seek f (nat pos)))"

text \<open>
  \<open>read(&buf, n)\<close> into a structure that has content already: the bytes read replace
  the beginning of the buffer.
\<close>

definition read_into :: "u8 list \<Rightarrow> u8 list \<Rightarrow> u8 list" where
  "read_into buf got = got @ drop (length got) buf"

subsection \<open>Structures and the decoder's state\<close>

text \<open>
  More structures of n3ds_structs.h, with the fields the loaders read. The TMD and its
  content chunk records are big-endian, the NCCH header is little-endian;
  \<open>ncch_program_id\<close> is \<open>program_id.id\<close> and \<open>ncch_flags\<close> the array \<open>flags[8]\<close>.
\<close>

record N3DS_TMD_Header_t =
  tmd_content_count :: u16

record N3DS_Content_Chunk_Record_t =
  chunk_index :: u16
  chunk_size :: u64

record N3DS_NCCH_Header_NoSig_t =
  ncch_magic :: "u8 list"
  ncch_program_id :: u64
  ncch_exheader_size :: u32
  ncch_flags :: "nat \<Rightarrow> u8"

text \<open>
  The layout and the constants of n3ds_structs.h, the build option
  \<open>ENABLE_DECRYPTION\<close>, and the collaborators: \<open>aes_getInstance\<close> tells whether
  \<open>AesCipherFactory::getInstance()\<close> (crypto/AesCipherFactory.cpp) returns a cipher
  rather than null, \<open>aes_ctr_decrypt key counter data\<close> is the number of bytes the cipher
  reports and the data it leaves behind, and \<open>open_srl file offset length\<close> is the attempt
  to open a DSiWare SRL through DiscReader, PartitionFile and NintendoDS (an object when
  all three are open and valid), with the file as the attempt leaves it.
\<close>

record 'srl n3ds_load_env =
  sizeof_N3DS_NCCH_Header_NoSig_t :: nat
  sizeof_N3DS_NCCH_Header_t :: nat
  decode_NCCH_Header_NoSig :: "u8 list \<Rightarrow> N3DS_NCCH_Header_NoSig_t"
  N3DS_NCCH_HEADER_MAGIC :: "u8 list"
  N3DS_NCCH_FLAG_BIT_MASKS :: nat
  N3DS_NCCH_BIT_MASK_NoCrypto :: u8
  N3DS_NCCH_BIT_MASK_FixedCryptoKey :: u8
  N3DS_NCCH_EXHEADER_MIN_SIZE :: u32
  N3DS_NCCH_SECTION_EXHEADER :: u8
  sizeof_N3DS_NCCH_ExHeader_t :: nat
  sizeof_N3DS_TMD_Header_t :: nat
  sizeof_N3DS_TMD_t :: nat
  decode_TMD_Header :: "u8 list \<Rightarrow> N3DS_TMD_Header_t"
  sizeof_N3DS_Content_Chunk_Record_t :: nat
  decode_Content_Chunk_Record :: "u8 list \<Rightarrow> N3DS_Content_Chunk_Record_t"
  N3DS_TMD_RSA_4096_SHA1 :: u32
  N3DS_TMD_RSA_2048_SHA1 :: u32
  N3DS_TMD_EC_SHA1 :: u32
  N3DS_TMD_RSA_4096_SHA256 :: u32
  N3DS_TMD_RSA_2048_SHA256 :: u32
  N3DS_TMD_ECDSA_SHA256 :: u32
  N3DS_ENABLE_DECRYPTION :: bool
  aes_getInstance :: bool
  aes_ctr_decrypt :: "u8 list \<Rightarrow> u8 list \<Rightarrow> u8 list \<Rightarrow> nat \<times> u8 list"
  open_srl :: "u8 rpfile \<Rightarrow> u32 \<Rightarrow> u32 \<Rightarrow> 'srl option \<times> u8 rpfile"

text \<open>
  \<open>Nintendo3DSPrivate\<close>, with the members the loaders use. \<open>headers_loaded\<close> is the
  bitmask of \<open>HeadersPresent\<close>. The members of the union \<open>mxh\<close> are separate fields: the
  CIA members are used only with \<open>romType\<close> CIA and the NCSD header only with CCI, and
  no loader changes \<open>romType\<close>. The structures that \<open>read\<close> fills (\<open>tmd_header\<close>,
  \<open>ncch_header\<close>, \<open>ncch_exheader\<close>) are kept as their bytes and decoded on access, so
  that a short read leaves what it leaves in the source; \<open>ncch_offset\<close> is the 64 bits
  of the \<open>int64_t\<close>.
\<close>

record 'srl Nintendo3DSPrivate = RomDataPrivate +
  romType :: int
  headers_loaded :: u32
  media_unit_shift :: u8
  cia_header :: N3DS_CIA_Header_t
  tmd_header :: "u8 list"
  content_start_addr :: u32
  ncsd_header :: N3DS_NCSD_Header_NoSig_t
  content_count :: nat
  content_chunks :: "N3DS_Content_Chunk_Record_t list option"
  ncch_offset :: u64
  ncch_length :: u32
  ncch_header :: "u8 list"
  ncch_exheader :: "u8 list"
  srlData :: "'srl option"

text \<open>\<open>enum HeadersPresent\<close>; \<open>HEADER_EXHEADER\<close> and \<open>HEADER_3DSX\<close> are both \<open>1 << 2\<close>.\<close>

definition HEADER_NONE :: u32 where "HEADER_NONE = 0"
definition HEADER_SMDH :: u32 where "HEADER_SMDH = 2 ^ 0"
definition HEADER_NCCH :: u32 where "HEADER_NCCH = 2 ^ 1"
definition HEADER_EXHEADER :: u32 where "HEADER_EXHEADER = 2 ^ 2"
definition HEADER_3DSX :: u32 where "HEADER_3DSX = 2 ^ 2"
definition HEADER_CIA :: u32 where "HEADER_CIA = 2 ^ 3"
definition HEADER_TMD :: u32 where "HEADER_TMD = 2 ^ 4"
definition HEADER_NCSD :: u32 where "HEADER_NCSD = 2 ^ 5"

subsection \<open>\<open>loadTMD\<close>\<close>

text \<open>The length of the signature and its padding, by the low three bits of the type.\<close>

definition tmd_sig_len :: "'srl n3ds_load_env \<Rightarrow> u32 \<Rightarrow> u32 option" where
  "tmd_sig_len env signature_type =
     (let t = signature_type AND 0x07
      in if t = N3DS_TMD_RSA_4096_SHA1 env AND 0x07 \<or> t = N3DS_TMD_RSA_4096_SHA256 env AND 0x07
         then Some (4 + 0x200 + 0x3C)
         else if t = N3DS_TMD_RSA_2048_SHA1 env AND 0x07 \<or> t = N3DS_TMD_RSA_2048_SHA256 env AND 0x07
         then Some (4 + 0x100 + 0x3C)
         else if t = N3DS_TMD_EC_SHA1 env AND 0x07 \<or> t = N3DS_TMD_ECDSA_SHA256 env AND 0x07
         then Some (4 + 0x3C + 0x40)
         else None)"

definition decode_chunks ::
  "'srl n3ds_load_env \<Rightarrow> nat \<Rightarrow> u8 list \<Rightarrow> N3DS_Content_Chunk_Record_t list" where
  "decode_chunks env n bs =
     map (\<lambda>k. decode_Content_Chunk_Record env
                 (bytes_at bs (k * sizeof_N3DS_Content_Chunk_Record_t env)
                              (sizeof_N3DS_Content_Chunk_Record_t env))) [0..<n]"

text \<open>
  The end of \<open>loadTMD\<close>: the check for DSiWare, which reads \<open>content_chunks[0]\<close> also
  when the TMD declares no content, and the mark in \<open>headers_loaded\<close>.
\<close>

definition mark_TMD ::
  "'srl Nintendo3DSPrivate \<Rightarrow> (fault + int) \<times> 'srl Nintendo3DSPrivate" where
  "mark_TMD d = (Inr 0, d\<lparr>headers_loaded := headers_loaded d OR HEADER_TMD\<rparr>)"

definition loadTMD_srl ::
  "'srl n3ds_load_env \<Rightarrow> 'srl Nintendo3DSPrivate \<Rightarrow> u8 rpfile
     \<Rightarrow> (fault + int) \<times> 'srl Nintendo3DSPrivate" where
  "loadTMD_srl env d f =
     (if content_count d \<le> 2 \<and> srlData d = None
      then (case content_chunks d of
              None \<Rightarrow> (Inl NullPointer, d)
            | Some cs \<Rightarrow>
               if cs = [] then (Inl ReadPastBuffer, d)
               else
                 let len = (ucast (chunk_size (hd cs)) :: u32)
                 in if len \<ge> 0x8000
                    then (let (srl, f1) = open_srl env f (content_start_addr d) len
                          in mark_TMD (d\<lparr>rpFile := Some f1,
                                          srlData := (case srl of Some s \<Rightarrow> Some s
                                                      | None \<Rightarrow> srlData d)\<rparr>))
                    else mark_TMD d)
      else mark_TMD d)"

text \<open>The middle of \<open>loadTMD\<close>: the TMD header and the content chunk records.\<close>

definition loadTMD_read ::
  "'srl n3ds_load_env \<Rightarrow> 'srl Nintendo3DSPrivate \<Rightarrow> u8 rpfile \<Rightarrow> u32 \<Rightarrow> u32
     \<Rightarrow> (fault + int) \<times> 'srl Nintendo3DSPrivate" where
  "loadTMD_read env d f tmd_start sig_len =
     (let tmdsz = tmd_size (cia_header d)
      in if unat tmdsz < sizeof_N3DS_TMD_t env + unat sig_len then (Inr (-5), d)
         else
           let addr = tmd_start + sig_len;
               (ret, f1) = file_seek_ret f (uint addr)
           in if ret \<noteq> 0 then (Inr (-6), d\<lparr>rpFile := Some f1\<rparr>)
              else
                let (got, f2) = file_read f1 (sizeof_N3DS_TMD_Header_t env);
                    d2 = d\<lparr>rpFile := Some f2, tmd_header := read_into (tmd_header d) got\<rparr>
                in if length got \<noteq> sizeof_N3DS_TMD_Header_t env then (Inr (-7), d2)
                   else
                     let addr2 = addr + of_nat (sizeof_N3DS_TMD_t env);
                         (ret2, f3) = file_seek_ret f2 (uint addr2)
                     in if ret2 \<noteq> 0 then (Inr (-8), d2\<lparr>rpFile := Some f3\<rparr>)
                        else
                          let cc = unat (tmd_content_count (decode_TMD_Header env (tmd_header d2)));
                              content_chunks_size = cc * sizeof_N3DS_Content_Chunk_Record_t env;
                              (cgot, f4) = file_read f3 content_chunks_size
                          in if length cgot \<noteq> content_chunks_size
                             then (Inr (-9), d2\<lparr>rpFile := Some f4, content_count := 0,
                                                content_chunks := None\<rparr>)
                             else loadTMD_srl env
                                    (d2\<lparr>rpFile := Some f4, content_count := cc,
                                        content_chunks := Some (decode_chunks env cc cgot),
                                        content_start_addr := tmd_start + toNext64 tmdsz\<rparr>) f4)"

definition loadTMD ::
  "'srl n3ds_load_env \<Rightarrow> 'srl Nintendo3DSPrivate
     \<Rightarrow> (fault + int) \<times> 'srl Nintendo3DSPrivate" where
  "loadTMD env d =
     (if headers_loaded d AND HEADER_TMD \<noteq> 0 then (Inr 0, d)
      else if romType d \<noteq> ROM_TYPE_CIA then (Inr (-1), d)
      else case rpFile d of
        None \<Rightarrow> (Inl NullPointer, d)
      | Some f \<Rightarrow>
         let tmd_start = toNext64 (cia_header_size (cia_header d))
                         + toNext64 (cert_chain_size (cia_header d))
                         + toNext64 (ticket_size (cia_header d));
             (ret, f1) = file_seek_ret f (uint tmd_start)
         in if ret \<noteq> 0 then (Inr (-2), d\<lparr>rpFile := Some f1\<rparr>)
            else
              let (sigb, f2) = file_read f1 4;
                  d2 = d\<lparr>rpFile := Some f2\<rparr>;
                  signature_type = be32_at sigb 0
              in if length sigb \<noteq> 4 then (Inr (-3), d2)
                 else if signature_type AND 0xFFFFFFF8 \<noteq> 0x00010000 then (Inr (-4), d2)
                 else case tmd_sig_len env signature_type of
                   None \<Rightarrow> (Inr (-4), d2)
                 | Some sig_len \<Rightarrow> loadTMD_read env d2 f2 tmd_start sig_len)"

subsection \<open>\<open>loadNCCH\<close>\<close>

text \<open>
  The result of \<open>loadNCCH(idx, pNcchHeader, pOffset, pLength)\<close>: the return value, the
  bytes of \<open>*pNcchHeader\<close> afterwards (they are overwritten by the read also when the
  function then fails), the offset and the length (written to \<open>*pOffset\<close> and \<open>*pLength\<close>
  on success only), and the decoder. The buffer is passed as its bytes, so the test for
  a null \<open>pNcchHeader\<close> (return value -100) has no counterpart.
\<close>

type_synonym 'srl ncch_result =
  "(fault + int) \<times> u8 list \<times> u64 \<times> u32 \<times> 'srl Nintendo3DSPrivate"

text \<open>
  The part the CIA and the CCI case share: seek to the header behind the 0x100 bytes of
  signature, read it, and (after the \<open>switch\<close>) compare the magic number.
\<close>

definition read_NCCH_header ::
  "'srl n3ds_load_env \<Rightarrow> 'srl Nintendo3DSPrivate \<Rightarrow> u8 list \<Rightarrow> u64 \<Rightarrow> u32
     \<Rightarrow> 'srl ncch_result" where
  "read_NCCH_header env d hdr offset len =
     (case rpFile d of
        None \<Rightarrow> (Inl NullPointer, hdr, offset, len, d)
      | Some f \<Rightarrow>
         let (ret, f1) = file_seek_ret f (sint (offset + 0x100))
         in if ret \<noteq> 0 then (Inr (-4), hdr, offset, len, d\<lparr>rpFile := Some f1\<rparr>)
            else
              let (got, f2) = file_read f1 (sizeof_N3DS_NCCH_Header_NoSig_t env);
                  hdr2 = read_into hdr got;
                  d2 = d\<lparr>rpFile := Some f2\<rparr>
              in if length got \<noteq> sizeof_N3DS_NCCH_Header_NoSig_t env
                 then (Inr (-5), hdr2, offset, len, d2)
                 else if ncch_magic (decode_NCCH_Header_NoSig env hdr2) \<noteq> N3DS_NCCH_HEADER_MAGIC env
                 then (Inr (-99), hdr2, offset, len, d2)
                 else (Inr 0, hdr2, offset, len, d2))"

text \<open>
  The loop over the content chunk records of a CIA: the offset of the chunk with the
  index looked for, and its length cut to 32 bits; length 0 when no chunk has the index.
\<close>

fun cia_find ::
  "int \<Rightarrow> N3DS_Content_Chunk_Record_t list \<Rightarrow> u64 \<Rightarrow> u64 \<times> u32" where
  "cia_find idx [] offset = (offset, 0)"
| "cia_find idx (c # cs) offset =
     (if uint (chunk_index c) = idx then (offset, ucast (chunk_size c))
      else cia_find idx cs (offset + toNext64 (chunk_size c)))"

definition loadNCCH_idx ::
  "'srl n3ds_load_env \<Rightarrow> 'srl Nintendo3DSPrivate \<Rightarrow> int \<Rightarrow> u8 list \<Rightarrow> 'srl ncch_result" where
  "loadNCCH_idx env d idx hdr =
     (if romType d = ROM_TYPE_CIA
      then (if headers_loaded d AND HEADER_CIA = 0 then (Inr (-1), hdr, 0, 0, d)
            else case loadTMD env d of
              (Inl e, d1) \<Rightarrow> (Inl e, hdr, 0, 0, d1)
            | (Inr r, d1) \<Rightarrow>
               if r \<noteq> 0 then (Inr (-2), hdr, 0, 0, d1)
               else if idx mod 2 ^ 32 \<ge> int (content_count d1) then (Inr (-3), hdr, 0, 0, d1)
               else case content_chunks d1 of
                 None \<Rightarrow> (Inl NullPointer, hdr, 0, 0, d1)
               | Some cs \<Rightarrow>
                  if length cs < content_count d1
                     \<and> \<not> list_ex (\<lambda>c. uint (chunk_index c) = idx) cs
                  then (Inl ReadPastBuffer, hdr, 0, 0, d1)
                  else
                    let (offset, len) = cia_find idx (take (content_count d1) cs) 0
                    in if len = 0 then (Inr (-4), hdr, offset, len, d1)
                       else read_NCCH_header env d1 hdr
                              (offset + ucast (content_start_addr d1)) len)
      else if romType d = ROM_TYPE_CCI
      then (if headers_loaded d AND HEADER_NCSD = 0 then (Inr (-1), hdr, 0, 0, d)
            else if idx < 0 \<or> idx \<ge> 8 then (Inr (-2), hdr, 0, 0, d)
            else
              let offset = push_bit (unat (media_unit_shift d))
                             (ucast (partition_offset (ncsd_header d) (nat idx)) :: u64);
                  len = push_bit (unat (media_unit_shift d))
                          (partition_length (ncsd_header d) (nat idx))
              in if sint offset \<le> 0x2000 then (Inr (-3), hdr, offset, len, d)
                 else read_NCCH_header env d hdr offset len)
      else (Inr (-98), hdr, 0, 0, d))"

text \<open>\<open>loadNCCH(void)\<close>, for the primary content: index 0, into \<open>this->ncch_header\<close>.\<close>

definition loadNCCH ::
  "'srl n3ds_load_env \<Rightarrow> 'srl Nintendo3DSPrivate
     \<Rightarrow> (fault + int) \<times> 'srl Nintendo3DSPrivate" where
  "loadNCCH env d =
     (if headers_loaded d AND HEADER_NCCH \<noteq> 0 then (Inr 0, d)
      else case loadNCCH_idx env d 0 (ncch_header d) of
        (ret, hdr, offset, len, d1) \<Rightarrow>
          if ret = Inr 0
          then (Inr 0, d1\<lparr>ncch_header := hdr, ncch_offset := offset, ncch_length := len,
                           headers_loaded := headers_loaded d1 OR HEADER_NCCH\<rparr>)
          else (ret, d1\<lparr>ncch_header := hdr\<rparr>))"

subsection \<open>\<open>loadExHeader\<close>\<close>

text \<open>The eight bytes of a 64-bit number, most significant first.\<close>

definition be_bytes64 :: "u64 \<Rightarrow> u8 list" where
  "be_bytes64 w = map (\<lambda>k. ucast (drop_bit (8 * (7 - k)) w)) [0..<8]"

definition mark_EXHEADER ::
  "'srl Nintendo3DSPrivate \<Rightarrow> (fault + int) \<times> 'srl Nintendo3DSPrivate" where
  "mark_EXHEADER d = (Inr 0, d\<lparr>headers_loaded := headers_loaded d OR HEADER_EXHEADER\<rparr>)"

text \<open>
  The part of \<open>loadExHeader\<close> after the crypto settings are accepted. The declared size
  is rounded up to 16 and read into \<open>ncch_exheader\<close> with no comparison against the size
  of that structure; when the file delivers more bytes than the structure holds, the
  write runs past it. The rest of the structure is zeroed, and unless the \<open>NoCrypto\<close> bit
  is set (\<open>no_crypto\<close>) the bytes are decrypted in place with the zero key, through a
  cipher that is used without a null check.
\<close>

definition read_ExHeader ::
  "'srl n3ds_load_env \<Rightarrow> 'srl Nintendo3DSPrivate \<Rightarrow> N3DS_NCCH_Header_NoSig_t \<Rightarrow> bool
     \<Rightarrow> (fault + int) \<times> 'srl Nintendo3DSPrivate" where
  "read_ExHeader env d h no_crypto =
     (let exheader_offset = ncch_offset d + of_nat (sizeof_N3DS_NCCH_Header_t env)
      in if ncch_exheader_size h < N3DS_NCCH_EXHEADER_MIN_SIZE env then (Inr (-96), d)
         else
           let exheader_length = unat ((ncch_exheader_size h + 15) AND NOT 15)
           in case rpFile d of
                None \<Rightarrow> (Inl NullPointer, d)
              | Some f \<Rightarrow>
                 let (ret, f1) = file_seek_ret f (sint exheader_offset)
                 in if ret \<noteq> 0 then (Inr (-97), d\<lparr>rpFile := Some f1\<rparr>)
                    else
                      let (got, f2) = file_read f1 exheader_length
                      in if length got > sizeof_N3DS_NCCH_ExHeader_t env
                         then (Inl WritePastBuffer, d\<lparr>rpFile := Some f2\<rparr>)
                         else
                           let d2 = d\<lparr>rpFile := Some f2,
                                      ncch_exheader := read_into (ncch_exheader d) got\<rparr>
                           in if length got \<noteq> exheader_length then (Inr (-98), d2)
                              else
                                let d3 = (if exheader_length < sizeof_N3DS_NCCH_ExHeader_t env
                                          then d2\<lparr>ncch_exheader :=
                                                    take exheader_length (ncch_exheader d2)
                                                    @ replicate (sizeof_N3DS_NCCH_ExHeader_t env
                                                                 - exheader_length) 0\<rparr>
                                          else d2)
                                in if N3DS_ENABLE_DECRYPTION env \<and> \<not> no_crypto
                                   then (if \<not> aes_getInstance env then (Inl NullPointer, d3)
                                         else
                                           let counter = be_bytes64 (ncch_program_id h)
                                                         @ [N3DS_NCCH_SECTION_EXHEADER env]
                                                         @ replicate 7 0;
                                               (n, buf) = aes_ctr_decrypt env zero16 counter
                                                            (take exheader_length (ncch_exheader d3));
                                               d4 = d3\<lparr>ncch_exheader :=
                                                         read_into (ncch_exheader d3) buf\<rparr>
                                           in if n \<noteq> exheader_length then (Inr (-99), d4)
                                              else mark_EXHEADER d4)
                                   else mark_EXHEADER d3)"

definition loadExHeader ::
  "'srl n3ds_load_env \<Rightarrow> 'srl Nintendo3DSPrivate
     \<Rightarrow> (fault + int) \<times> 'srl Nintendo3DSPrivate" where
  "loadExHeader env d =
     (if headers_loaded d AND HEADER_EXHEADER \<noteq> 0 then (Inr 0, d)
      else case (if headers_loaded d AND HEADER_NCCH = 0 then loadNCCH env d else (Inr 0, d)) of
        (Inl e, d1) \<Rightarrow> (Inl e, d1)
      | (Inr ret, d1) \<Rightarrow>
         if ret \<noteq> 0 then (Inr (-2), d1)
         else
           let h = decode_NCCH_Header_NoSig env (ncch_header d1);
               bit_masks = ncch_flags h (N3DS_NCCH_FLAG_BIT_MASKS env);
               no_crypto = (bit_masks AND N3DS_NCCH_BIT_MASK_NoCrypto env \<noteq> 0);
               fixed_key = (bit_masks AND N3DS_NCCH_BIT_MASK_FixedCryptoKey env \<noteq> 0)
           in if (if N3DS_ENABLE_DECRYPTION env then \<not> no_crypto \<and> \<not> fixed_key
                  else \<not> no_crypto)
              then (Inr (-95), d1)
              else read_ExHeader env d1 h no_crypto)"

subsection \<open>Example images\<close>

text \<open>
  The layout used at concrete inputs: an NCCH header of 0x200 bytes, 0x100 of them the
  signature; behind the signature the magic first, the program ID at 0x18, the ExHeader
  size at 0x80 and the flags at 0x88, with the bit masks in flag 7 (\<open>NoCrypto\<close> 0x04,
  \<open>FixedCryptoKey\<close> 0x01); an ExHeader structure of 2048 bytes, of which at least 1024
  must be declared; a build without decryption.
\<close>

definition n3ds_load_ref :: "unit n3ds_load_env" where
  "n3ds_load_ref = \<lparr>
     sizeof_N3DS_NCCH_Header_NoSig_t = 0x100,
     sizeof_N3DS_NCCH_Header_t = 0x200,
     decode_NCCH_Header_NoSig = (\<lambda>bs. \<lparr>ncch_magic = take 4 bs, ncch_program_id = le64_at bs 0x18,
        ncch_exheader_size = le32_at bs 0x80,
        ncch_flags = (\<lambda>k. le_word (take 1 (drop (0x88 + k) bs)))\<rparr>),
     N3DS_NCCH_HEADER_MAGIC = ascii ''NCCH'',
     N3DS_NCCH_FLAG_BIT_MASKS = 7,
     N3DS_NCCH_BIT_MASK_NoCrypto = 0x04,
     N3DS_NCCH_BIT_MASK_FixedCryptoKey = 0x01,
     N3DS_NCCH_EXHEADER_MIN_SIZE = 1024,
     N3DS_NCCH_SECTION_EXHEADER = 1,
     sizeof_N3DS_NCCH_ExHeader_t = 2048,
     sizeof_N3DS_TMD_Header_t = 0xC4,
     sizeof_N3DS_TMD_t = 0x9C4,
     decode_TMD_Header = (\<lambda>bs. \<lparr>tmd_content_count = be16_at bs 0x9E\<rparr>),
     sizeof_N3DS_Content_Chunk_Record_t = 0x30,
     decode_Content_Chunk_Record = (\<lambda>bs. \<lparr>chunk_index = be16_at bs 4, chunk_size = be64_at bs 8\<rparr>),
     N3DS_TMD_RSA_4096_SHA1 = 0x00010000,
     N3DS_TMD_RSA_2048_SHA1 = 0x00010001,
     N3DS_TMD_EC_SHA1 = 0x00010002,
     N3DS_TMD_RSA_4096_SHA256 = 0x00010003,
     N3DS_TMD_RSA_2048_SHA256 = 0x00010004,
     N3DS_TMD_ECDSA_SHA256 = 0x00010005,
     N3DS_ENABLE_DECRYPTION = False,
     aes_getInstance = False,
     aes_ctr_decrypt = (\<lambda>key counter bs. (length bs, bs)),
     open_srl = (\<lambda>f offset len. (None, f))\<rparr>"

text \<open>
  An NCCH header without its signature: the magic, an ExHeader size of 1024, and the
  bit masks given.
\<close>

definition ncch_header_bytes :: "u8 \<Rightarrow> u8 list" where
  "ncch_header_bytes bit_masks =
     ascii ''NCCH'' @ replicate 0x7C 0 @ [0x00, 0x04, 0, 0] @ replicate 4 0
     @ [0, 0, 0, 0, 0, 0, 0, bit_masks] @ replicate 0x70 0"

text \<open>
  A cartridge image: partition 0 starts at media unit 0x11, which is byte 0x2200 with
  the shift 9; the NCCH header follows the signature at 0x2300, and from 0x2400 on
  there are 1024 bytes of ExHeader.
\<close>

definition cci_file :: "u8 \<Rightarrow> u8 list" where
  "cci_file bit_masks = replicate 0x2300 0 @ ncch_header_bytes bit_masks @ replicate 1024 0x41"

text \<open>
  The decoder as the constructor leaves it for such an image: type CCI, the NCSD header
  loaded and nothing else.
\<close>

definition cci_decoder :: "u8 \<Rightarrow> unit Nintendo3DSPrivate" where
  "cci_decoder bit_masks = \<lparr>
     rpFile = Some (open_file (cci_file bit_masks)), isValid = True,
     romType = ROM_TYPE_CCI, headers_loaded = HEADER_NCSD, media_unit_shift = 9,
     cia_header = \<lparr>cia_header_size = 0, cia_type = 0, cia_version = 0, cert_chain_size = 0,
                   ticket_size = 0, tmd_size = 0, meta_size = 0, content_size = 0\<rparr>,
     tmd_header = replicate 0xC4 0, content_start_addr = 0,
     ncsd_header = \<lparr>ncsd_magic = ascii ''NCSD'', crypt_type = replicate 8 0,
                    partition_offset = (\<lambda>k. if k = 0 then 0x11 else 0),
                    partition_length = (\<lambda>k. if k = 0 then 0x3 else 0)\<rparr>,
     content_count = 0, content_chunks = None,
     ncch_offset = 0, ncch_length = 0,
     ncch_header = replicate 0x100 0, ncch_exheader = replicate 2048 0,
     srlData = None\<rparr>"

subsection \<open>An XDBF container with its string table\<close>

text \<open>
  The container that was cut short, whole: the 80 bytes that were missing from the
  string table of language 1 are present (zero bytes), so the table of 100 bytes ends
  with the file at byte 160.
\<close>

definition xdbf_container_whole :: "u8 list" where
  "xdbf_container_whole = xdbf_container_cut @ replicate 80 0"

definition xdbf_decoder_whole :: "unit Xbox360_XDBF_Private" where
  "xdbf_decoder_whole = XDBF_init xdbf_ref decode_XDBF_Entry_ref 8
     (XDBF_Private_new xdbf_ref (Some (open_file xdbf_container_whole)) False)"

section \<open>Properties of the SAP tag parser\<close>

lemma long_max_ge: "32 \<le> n \<Longrightarrow> (2147483647::int) \<le> 2 ^ (n - Suc 0) - 1"
proof -
  assume "32 \<le> n"
  then have "(2::int) ^ 31 \<le> 2 ^ (n - Suc 0)"
    by (intro power_increasing) simp_all
  then show ?thesis by simp
qed

lemma set_hi_set_lo: "set_hi (ucast (drop_bit 8 v)) (set_lo (ucast v) w) = v"
  by (rule bit_word_eqI) (auto simp: set_hi_def set_lo_def bit_simps)

lemma set_lo_set_hi: "set_lo (ucast v) (set_hi (ucast (drop_bit 8 v)) w) = v"
  by (rule bit_word_eqI) (auto simp: set_hi_def set_lo_def bit_simps)

lemma store_u16_fastplay: "store_u16 be 6 v t = t\<lparr>fastplay := v\<rparr>"
  by (cases be)
    (simp_all add: store_u16_def poke8_def set_mem_byte_def set_hi_set_lo set_lo_set_hi)

lemmas sap_eval = parseTags_def open_file_def seekAndRead_def file_read_def file_seek_def
  CR_def LF_def NUL_def c_str_def parse_line_def kwds_def strcasecmp_eq_def to_upper_def
  parse_uint16_def strtol_def ISSPACE_def is_digit_def digit_val_def digits_value_def
  store_string_def

lemma is_digit_10: "is_digit 10 c \<longleftrightarrow> 48 \<le> (of_char c :: nat) \<and> (of_char c :: nat) \<le> 57"
  by (auto simp: is_digit_def digit_val_def Let_def)

lemma digit_not_space: "is_digit 10 c \<Longrightarrow> \<not> ISSPACE c"
  by (auto simp: is_digit_10 ISSPACE_def)

lemma digit_not_sign: "is_digit 10 c \<Longrightarrow> c \<noteq> CHR ''-'' \<and> c \<noteq> CHR ''+''"
  by (auto simp: is_digit_10)

lemma parse_line_FASTPLAY:
  assumes "ps \<noteq> []" and "\<not> ISSPACE (hd ps)"
  shows "parse_line h (''FASTPLAY '' @ ps) t = parse_uint16 h 10 P_fastplay ps t"
proof -
  obtain p ps' where ps: "ps = p # ps'" using assms(1) by (cases ps) auto
  with assms(2) have "\<not> ISSPACE p" by simp
  then show ?thesis
    by (simp add: ps parse_line_def kwds_def strcasecmp_eq_def to_upper_def Let_def char_of_def)
qed

lemma strtol_digits:
  assumes "ds \<noteq> []" and "\<forall>c\<in>set ds. is_digit 10 c"
    and "tail = [] \<or> \<not> is_digit 10 (hd tail)"
  shows "strtol lb (ds @ tail) 10
           = (min (int (digits_value 10 ds)) (2 ^ (lb - 1) - 1), length ds)"
proof -
  obtain p ds' where ds: "ds = p # ds'" using assms(1) by (cases ds) auto
  have p: "is_digit 10 p" using assms(2) ds by simp
  have tw: "takeWhile (is_digit 10) (ds @ tail) = ds"
  proof -
    have "takeWhile (is_digit 10) (ds @ tail) = ds @ takeWhile (is_digit 10) tail"
      using assms(2) by (intro takeWhile_append2) simp
    moreover have "takeWhile (is_digit 10) tail = []"
      using assms(3) by (cases tail) auto
    ultimately show ?thesis by simp
  qed
  have sp: "takeWhile ISSPACE (ds @ tail) = []" "dropWhile ISSPACE (ds @ tail) = ds @ tail"
    using digit_not_space [OF p] by (simp_all add: ds)
  show ?thesis
    unfolding strtol_def sp Let_def
    using digit_not_sign [OF p] tw assms(1)
    by (simp add: ds split: list.splits)
qed

lemma parse_uint16_digits:
  assumes "ds \<noteq> []" and "\<forall>c\<in>set ds. is_digit 10 c"
  shows "parse_uint16 h 10 P_fastplay ds t
           = t\<lparr>fastplay := word_of_int (min (int (digits_value 10 ds)) (2 ^ (long_bits h - 1) - 1))\<rparr>"
    and "\<not> is_digit 10 c \<Longrightarrow> parse_uint16 h 10 P_fastplay (ds @ c # rest) t
           = (if ISSPACE c
              then t\<lparr>fastplay := word_of_int (min (int (digits_value 10 ds))
                                                   (2 ^ (long_bits h - 1) - 1))\<rparr>
              else t)"
  using assms strtol_digits [OF assms, of "[]" "long_bits h"]
    strtol_digits [OF assms, of "c # rest" "long_bits h"]
  by (simp_all add: parse_uint16_def store_u16_fastplay nth_append)

text \<open>
  C3. The example header of the specification, parsed on a host of either byte order.
  \<open>SONGS\<close> and \<open>DEFSONG\<close> are stored as two bytes into one-byte fields, so each also
  writes the field that follows. On a little-endian host the byte that follows gets the
  high byte, 0: the example parses to author "Foo", songs 3, def_song 1, both flags
  false and every other field at the value the constructor gives it, because \<open>DEFSONG\<close>
  comes after \<open>SONGS\<close> and \<open>ntsc\<close> is still false when it is zeroed. On a big-endian host
  the field itself gets the high byte and the next one the number: songs and def_song
  come out 0 and \<open>ntsc\<close> true. With the two lines in the other order the result is
  wrong on either host: def_song is 0 on a little-endian one. (The host's \<open>long\<close> has at
  least 32 bits, and its Latin-1 conversion leaves \<open>Foo\<close> as it is.)
\<close>

theorem parseTags_example_by_host:
  assumes "32 \<le> long_bits h" and "latin1_to_utf8 h ''Foo'' = ''Foo''"
  shows "parseTags h (open_file sap_example) =
    \<lparr>tags_read = True, author = ''Foo'', name = [], date = [],
     songs = (if big_endian h then 0 else 3), def_song = (if big_endian h then 0 else 1),
     ntsc = big_endian h, stereo = False, type = NUL,
     fastplay = 0, init_addr = 0, music_addr = 0, player_addr = 0, covox_addr = 0\<rparr>
   \<and> parseTags h (open_file sap_example_swapped) =
    \<lparr>tags_read = True, author = ''Foo'', name = [], date = [],
     songs = (if big_endian h then 0 else 3), def_song = (if big_endian h then 3 else 0),
     ntsc = big_endian h, stereo = False, type = NUL,
     fastplay = 0, init_addr = 0, music_addr = 0, player_addr = 0, covox_addr = 0\<rparr>"
  using assms long_max_ge [of "long_bits h"]
  by (cases "big_endian h")
     (simp_all add: sap_eval sap_example_def sap_example_swapped_def Let_def store_u16_def poke8_def
        TagData_init_def)

text \<open>
  On the big-endian host of 64 bits the example gives songs 0, def_song 0 and
  \<open>ntsc\<close> true; on the little-endian one it gives what the specification says, and the
  header with the two lines in the other order gives def_song 0.
\<close>

theorem parseTags_example_by_host_witness:
  "32 \<le> long_bits host_be64 \<and> latin1_to_utf8 host_be64 ''Foo'' = ''Foo''
   \<and> big_endian host_be64
   \<and> parseTags host_be64 (open_file sap_example) =
    \<lparr>tags_read = True, author = ''Foo'', name = [], date = [],
     songs = 0, def_song = 0, ntsc = True, stereo = False, type = NUL,
     fastplay = 0, init_addr = 0, music_addr = 0, player_addr = 0, covox_addr = 0\<rparr>
   \<and> 32 \<le> long_bits host_le64 \<and> latin1_to_utf8 host_le64 ''Foo'' = ''Foo''
   \<and> \<not> big_endian host_le64
   \<and> parseTags host_le64 (open_file sap_example) =
    \<lparr>tags_read = True, author = ''Foo'', name = [], date = [],
     songs = 3, def_song = 1, ntsc = False, stereo = False, type = NUL,
     fastplay = 0, init_addr = 0, music_addr = 0, player_addr = 0, covox_addr = 0\<rparr>
   \<and> parseTags host_le64 (open_file sap_example_swapped) =
    \<lparr>tags_read = True, author = ''Foo'', name = [], date = [],
     songs = 3, def_song = 0, ntsc = False, stereo = False, type = NUL,
     fastplay = 0, init_addr = 0, music_addr = 0, player_addr = 0, covox_addr = 0\<rparr>"
proof -
  have b: "32 \<le> long_bits host_be64" "latin1_to_utf8 host_be64 ''Foo'' = ''Foo''"
    "big_endian host_be64"
    by (simp_all add: host_be64_def latin1_to_utf8_std_def)
  have l: "32 \<le> long_bits host_le64" "latin1_to_utf8 host_le64 ''Foo'' = ''Foo''"
    "\<not> big_endian host_le64"
    by (simp_all add: host_le64_def latin1_to_utf8_std_def)
  from parseTags_example_by_host [OF b(1,2)] parseTags_example_by_host [OF l(1,2)] b l
  show ?thesis by simp
qed

text \<open>
  C6, as the code has it. Whatever the tags parsed so far, the line \<open>FASTPLAY 312\<close> sets
  \<open>fastplay\<close> to 312 and changes nothing else. For every line \<open>FASTPLAY\<close>, a space, one or
  more decimal digits, a further character and anything after it (no NUL, which ends a
  line): when the character after the digits is neither a digit nor white space, the
  line changes nothing, so read from the initial tags \<open>fastplay\<close> is still at its default
  0; when it is white space, the number before it is stored (cut to the range of \<open>long\<close>
  and then to 16 bits) and what follows is ignored.
\<close>

theorem FASTPLAY_line:
  assumes "32 \<le> long_bits h" and "ds \<noteq> []" and "\<forall>d\<in>set ds. is_digit 10 d"
    and "NUL \<notin> set (c # rest)"
  shows "parse_line h ''FASTPLAY 312'' t = t\<lparr>fastplay := 312\<rparr>
       \<and> (\<not> is_digit 10 c \<and> \<not> ISSPACE c
            \<longrightarrow> parse_line h (''FASTPLAY '' @ ds @ c # rest) t = t
              \<and> fastplay (parse_line h (''FASTPLAY '' @ ds @ c # rest) TagData_init) = 0)
       \<and> (ISSPACE c
            \<longrightarrow> parse_line h (''FASTPLAY '' @ ds @ c # rest) t
                = t\<lparr>fastplay := word_of_int (min (int (digits_value 10 ds))
                                                     (2 ^ (long_bits h - 1) - 1))\<rparr>)"
proof -
  have a: "parse_line h ''FASTPLAY 312'' t = t\<lparr>fastplay := 312\<rparr>"
    using assms(1) long_max_ge [of "long_bits h"]
    by (simp add: sap_eval Let_def store_u16_fastplay)
  have hd: "\<not> ISSPACE (hd (ds @ c # rest))"
    using assms(2,3) digit_not_space [of "hd ds"] by (cases ds) auto
  have pl: "parse_line h (''FASTPLAY '' @ ds @ c # rest) u
              = parse_uint16 h 10 P_fastplay (ds @ c # rest) u" for u
    using parse_line_FASTPLAY [of "ds @ c # rest" h u] hd by simp
  have sp: "ISSPACE c \<Longrightarrow> \<not> is_digit 10 c"
    using digit_not_space [of c] by blast
  have r1: "parse_line h (''FASTPLAY '' @ ds @ c # rest) u = u"
    if "\<not> is_digit 10 c" "\<not> ISSPACE c" for u
    unfolding pl using parse_uint16_digits(2) [OF assms(2,3), of c h rest u] that by simp
  have r2: "parse_line h (''FASTPLAY '' @ ds @ c # rest) t
                = t\<lparr>fastplay := word_of_int (min (int (digits_value 10 ds))
                                                     (2 ^ (long_bits h - 1) - 1))\<rparr>"
    if "ISSPACE c"
    unfolding pl using parse_uint16_digits(2) [OF assms(2,3), of c h rest t] that sp by simp
  have r3: "fastplay (parse_line h (''FASTPLAY '' @ ds @ c # rest) TagData_init) = 0"
    if "\<not> is_digit 10 c" "\<not> ISSPACE c"
    unfolding r1 [OF that] by (simp add: TagData_init_def)
  from a r1 r2 r3 show ?thesis by blast
qed

text \<open>
  The lines \<open>FASTPLAY 31x2\<close> and \<open>FASTPLAY 31 x2\<close> are of this form, with digits 31: the
  first leaves the initial tags as they are, the second stores 31.
\<close>

theorem FASTPLAY_line_witness:
  "32 \<le> long_bits host_le64
   \<and> ''31'' \<noteq> [] \<and> is_digit 10 (CHR ''3'') \<and> is_digit 10 (CHR ''1'')
   \<and> NUL \<notin> set ''x2'' \<and> \<not> is_digit 10 (CHR ''x'') \<and> \<not> ISSPACE (CHR ''x'')
   \<and> NUL \<notin> set '' x2'' \<and> ISSPACE (CHR '' '')
   \<and> parse_line host_le64 ''FASTPLAY 312'' TagData_init = TagData_init\<lparr>fastplay := 312\<rparr>
   \<and> parse_line host_le64 ''FASTPLAY 31x2'' TagData_init = TagData_init
   \<and> fastplay (parse_line host_le64 ''FASTPLAY 31x2'' TagData_init) = 0
   \<and> parse_line host_le64 ''FASTPLAY 31 x2'' TagData_init = TagData_init\<lparr>fastplay := 31\<rparr>"
proof -
  have h: "32 \<le> long_bits host_le64" by (simp add: host_le64_def)
  have d: "''31'' \<noteq> []" "\<forall>d\<in>set ''31''. is_digit 10 d"
    by (simp_all add: is_digit_10)
  have x: "NUL \<notin> set ''x2''" "\<not> is_digit 10 (CHR ''x'')" "\<not> ISSPACE (CHR ''x'')"
    by (simp_all add: NUL_def is_digit_10 ISSPACE_def)
  have s: "NUL \<notin> set '' x2''" "ISSPACE (CHR '' '')"
    by (simp_all add: NUL_def ISSPACE_def)
  have v: "(word_of_int (min (int (digits_value 10 ''31'')) (2 ^ (long_bits host_le64 - 1) - 1)) :: u16) = 31"
    by (simp add: digits_value_def digit_val_def host_le64_def)
  note i1 = FASTPLAY_line [OF h d x(1), of TagData_init, unfolded append_Cons append_Nil]
  note i2 = FASTPLAY_line [OF h d s(1), of TagData_init, unfolded append_Cons append_Nil v]
  have d3: "is_digit 10 (CHR ''3'')" "is_digit 10 (CHR ''1'')"
    by (simp_all add: is_digit_10)
  from i1 i2 h d(1) d3 x s show ?thesis by blast
qed

text \<open>
  The claim C6 as stated fails for a line whose number is followed by white space and
  then by characters that are not numeric: \<open>FASTPLAY 31 x2\<close> does not leave \<open>fastplay\<close>
  at its default 0, it stores 31. The conversion stops at the space, and the source
  accepts a number that ends at white space.
\<close>

theorem FASTPLAY_number_before_space:
  "parse_line host_le64 ''FASTPLAY 31 x2'' TagData_init = TagData_init\<lparr>fastplay := 31\<rparr>
   \<and> fastplay TagData_init = 0
   \<and> fastplay (parse_line host_le64 ''FASTPLAY 31 x2'' TagData_init) = 31"
  by (simp add: sap_eval Let_def store_u16_fastplay TagData_init_def host_le64_def nth_append)

lemma take_replicate_append: "n \<le> m \<Longrightarrow> take n (replicate m a @ xs) = replicate n a"
  by (simp add: min_def)

text \<open>
  C10. The parser reads 4096 bytes from offset 0 and nothing else: two files that agree
  on their first 4096 bytes give the same tags, so a line that starts at byte 4096 or
  later has no effect. When fewer than 6 bytes can be read, or the bytes read begin
  neither with SAP CR LF nor with SAP LF, the result is the freshly constructed tag
  set: \<open>tags_read\<close> false and every field at its default.
\<close>

theorem parseTags_reads_4096:
  "(take 4096 (f_data f) = take 4096 (f_data g) \<longrightarrow> parseTags h f = parseTags h g)
   \<and> (length (f_data f) < 6
        \<or> (take 5 (f_data f) \<noteq> ''SAP'' @ [CR, LF] \<and> take 4 (f_data f) \<noteq> ''SAP'' @ [LF])
       \<longrightarrow> parseTags h f = TagData_init)"
  by (auto simp add: parseTags_def seekAndRead_def file_read_def file_seek_def Let_def)

theorem parseTags_reads_4096_witness:
  "take 4096 (f_data (open_file (replicate 4096 (CHR ''a'') @ ''NTSC'')))
     = take 4096 (f_data (open_file (replicate 4096 (CHR ''a'') @ ''STEREO'')))
   \<and> parseTags host_le64 (open_file (replicate 4096 (CHR ''a'') @ ''NTSC''))
     = parseTags host_le64 (open_file (replicate 4096 (CHR ''a'') @ ''STEREO''))
   \<and> (length (f_data (open_file (replicate 4096 (CHR ''a'') @ ''NTSC''))) < 6
       \<or> (take 5 (f_data (open_file (replicate 4096 (CHR ''a'') @ ''NTSC''))) \<noteq> ''SAP'' @ [CR, LF]
          \<and> take 4 (f_data (open_file (replicate 4096 (CHR ''a'') @ ''NTSC''))) \<noteq> ''SAP'' @ [LF]))
   \<and> parseTags host_le64 (open_file (replicate 4096 (CHR ''a'') @ ''NTSC'')) = TagData_init"
proof -
  let ?f = "open_file (replicate 4096 (CHR ''a'') @ ''NTSC'')"
  let ?g = "open_file (replicate 4096 (CHR ''a'') @ ''STEREO'')"
  have d: "f_data ?f = replicate 4096 (CHR ''a'') @ ''NTSC''"
          "f_data ?g = replicate 4096 (CHR ''a'') @ ''STEREO''"
    by (simp_all add: open_file_def)
  have a: "take 4096 (f_data ?f) = take 4096 (f_data ?g)"
    unfolding d by (simp only: take_replicate_append order_refl)
  have "(5::nat) \<le> 4096" "(4::nat) \<le> 4096" by simp_all
  then have t: "take 5 (f_data ?f) = replicate 5 (CHR ''a'')" "take 4 (f_data ?f) = replicate 4 (CHR ''a'')"
    unfolding d by (simp_all only: take_replicate_append)
  have n: "replicate 5 (CHR ''a'') \<noteq> ''SAP'' @ [CR, LF]" "replicate 4 (CHR ''a'') \<noteq> ''SAP'' @ [LF]"
    by (simp_all add: numeral_eq_Suc)
  have b: "length (f_data ?f) < 6
       \<or> (take 5 (f_data ?f) \<noteq> ''SAP'' @ [CR, LF] \<and> take 4 (f_data ?f) \<noteq> ''SAP'' @ [LF])"
    unfolding t using n by blast
  from parseTags_reads_4096 [of ?f ?g host_le64] a b show ?thesis by blast
qed

section \<open>Properties of the XDBF decoder\<close>

lemmas file_defs = open_file_def file_seek_def file_rewind_def file_read_def seekAndRead_def file_size_def
lemmas be_defs = be_word_def be16_at_def be32_at_def be64_at_def bytes_at_def

lemma xdbf_ref_simps:
  "sizeof_XDBF_Header xdbf_ref = 24" "sizeof_XDBF_Entry xdbf_ref = 18"
  "sizeof_XSTR_Header xdbf_ref = 14" "sizeof_XSTR_Entry_Header xdbf_ref = 4"
  "sizeof_XACH_Header xdbf_ref = 14" "sizeof_XACH_Entry xdbf_ref = 36" "sizeof_XSTC xdbf_ref = 16"
  "XDBF_MAGIC xdbf_ref = 0x58444246" "XDBF_VERSION xdbf_ref = 0x10000"
  "XDBF_XSTR_MAGIC xdbf_ref = 0x58535452" "XDBF_XSTR_VERSION xdbf_ref = 1"
  "XDBF_XACH_MAGIC xdbf_ref = 0x58414348" "XDBF_XACH_VERSION xdbf_ref = 1"
  "XDBF_XSTC_MAGIC xdbf_ref = 0x58535443" "XDBF_XSTC_VERSION xdbf_ref = 1"
  "XDBF_SPA_NAMESPACE_METADATA xdbf_ref = 1" "XDBF_SPA_NAMESPACE_IMAGE xdbf_ref = 2"
  "XDBF_SPA_NAMESPACE_STRING_TABLE xdbf_ref = 3"
  "XDBF_LANGUAGE_UNKNOWN xdbf_ref = 0" "XDBF_LANGUAGE_ENGLISH xdbf_ref = 1" "XDBF_LANGUAGE_MAX xdbf_ref = 10"
  "getXbox360Language xdbf_ref = 0"
  "decode_XDBF_Header xdbf_ref bs = \<lparr>xdbf_magic = be32_at bs 0, xdbf_version = be32_at bs 4,
        entry_table_length = be32_at bs 8, entry_count = be32_at bs 12,
        free_space_table_length = be32_at bs 16, free_space_table_count = be32_at bs 20\<rparr>"
  "decode_XSTR_Header xdbf_ref bs = \<lparr>xstr_magic = be32_at bs 0, xstr_version = be32_at bs 4\<rparr>"
  "decode_XACH_Header xdbf_ref bs = \<lparr>xach_magic = be32_at bs 0, xach_version = be32_at bs 4,
        achievement_count = be16_at bs 12\<rparr>"
  "RpPng_load xdbf_ref bs = None"
  by (simp_all add: xdbf_ref_def)

lemma xdbf_decoder_cut_eq:
  "xdbf_decoder_cut = \<lparr>rpFile = Some xdbf_file_cut, isValid = True,
     img_icon = None, map_images = Map.empty,
     xdbfHeader = \<lparr>xdbf_magic = 0x58444246, xdbf_version = 0x10000,
        entry_table_length = 2, entry_count = 2,
        free_space_table_length = 0, free_space_table_count = 0\<rparr>,
     entryTable = Some [xstr_entry_100, image_entry_64], data_offset = 60, m_langID = 0, xex = False,
     strTbl = (\<lambda>l. None)\<rparr>"
  by (simp add: xdbf_decoder_cut_def XDBF_init_def XDBF_Private_new_def xdbf_ref_simps
      XDBF_isRomSupported_static_def file_defs be_defs xdbf_container_cut_def xstr_table_20_def
      xdbf_file_cut_def xstr_entry_100_def image_entry_64_def decode_XDBF_Entry_ref_def
      upt_conv_Cons Let_def)

lemma seekAndRead_short:
  "length (f_data f) < p + n \<Longrightarrow> 0 < n \<Longrightarrow> length (fst (seekAndRead f p n)) \<noteq> n"
  by (auto simp: file_defs)

lemma seekAndRead_log: "f_log (snd (seekAndRead f p n)) = (p, n) # f_log f"
  by (simp add: file_defs Let_def)

lemma loadStringTable_cached:
  "XDBF_LANGUAGE_UNKNOWN env < l \<Longrightarrow> l < XDBF_LANGUAGE_MAX env \<Longrightarrow> strTbl d l = Some v
     \<Longrightarrow> loadStringTable env d l = (Some v, d)"
  by (simp add: loadStringTable_def)

lemma loadStringTable_mono:
  "strTbl d k = Some v \<Longrightarrow> strTbl (snd (loadStringTable env d l)) k = Some v"
  by (auto simp: loadStringTable_def Let_def split: option.splits prod.splits)

lemma loadStringTable_fail:
  "fst (loadStringTable env d l) = None \<Longrightarrow> strTbl (snd (loadStringTable env d l)) = strTbl d"
  by (auto simp: loadStringTable_def Let_def split: option.splits prod.splits if_splits)

lemma loadStringTable_success:
  "fst (loadStringTable env d l) = Some v \<Longrightarrow> strTbl (snd (loadStringTable env d l)) l = Some v"
  by (auto simp: loadStringTable_def Let_def split: option.splits prod.splits if_splits)

lemma loadStringTable_out_of_range:
  assumes "rpFile d = Some f" "strTbl d l = None"
    "findResource d (XDBF_SPA_NAMESPACE_STRING_TABLE env) (word_of_int l) = Some e"
    "unat (entry_offset e + data_offset d) + unat (entry_length e) > file_size f"
  shows "fst (loadStringTable env d l) = None \<and> strTbl (snd (loadStringTable env d l)) = strTbl d"
proof -
  have "length (fst (seekAndRead f (unat (entry_offset e + data_offset d)) (unat (entry_length e))))
          \<noteq> unat (entry_length e)" if "0 < unat (entry_length e)"
    using assms(4) that by (intro seekAndRead_short) (simp_all add: file_size_def)
  then show ?thesis using assms(1-3)
    by (auto simp: loadStringTable_def Let_def split: prod.splits)
qed

lemma loadImage_out_of_range:
  assumes "rpFile d = Some f" "map_images d i = None"
    "findResource d (XDBF_SPA_NAMESPACE_IMAGE env) i = Some e"
    "unat (entry_offset e + data_offset d) + unat (entry_length e) > file_size f"
  shows "fst (loadImage env d i) = None \<and> map_images (snd (loadImage env d i)) = map_images d"
proof -
  have "length (fst (seekAndRead f (unat (entry_offset e + data_offset d)) (unat (entry_length e))))
          \<noteq> unat (entry_length e)" if "0 < unat (entry_length e)"
    using assms(4) that by (intro seekAndRead_short) (simp_all add: file_size_def)
  moreover have "0 < unat (entry_length e)" if "\<not> entry_length e < 16"
    using that by (simp add: word_less_nat_alt)
  ultimately show ?thesis using assms(1-3)
    by (auto simp: loadImage_def Let_def split: prod.splits)
qed

lemma findResource_cut:
  "findResource xdbf_decoder_cut 3 1 = Some xstr_entry_100"
  "findResource xdbf_decoder_cut 2 0x8000 = Some image_entry_64"
  by (simp_all add: xdbf_decoder_cut_eq findResource_def xdbf_ref_simps xstr_entry_100_def
      image_entry_64_def)

lemma length_container_cut: "length xdbf_container_cut = 80"
  by (simp add: xdbf_container_cut_def xstr_table_20_def)

lemma loadStringTable_short_read:
  assumes "rpFile d = Some f" "isValid d" "strTbl d l = None"
    "XDBF_LANGUAGE_UNKNOWN env < l" "l < XDBF_LANGUAGE_MAX env"
    "findResource d (XDBF_SPA_NAMESPACE_STRING_TABLE env) (word_of_int l) = Some e"
    "sizeof_XSTR_Header env < unat (entry_length e)" "unat (entry_length e) \<le> 1024 * 1024"
    "unat (entry_offset e + data_offset d) + unat (entry_length e) > file_size f"
  shows "loadStringTable env d l =
    (None, d\<lparr>rpFile := Some (snd (seekAndRead f (unat (entry_offset e + data_offset d))
                                     (unat (entry_length e))))\<rparr>)"
proof -
  have "length (fst (seekAndRead f (unat (entry_offset e + data_offset d)) (unat (entry_length e))))
          \<noteq> unat (entry_length e)"
    using assms(7,9) by (intro seekAndRead_short) (simp_all add: file_size_def)
  then show ?thesis using assms(1-8)
    by (auto simp: loadStringTable_def Let_def split: prod.splits)
qed

lemma seekAndRead_cut:
  "snd (seekAndRead xdbf_file_cut 60 100)
     = \<lparr>f_data = xdbf_container_cut, f_pos = 80, f_log = [(60, 100), (24, 36), (0, 24)]\<rparr>"
  by (simp add: file_defs xdbf_file_cut_def length_container_cut)


text \<open>
  C2, as the code has it. For a table entry whose address, as the code computes it
  (offset plus data offset, in 32 bits), plus its declared length exceeds the size of
  the file, a lookup that has nothing cached returns null and caches nothing: the string
  table is not stored, the image is not stored. (The lookup does not compare the entry
  with the size of the file; within the sanity bounds on the length it issues the read,
  as \<open>loadStringTable_short_read\<close> shows, and rejects the short result.)
\<close>

theorem resource_past_end_not_found:
  assumes "rpFile d = Some f"
  shows "(strTbl d l = None
          \<and> findResource d (XDBF_SPA_NAMESPACE_STRING_TABLE env) (word_of_int l) = Some e1
          \<and> file_size f < unat (entry_offset e1 + data_offset d) + unat (entry_length e1)
          \<longrightarrow> fst (loadStringTable env d l) = None
              \<and> strTbl (snd (loadStringTable env d l)) = strTbl d)
       \<and> (map_images d i = None
          \<and> findResource d (XDBF_SPA_NAMESPACE_IMAGE env) i = Some e2
          \<and> file_size f < unat (entry_offset e2 + data_offset d) + unat (entry_length e2)
          \<longrightarrow> fst (loadImage env d i) = None
              \<and> map_images (snd (loadImage env d i)) = map_images d)"
  using assms loadStringTable_out_of_range [of d f l env e1] loadImage_out_of_range [of d f i env e2]
  by blast

theorem resource_past_end_not_found_witness:
  "rpFile xdbf_decoder_cut = Some xdbf_file_cut
   \<and> strTbl xdbf_decoder_cut 1 = None
   \<and> findResource xdbf_decoder_cut (XDBF_SPA_NAMESPACE_STRING_TABLE xdbf_ref) (word_of_int 1)
       = Some xstr_entry_100
   \<and> file_size xdbf_file_cut
       < unat (entry_offset xstr_entry_100 + data_offset xdbf_decoder_cut)
         + unat (entry_length xstr_entry_100)
   \<and> fst (loadStringTable xdbf_ref xdbf_decoder_cut 1) = None
   \<and> strTbl (snd (loadStringTable xdbf_ref xdbf_decoder_cut 1)) = strTbl xdbf_decoder_cut
   \<and> map_images xdbf_decoder_cut 0x8000 = None
   \<and> findResource xdbf_decoder_cut (XDBF_SPA_NAMESPACE_IMAGE xdbf_ref) 0x8000 = Some image_entry_64
   \<and> file_size xdbf_file_cut
       < unat (entry_offset image_entry_64 + data_offset xdbf_decoder_cut)
         + unat (entry_length image_entry_64)
   \<and> fst (loadImage xdbf_ref xdbf_decoder_cut 0x8000) = None
   \<and> map_images (snd (loadImage xdbf_ref xdbf_decoder_cut 0x8000)) = map_images xdbf_decoder_cut"
proof -
  have a: "rpFile xdbf_decoder_cut = Some xdbf_file_cut"
    and b: "strTbl xdbf_decoder_cut 1 = None" and c: "map_images xdbf_decoder_cut 0x8000 = None"
    by (simp_all add: xdbf_decoder_cut_eq)
  have d: "findResource xdbf_decoder_cut (XDBF_SPA_NAMESPACE_STRING_TABLE xdbf_ref) (word_of_int 1)
             = Some xstr_entry_100"
    and e: "findResource xdbf_decoder_cut (XDBF_SPA_NAMESPACE_IMAGE xdbf_ref) 0x8000 = Some image_entry_64"
    by (simp_all add: findResource_cut xdbf_ref_simps)
  have g: "file_size xdbf_file_cut
       < unat (entry_offset xstr_entry_100 + data_offset xdbf_decoder_cut)
         + unat (entry_length xstr_entry_100)"
    and h: "file_size xdbf_file_cut
       < unat (entry_offset image_entry_64 + data_offset xdbf_decoder_cut)
         + unat (entry_length image_entry_64)"
    by (simp_all add: xdbf_decoder_cut_eq file_size_def xdbf_file_cut_def length_container_cut
        xstr_entry_100_def image_entry_64_def)
  from resource_past_end_not_found [OF a, of 1 xdbf_ref xstr_entry_100 "0x8000" image_entry_64]
    a b c d e g h
  show ?thesis by blast
qed

text \<open>
  The claim C2 as stated fails on the container that is cut short: its string table
  entry has offset 0 and length 100 in a container of 80 bytes, and the lookup reads
  from the file all the same. The request for 100 bytes at byte 60 is issued, and the
  position of the file moves from 60 to 80: the 20 bytes that exist were read.
\<close>

theorem lookup_attempts_read:
  "findResource xdbf_decoder_cut (XDBF_SPA_NAMESPACE_STRING_TABLE xdbf_ref) 1 = Some xstr_entry_100
   \<and> length xdbf_container_cut < unat (entry_offset xstr_entry_100) + unat (entry_length xstr_entry_100)
   \<and> rpFile xdbf_decoder_cut = Some \<lparr>f_data = xdbf_container_cut, f_pos = 60, f_log = [(24, 36), (0, 24)]\<rparr>
   \<and> rpFile (snd (loadStringTable xdbf_ref xdbf_decoder_cut 1))
       = Some \<lparr>f_data = xdbf_container_cut, f_pos = 80, f_log = [(60, 100), (24, 36), (0, 24)]\<rparr>"
proof -
  have f: "rpFile xdbf_decoder_cut = Some xdbf_file_cut" "isValid xdbf_decoder_cut"
    "strTbl xdbf_decoder_cut 1 = None" "data_offset xdbf_decoder_cut = 60"
    by (simp_all add: xdbf_decoder_cut_eq)
  have e: "entry_offset xstr_entry_100 = 0" "entry_length xstr_entry_100 = 100"
    by (simp_all add: xstr_entry_100_def)
  have "loadStringTable xdbf_ref xdbf_decoder_cut 1 =
     (None, xdbf_decoder_cut\<lparr>rpFile := Some (snd (seekAndRead xdbf_file_cut
        (unat (entry_offset xstr_entry_100 + data_offset xdbf_decoder_cut))
        (unat (entry_length xstr_entry_100))))\<rparr>)"
    by (rule loadStringTable_short_read [OF f(1,2,3)])
       (simp_all add: xdbf_ref_simps findResource_cut e f file_size_def xdbf_file_cut_def
          length_container_cut)
  then have "rpFile (snd (loadStringTable xdbf_ref xdbf_decoder_cut 1))
       = Some \<lparr>f_data = xdbf_container_cut, f_pos = 80, f_log = [(60, 100), (24, 36), (0, 24)]\<rparr>"
    by (simp add: e f seekAndRead_cut)
  moreover have "length xdbf_container_cut < unat (entry_offset xstr_entry_100) + unat (entry_length xstr_entry_100)"
    by (simp add: length_container_cut e)
  ultimately show ?thesis
    using findResource_cut(1) f(1) by (simp add: xdbf_file_cut_def xdbf_ref_simps)
qed


lemma xach_loop_past:
  "0 < n \<Longrightarrow> length buf < off + sizeof_XACH_Entry env
     \<Longrightarrow> xach_loop env langID buf off n d = (Inl ReadPastBuffer, d)"
  by (cases n) simp_all

lemma xach_decoder_513_eq:
  "xach_decoder_513 = \<lparr>rpFile = Some \<lparr>f_data = xach_container_513, f_pos = 42, f_log = [(24, 18), (0, 24)]\<rparr>,
     isValid = True, img_icon = None, map_images = Map.empty,
     xdbfHeader = \<lparr>xdbf_magic = 0x58444246, xdbf_version = 0x10000,
        entry_table_length = 1, entry_count = 1,
        free_space_table_length = 0, free_space_table_count = 0\<rparr>,
     entryTable = Some [\<lparr>namespace_id = 1, resource_id = 0x58414348, entry_offset = 0, entry_length = 14\<rparr>],
     data_offset = 42, m_langID = 0, xex = False,
     strTbl = (\<lambda>l. None)\<rparr>"
  by (simp add: xach_decoder_513_def XDBF_init_def XDBF_Private_new_def xdbf_ref_simps
      XDBF_isRomSupported_static_def file_defs be_defs xach_container_513_def xdbf_header_1_def
      xach_header_513_def decode_XDBF_Entry_ref_def upt_conv_Cons Let_def)

text \<open>
  C1 fails on the code. When the header declares more than 512 records, the count is
  cut to the ceiling of 512 and the test against the bytes available, which is the
  \<open>else\<close> branch, is skipped: with room for fewer than 512 records the list gets 512
  rows, more than \<open>min(declared, 512, available)\<close>.
\<close>

theorem xach_count_above_ceiling:
  assumes "XACH_MAX_COUNT < count"
    and "(len - sizeof_XACH_Header env) div sizeof_XACH_Entry env < XACH_MAX_COUNT"
  shows "xach_count env count len = XACH_MAX_COUNT
     \<and> min count (min XACH_MAX_COUNT ((len - sizeof_XACH_Header env) div sizeof_XACH_Entry env))
         < xach_count env count len"
  using assms by (simp add: xach_count_def)

text \<open>
  The failing input: an achievements table whose header declares 513 records and whose
  resource is the 14-byte header alone. The list is built with 512 rows where the bound
  is 0, and the first record is read at byte 14 of the 14-byte buffer.
\<close>

theorem achievements_count_not_bounded:
  "XACH_MAX_COUNT < 513
   \<and> (14 - sizeof_XACH_Header xdbf_ref) div sizeof_XACH_Entry xdbf_ref < XACH_MAX_COUNT
   \<and> xach_count xdbf_ref 513 14 = 512
   \<and> min 513 (min XACH_MAX_COUNT ((14 - sizeof_XACH_Header xdbf_ref) div sizeof_XACH_Entry xdbf_ref)) = 0
   \<and> fst (addFields_achievements xdbf_ref xach_decoder_513) = Inl ReadPastBuffer"
proof -
  have a: "XACH_MAX_COUNT < 513"
    and b: "(14 - sizeof_XACH_Header xdbf_ref) div sizeof_XACH_Entry xdbf_ref < XACH_MAX_COUNT"
    by (simp_all add: XACH_MAX_COUNT_def xdbf_ref_simps)
  have c: "xach_count xdbf_ref 513 14 = 512"
    using xach_count_above_ceiling [OF a b] by (simp add: XACH_MAX_COUNT_def)
  have g: "getLangID xdbf_ref d = (Inr 0, d)"
    if "m_langID d = 0" "findResource d 1 0x58535443 = None" for d :: "unit Xbox360_XDBF_Private"
    using that by (simp add: getLangID_def xdbf_ref_simps)
  have "fst (addFields_achievements xdbf_ref xach_decoder_513) = Inl ReadPastBuffer"
    by (simp add: addFields_achievements_def xach_decoder_513_eq findResource_def xdbf_ref_simps
       XACH_MIN_SIZE_def XACH_MAX_SIZE_def XACH_MAX_COUNT_def file_defs Let_def
       xach_container_513_def xdbf_header_1_def xach_header_513_def be_defs c g xach_loop_past)
  then show ?thesis using a b c by (simp add: xdbf_ref_simps XACH_MAX_COUNT_def)
qed

section \<open>Properties of detection\<close>

lemmas le_defs = le_word_def le16_at_def le32_at_def le64_at_def

lemma ROM_TYPE_simps:
  "ROM_TYPE_UNKNOWN = -1" "ROM_TYPE_SMDH = 0" "ROM_TYPE_3DSX = 1" "ROM_TYPE_CCI = 2"
  "ROM_TYPE_eMMC = 3" "ROM_TYPE_CIA = 4"
  by (simp_all add: ROM_TYPE_UNKNOWN_def ROM_TYPE_SMDH_def ROM_TYPE_3DSX_def ROM_TYPE_CCI_def
      ROM_TYPE_eMMC_def ROM_TYPE_CIA_def)











lemma take_Cons_numeral': "take (numeral k) (x # xs) = x # take (pred_numeral k) xs"
  by (simp add: take_Cons')







section \<open>Properties of the XEX decoder\<close>

lemma bytes_at_window:
  "k < n \<Longrightarrow> bytes_at (take (n * sz) (drop h bs)) (k * sz) sz = bytes_at bs (h + k * sz) sz"
proof -
  assume "k < n"
  then have "Suc k \<le> n" by simp
  then have "Suc k * sz \<le> n * sz" by (rule mult_le_mono1)
  then have "sz + k * sz \<le> n * sz" by simp
  then have m: "min sz (n * sz - k * sz) = sz" by (intro min_absorb1) linarith
  have "take sz (drop (k * sz) (take (n * sz) (drop h bs))) = take sz (take (n * sz - k * sz) (drop (k * sz) (drop h bs)))"
    by (simp only: drop_take)
  also have "\<dots> = take sz (drop (k * sz) (drop h bs))"
    by (simp only: take_take m)
  also have "\<dots> = take sz (drop (h + k * sz) bs)"
    by (simp only: drop_drop add.commute)
  finally show ?thesis by (simp only: bytes_at_def)
qed

lemma min_neq_right: "\<not> (s::nat) \<le> l \<Longrightarrow> (min l s \<noteq> s) = True"
  by (simp add: min_def)

lemma XEX_init_optHdrTbl:
  assumes "rpFile (XEX_init env (XEX_Private_new (Some (open_file bs)))) \<noteq> None"
  shows "optHdrTbl (XEX_init env (XEX_Private_new (Some (open_file bs))))
     = map (\<lambda>k. decode_XEX2_Optional_Header_Tbl env
             (bytes_at (take (min (unat (opt_header_count (decode_XEX2_Header env
                    (take (sizeof_XEX2_Header env) bs)))) 32 * sizeof_XEX2_Optional_Header_Tbl env)
                 (drop (sizeof_XEX2_Header env) bs))
               (k * sizeof_XEX2_Optional_Header_Tbl env) (sizeof_XEX2_Optional_Header_Tbl env)))
         [0 ..< min (unat (opt_header_count (decode_XEX2_Header env
                    (take (sizeof_XEX2_Header env) bs)))) 32]"
proof -
  let ?d = "XEX_init env (XEX_Private_new (Some (open_file bs)))"
  let ?raw = "decode_XEX2_Header env (take (sizeof_XEX2_Header env) bs)"
  note defs = XEX_init_def XEX_Private_new_def file_defs
  have c1: "sizeof_XEX2_Header env \<le> length bs"
  proof (rule ccontr)
    assume "\<not> ?thesis"
    then have "rpFile ?d = None"
      by (simp add: defs split del: if_split, (simp add: Let_def split del: if_split)?)
    with assms show False by simp
  qed
  have c2: "0 \<le> XEX_isRomSupported_static env
      (Some \<lparr>header_addr = 0, header_size = sizeof_XEX2_Header env,
             header_pData = Some (take (sizeof_XEX2_Header env) bs), ext = None, szFile = 0\<rparr>)"
  proof (rule ccontr)
    assume "\<not> ?thesis"
    then have "rpFile ?d = None"
      using c1 by (simp add: defs split del: if_split, (simp add: Let_def split del: if_split)?)
    with assms show False by simp
  qed
  have c3: "sizeof_XEX2_Security_Info env \<le> length bs - unat (sec_info_offset ?raw)"
  proof (rule ccontr)
    assume "\<not> ?thesis"
    then have "rpFile ?d = None"
      using c1 c2 by (simp add: defs split del: if_split, (simp add: Let_def split del: if_split)?)
    with assms show False by simp
  qed
  let ?n = "min (unat (opt_header_count ?raw)) 32"
  have c4: "?n * sizeof_XEX2_Optional_Header_Tbl env \<le> length bs - sizeof_XEX2_Header env"
  proof (rule ccontr)
    assume "\<not> ?thesis"
    then have n: "(min (length bs - sizeof_XEX2_Header env) (?n * sizeof_XEX2_Optional_Header_Tbl env)
              \<noteq> ?n * sizeof_XEX2_Optional_Header_Tbl env) = True"
      by (rule min_neq_right)
    have "rpFile ?d = None"
      using c1 c2 c3
      apply (simp add: defs split del: if_split)
      apply (simp only: Let_def n if_True)
      apply simp
      done
    with assms show False by simp
  qed
  show ?thesis
    using c1 c2 c3
    apply (simp add: defs split del: if_split)
    apply (simp only: Let_def min.absorb2 [OF c4])
    apply (simp split del: if_split)
    done
qed

lemma take_upt_min: "take m [0 ..< n] = [0 ..< min n m]"
  by (cases "m \<le> n") (simp_all add: min_def)

lemma getOptHdrTblEntry_find:
  "getOptHdrTblEntry d hid = find (\<lambda>e. header_id e = hid) (optHdrTbl d)"
  by (simp add: getOptHdrTblEntry_def)

lemma XEX_init_keeps_file:
  assumes c1: "sizeof_XEX2_Header env \<le> length bs"
   and c2: "0 \<le> XEX_isRomSupported_static env
      (Some \<lparr>header_addr = 0, header_size = sizeof_XEX2_Header env,
             header_pData = Some (take (sizeof_XEX2_Header env) bs), ext = None, szFile = 0\<rparr>)"
   and c3: "sizeof_XEX2_Security_Info env \<le> length bs
       - unat (sec_info_offset (decode_XEX2_Header env (take (sizeof_XEX2_Header env) bs)))"
   and c4: "min (unat (opt_header_count (decode_XEX2_Header env (take (sizeof_XEX2_Header env) bs)))) 32
              * sizeof_XEX2_Optional_Header_Tbl env \<le> length bs - sizeof_XEX2_Header env"
  shows "rpFile (XEX_init env (XEX_Private_new (Some (open_file bs)))) \<noteq> None"
  using c1 c2 c3
  apply (simp add: XEX_init_def XEX_Private_new_def file_defs split del: if_split)
  apply (simp only: Let_def min.absorb2 [OF c4])
  apply (simp split del: if_split)
  done

lemma xex_ref_simps:
  "sizeof_XEX2_Header xex_ref = 24" "sizeof_XEX2_Security_Info xex_ref = 20"
  "sizeof_XEX2_Optional_Header_Tbl xex_ref = 8" "XEX2_MAGIC xex_ref = 0x58455832"
  "decode_XEX2_Header xex_ref bs = \<lparr>xex2_magic = be32_at bs 0, module_flags = be32_at bs 4,
        pe_offset = be32_at bs 8, reserved = be32_at bs 12, sec_info_offset = be32_at bs 16,
        opt_header_count = be32_at bs 20\<rparr>"
  "decode_XEX2_Optional_Header_Tbl xex_ref bs = \<lparr>header_id = be32_at bs 0, opt_offset = be32_at bs 4\<rparr>"
  "xex_host_big_endian xex_ref = False" "XEX2_ENCRYPTION_TYPE_NONE xex_ref = 0"
  "ENABLE_DECRYPTION xex_ref = True"
  "KeyManager_getAndVerify xex_ref nm v = Some retail_key_ref"
  "cipher_init xex_ref key = True"
  "cipher_decrypt xex_ref key iv bs = Some (xor_key key bs)"
  "CBCReader_isOpen xex_ref rd = True"
  "CBCReader_read xex_ref rd n = (take n (drop (snd rd) (fst rd)),
                                (fst rd, snd rd + length (take n (drop (snd rd) (fst rd)))))"
  "CBCReader_new xex_ref f off len (Some (key, iv)) = (xor_key key (take len (drop off (f_data f))), 0)"
  by (simp_all add: xex_ref_def)

lemma xex_file_33_header:
  "take 24 xex_file_33 = [0x58, 0x45, 0x58, 0x32, 0, 0, 0, 0, 0, 0, 0, 0, 0, 0, 0, 0,
                  0, 0, 1, 0x20, 0, 0, 0, 33]"
  "length xex_file_33 = 308"
  by (simp_all add: xex_file_33_def length_concat comp_def sum_list_triv)

lemma xex_file_33_decode:
  "decode_XEX2_Header xex_ref (take (sizeof_XEX2_Header xex_ref) xex_file_33)
     = \<lparr>xex2_magic = 0x58455832, module_flags = 0, pe_offset = 0, reserved = 0,
        sec_info_offset = 288, opt_header_count = 33\<rparr>"
  by (simp add: xex_ref_simps xex_file_33_header be_defs)

lemma declared_33:
  "header_id (declared_opt_headers xex_ref xex_file_33 ! 32) = 33"
  "find (\<lambda>e. header_id e = 33) (take 32 (declared_opt_headers xex_ref xex_file_33)) = None"
  by (simp_all add: declared_opt_headers_def xex_file_33_decode xex_ref_simps
      xex_file_33_def upt_conv_Cons be_defs)


text \<open>
  C9. When the constructor succeeds (it keeps the file), the optional header table of
  the decoder is the first 32 entries of the table the file declares, so with more than
  32 declared it has exactly 32 entries, and \<open>getOptHdrTblEntry\<close> searches these 32 only:
  an optional header beyond the 32nd is never found.
\<close>

theorem opt_headers_first_32:
  assumes "rpFile (XEX_init env (XEX_Private_new (Some (open_file bs)))) \<noteq> None"
  shows "optHdrTbl (XEX_init env (XEX_Private_new (Some (open_file bs))))
           = take 32 (declared_opt_headers env bs)
       \<and> getOptHdrTblEntry (XEX_init env (XEX_Private_new (Some (open_file bs)))) hid
           = find (\<lambda>e. header_id e = hid) (take 32 (declared_opt_headers env bs))
       \<and> (32 < unat (opt_header_count (decode_XEX2_Header env (take (sizeof_XEX2_Header env) bs)))
            \<longrightarrow> length (optHdrTbl (XEX_init env (XEX_Private_new (Some (open_file bs))))) = 32)"
proof -
  let ?d = "XEX_init env (XEX_Private_new (Some (open_file bs)))"
  let ?c = "unat (opt_header_count (decode_XEX2_Header env (take (sizeof_XEX2_Header env) bs)))"
  have "optHdrTbl ?d = map (\<lambda>k. decode_XEX2_Optional_Header_Tbl env
              (bytes_at bs (sizeof_XEX2_Header env + k * sizeof_XEX2_Optional_Header_Tbl env)
                 (sizeof_XEX2_Optional_Header_Tbl env))) [0 ..< min ?c 32]"
    unfolding XEX_init_optHdrTbl [OF assms]
    by (rule map_cong [OF refl]) (simp only: bytes_at_window atLeastLessThan_iff set_upt)
  also have "\<dots> = take 32 (declared_opt_headers env bs)"
    by (simp only: declared_opt_headers_def take_map take_upt_min)
  finally have t: "optHdrTbl ?d = take 32 (declared_opt_headers env bs)" .
  have "length (take 32 (declared_opt_headers env bs)) = 32" if "32 < ?c"
    using that by (simp add: declared_opt_headers_def)
  with t show ?thesis
    by (simp add: getOptHdrTblEntry_find)
qed

theorem opt_headers_first_32_witness:
  "rpFile (XEX_init xex_ref (XEX_Private_new (Some (open_file xex_file_33)))) \<noteq> None
   \<and> 32 < unat (opt_header_count (decode_XEX2_Header xex_ref
                 (take (sizeof_XEX2_Header xex_ref) xex_file_33)))
   \<and> length (optHdrTbl (XEX_init xex_ref (XEX_Private_new (Some (open_file xex_file_33))))) = 32
   \<and> header_id (declared_opt_headers xex_ref xex_file_33 ! 32) = 33
   \<and> getOptHdrTblEntry (XEX_init xex_ref (XEX_Private_new (Some (open_file xex_file_33)))) 33
       = None"
proof -
  have a: "rpFile (XEX_init xex_ref (XEX_Private_new (Some (open_file xex_file_33)))) \<noteq> None"
    by (rule XEX_init_keeps_file)
       (simp_all add: xex_file_33_header XEX_isRomSupported_static_def
          xex_ref_simps(1-5) be_defs)
  have b: "32 < unat (opt_header_count (decode_XEX2_Header xex_ref
                 (take (sizeof_XEX2_Header xex_ref) xex_file_33)))"
    by (simp add: xex_file_33_decode)
  from opt_headers_first_32 [OF a, of 33] b declared_33 a show ?thesis
    by metis
qed
lemma try_key_Some_D:
  assumes "try_key env d f key = Some rd"
  shows "cipher_decrypt env key zero16 (title_key (xex2Security d)) \<noteq> None
    \<and> fst (CBCReader_read env (CBCReader_new env f (unat (pe_offset (xex2Header d))) (pe_length d f)
           (Some (the (cipher_decrypt env key zero16 (title_key (xex2Security d))), zero16))) 2)
        = [0x4D, 0x5A]"
  using assms
  by (auto simp: try_key_def Let_def split: if_splits option.splits prod.splits)

lemma try_key_not_MZ:
  assumes "cipher_decrypt env key zero16 (title_key (xex2Security d)) = Some tk"
    and "fst (CBCReader_read env (CBCReader_new env f (unat (pe_offset (xex2Header d))) (pe_length d f)
           (Some (tk, zero16))) 2) \<noteq> [0x4D, 0x5A]"
  shows "try_key env d f key = None"
  using assms
  by (auto simp: try_key_def Let_def split: if_splits option.splits prod.splits)

lemma open_pe_reader_encrypted:
  assumes "encryption_type (fileFormatInfo d) \<noteq> cpu_to_be16 env (XEX2_ENCRYPTION_TYPE_NONE env)"
    and "ENABLE_DECRYPTION env"
  shows "open_pe_reader env d f =
     (case try_keys env d f (key_candidates env) of
              None \<Rightarrow> (None, d)
            | Some (i, reader) \<Rightarrow>
               if CBCReader_isOpen env reader
               then (Some reader, d\<lparr>keyInUse := i, peReader := Some reader\<rparr>)
               else (None, d\<lparr>keyInUse := i\<rparr>))"
  using assms by (simp add: open_pe_reader_def)

lemma initPeReader_reaches_keys:
  assumes "peReader d = None"
    and "getOptHdrTblEntry d (XEX2_OPTHDR_FILE_FORMAT_INFO env) = Some entry"
    and "rpFile d = Some f0"
    and "seekAndRead f0 (unat (opt_offset entry)) (sizeof_XEX2_File_Format_Info env) = (fb, f)"
    and "length fb = sizeof_XEX2_File_Format_Info env"
    and "compression_type (decode_XEX2_File_Format_Info env fb) = XEX2_COMPRESSION_TYPE_NONE env"
  shows "initPeReader env d =
     (Inr (fst (open_pe_reader env
                  (d\<lparr>rpFile := Some f, fileFormatInfo := decode_XEX2_File_Format_Info env fb\<rparr>) f)),
      snd (open_pe_reader env
                  (d\<lparr>rpFile := Some f, fileFormatInfo := decode_XEX2_File_Format_Info env fb\<rparr>) f))"
  using assms
  by (simp add: initPeReader_def split_def Let_def split del: if_split)

lemma xex_ref_ffi_simps:
  "sizeof_XEX2_File_Format_Info xex_ref = 8" "XEX2_OPTHDR_FILE_FORMAT_INFO xex_ref = 0x3FF"
  "XEX2_COMPRESSION_TYPE_NONE xex_ref = 0"
  "decode_XEX2_File_Format_Info xex_ref bs = \<lparr>ffi_size = be32_at bs 0,
        encryption_type = be16_at bs 4, compression_type = be16_at bs 6\<rparr>"
  by (simp_all add: xex_ref_def)

lemma xex_after_ffi_simps:
  "title_key (xex2Security (xex_after_ffi pe)) = replicate 16 0"
  "pe_offset (xex2Header (xex_after_ffi pe)) = 0"
  "encryption_type (fileFormatInfo (xex_after_ffi pe)) = 1"
  by (simp_all add: xex_after_ffi_def xex_with_ffi_def XEX_Private_new_def)

lemma pe_length_after_ffi:
  "length pe = 4 \<Longrightarrow> pe_length (xex_after_ffi pe) (xex_file_after_ffi pe) = 12"
  by (simp add: pe_length_def xex_after_ffi_simps xex_file_after_ffi_def file_size_def)

lemma try_key_ref:
  assumes "length pe = 4"
  shows "try_key xex_ref (xex_after_ffi pe) (xex_file_after_ffi pe) key
     = (if take 2 (xor_key (xor_key key (replicate 16 0)) (pe @ [0, 0, 0, 8, 0, 1, 0, 0])) = [0x4D, 0x5A]
        then Some (xor_key (xor_key key (replicate 16 0)) (pe @ [0, 0, 0, 8, 0, 1, 0, 0]), 2)
        else None)"
proof -
  have d: "f_data (xex_file_after_ffi pe) = pe @ [0, 0, 0, 8, 0, 1, 0, 0]"
    by (simp add: xex_file_after_ffi_def)
  have l: "length (xor_key k bs) = length bs" for k bs
    by (simp add: xor_key_def)
  show ?thesis
    using assms
    by (simp add: try_key_def xex_ref_simps xex_after_ffi_simps pe_length_after_ffi zero16_def
        d l Let_def)
qed

lemma try_key_examples:
  "try_key xex_ref (xex_after_ffi pe_retail) (xex_file_after_ffi pe_retail) retail_key_ref
     = Some ([0x4D, 0x5A, 0x90, 0x00, 0x11, 0x11, 0x11, 0x19, 0x11, 0x10, 0x11, 0x11], 2)"
  "try_key xex_ref (xex_after_ffi pe_debug) (xex_file_after_ffi pe_debug) retail_key_ref = None"
  "try_key xex_ref (xex_after_ffi pe_debug) (xex_file_after_ffi pe_debug) zero16
     = Some ([0x4D, 0x5A, 0x90, 0x00, 0, 0, 0, 8, 0, 1, 0, 0], 2)"
  "try_key xex_ref (xex_after_ffi pe_garbage) (xex_file_after_ffi pe_garbage) retail_key_ref = None"
  "try_key xex_ref (xex_after_ffi pe_garbage) (xex_file_after_ffi pe_garbage) zero16 = None"
  by (simp_all add: try_key_ref pe_retail_def pe_debug_def pe_garbage_def xor_key_def
      retail_key_ref_def zero16_def)

lemma xex_with_ffi_reach:
  assumes "length pe = 4"
  shows "peReader (xex_with_ffi pe) = None"
    "getOptHdrTblEntry (xex_with_ffi pe) (XEX2_OPTHDR_FILE_FORMAT_INFO xex_ref)
       = Some \<lparr>header_id = 0x3FF, opt_offset = 4\<rparr>"
    "rpFile (xex_with_ffi pe) = Some (open_file (pe @ [0, 0, 0, 8, 0, 1, 0, 0]))"
    "seekAndRead (open_file (pe @ [0, 0, 0, 8, 0, 1, 0, 0]))
        (unat (opt_offset \<lparr>header_id = 0x3FF, opt_offset = 4\<rparr>))
        (sizeof_XEX2_File_Format_Info xex_ref)
       = ([0, 0, 0, 8, 0, 1, 0, 0], xex_file_after_ffi pe)"
    "length [0, 0, 0, 8, 0, 1, 0, 0 :: u8] = sizeof_XEX2_File_Format_Info xex_ref"
    "compression_type (decode_XEX2_File_Format_Info xex_ref [0, 0, 0, 8, 0, 1, 0, 0])
       = XEX2_COMPRESSION_TYPE_NONE xex_ref"
    "xex_after_ffi pe = (xex_with_ffi pe)\<lparr>rpFile := Some (xex_file_after_ffi pe),
        fileFormatInfo := decode_XEX2_File_Format_Info xex_ref [0, 0, 0, 8, 0, 1, 0, 0]\<rparr>"
  using assms
  by (simp_all add: xex_with_ffi_def XEX_Private_new_def getOptHdrTblEntry_def xex_ref_ffi_simps
      file_defs xex_file_after_ffi_def xex_after_ffi_def be_defs Let_def)

lemma xex_after_ffi_encrypted:
  "encryption_type (fileFormatInfo (xex_after_ffi pe))
     \<noteq> cpu_to_be16 xex_ref (XEX2_ENCRYPTION_TYPE_NONE xex_ref)"
  "encryption_type (fileFormatInfo (xex_after_ffi pe))
     \<noteq> cpu_to_be16 xex_ref_no_retail (XEX2_ENCRYPTION_TYPE_NONE xex_ref_no_retail)"
  "ENABLE_DECRYPTION xex_ref" "ENABLE_DECRYPTION xex_ref_no_retail"
  "KeyManager_getAndVerify xex_ref EncryptionKeyNames_0 EncryptionKeyVerifyData_0 = Some retail_key_ref"
  "KeyManager_getAndVerify xex_ref_no_retail EncryptionKeyNames_0 EncryptionKeyVerifyData_0 = None"
  by (simp_all add: xex_after_ffi_simps cpu_to_be16_def byteswap16_def xex_ref_simps
      xex_ref_no_retail_def xex_ref_def)

lemma try_key_no_retail:
  "try_key xex_ref_no_retail d f key = try_key xex_ref d f key"
proof -
  have h: "cipher_init xex_ref_no_retail = cipher_init xex_ref"
    "cipher_decrypt xex_ref_no_retail = cipher_decrypt xex_ref"
    "CBCReader_new xex_ref_no_retail = CBCReader_new xex_ref"
    "CBCReader_isOpen xex_ref_no_retail = CBCReader_isOpen xex_ref"
    "CBCReader_read xex_ref_no_retail = CBCReader_read xex_ref"
    by (simp_all add: xex_ref_no_retail_def)
  show ?thesis unfolding try_key_def h by (rule refl)
qed

lemma lens4: "length pe_retail = 4" "length pe_debug = 4" "length pe_garbage = 4"
  by (simp_all add: pe_retail_def pe_debug_def pe_garbage_def)


text \<open>
  C5. For an encrypted PE image, in a build with decryption: \<open>try_key\<close> is one pass of
  the loop for one key, and it fails when the image decrypted with that key does not
  begin with MZ; when it succeeds, the image does. The retail key is tried first, when
  the key manager has it and it verifies, and wins with key index 0. When it is
  unavailable or rejected, the debug key, which is all zero, is tried, and wins with
  key index 1. When that is rejected too, no reader is returned and the decoder is left
  as it was. \<open>initPeReader\<close>, once it has read the file format info of an image that is
  not compressed, returns what this key loop returns.
\<close>

theorem key_fallback:
  assumes "encryption_type (fileFormatInfo d) \<noteq> cpu_to_be16 env (XEX2_ENCRYPTION_TYPE_NONE env)"
    and "ENABLE_DECRYPTION env"
  shows "(KeyManager_getAndVerify env EncryptionKeyNames_0 EncryptionKeyVerifyData_0 = Some k
           \<and> try_key env d f k = Some rd \<and> CBCReader_isOpen env rd
          \<longrightarrow> open_pe_reader env d f = (Some rd, d\<lparr>keyInUse := 0, peReader := Some rd\<rparr>))
       \<and> ((KeyManager_getAndVerify env EncryptionKeyNames_0 EncryptionKeyVerifyData_0 = None
             \<or> KeyManager_getAndVerify env EncryptionKeyNames_0 EncryptionKeyVerifyData_0 = Some k
               \<and> try_key env d f k = None)
           \<and> try_key env d f zero16 = Some rd \<and> CBCReader_isOpen env rd
          \<longrightarrow> open_pe_reader env d f = (Some rd, d\<lparr>keyInUse := 1, peReader := Some rd\<rparr>))
       \<and> ((KeyManager_getAndVerify env EncryptionKeyNames_0 EncryptionKeyVerifyData_0 = None
             \<or> KeyManager_getAndVerify env EncryptionKeyNames_0 EncryptionKeyVerifyData_0 = Some k
               \<and> try_key env d f k = None)
           \<and> try_key env d f zero16 = None
          \<longrightarrow> open_pe_reader env d f = (None, d))
       \<and> (cipher_decrypt env key zero16 (title_key (xex2Security d)) = Some tk
           \<and> fst (CBCReader_read env (CBCReader_new env f (unat (pe_offset (xex2Header d)))
                  (pe_length d f) (Some (tk, zero16))) 2) \<noteq> [0x4D, 0x5A]
          \<longrightarrow> try_key env d f key = None)
       \<and> (try_key env d f key = Some rd
          \<longrightarrow> fst (CBCReader_read env (CBCReader_new env f (unat (pe_offset (xex2Header d)))
                  (pe_length d f)
                  (Some (the (cipher_decrypt env key zero16 (title_key (xex2Security d))), zero16))) 2)
              = [0x4D, 0x5A])
       \<and> (peReader dinit = None
           \<and> getOptHdrTblEntry dinit (XEX2_OPTHDR_FILE_FORMAT_INFO env) = Some entry
           \<and> rpFile dinit = Some finit
           \<and> seekAndRead finit (unat (opt_offset entry)) (sizeof_XEX2_File_Format_Info env) = (fb, f)
           \<and> length fb = sizeof_XEX2_File_Format_Info env
           \<and> compression_type (decode_XEX2_File_Format_Info env fb) = XEX2_COMPRESSION_TYPE_NONE env
           \<and> d = dinit\<lparr>rpFile := Some f, fileFormatInfo := decode_XEX2_File_Format_Info env fb\<rparr>
          \<longrightarrow> initPeReader env dinit
                = (Inr (fst (open_pe_reader env d f)), snd (open_pe_reader env d f)))"
proof (intro conjI impI)
  note o = open_pe_reader_encrypted [OF assms]
  { assume "KeyManager_getAndVerify env EncryptionKeyNames_0 EncryptionKeyVerifyData_0 = Some k
           \<and> try_key env d f k = Some rd \<and> CBCReader_isOpen env rd"
    then show "open_pe_reader env d f = (Some rd, d\<lparr>keyInUse := 0, peReader := Some rd\<rparr>)"
      by (simp add: o key_candidates_def) }
  { assume "(KeyManager_getAndVerify env EncryptionKeyNames_0 EncryptionKeyVerifyData_0 = None
             \<or> KeyManager_getAndVerify env EncryptionKeyNames_0 EncryptionKeyVerifyData_0 = Some k
               \<and> try_key env d f k = None)
           \<and> try_key env d f zero16 = Some rd \<and> CBCReader_isOpen env rd"
    then show "open_pe_reader env d f = (Some rd, d\<lparr>keyInUse := 1, peReader := Some rd\<rparr>)"
      by (auto simp: o key_candidates_def) }
  { assume "(KeyManager_getAndVerify env EncryptionKeyNames_0 EncryptionKeyVerifyData_0 = None
             \<or> KeyManager_getAndVerify env EncryptionKeyNames_0 EncryptionKeyVerifyData_0 = Some k
               \<and> try_key env d f k = None)
           \<and> try_key env d f zero16 = None"
    then show "open_pe_reader env d f = (None, d)"
      by (auto simp: o key_candidates_def) }
  { assume "cipher_decrypt env key zero16 (title_key (xex2Security d)) = Some tk
           \<and> fst (CBCReader_read env (CBCReader_new env f (unat (pe_offset (xex2Header d)))
                  (pe_length d f) (Some (tk, zero16))) 2) \<noteq> [0x4D, 0x5A]"
    then show "try_key env d f key = None"
      using try_key_not_MZ by blast }
  { assume "try_key env d f key = Some rd"
    then show "fst (CBCReader_read env (CBCReader_new env f (unat (pe_offset (xex2Header d)))
                  (pe_length d f)
                  (Some (the (cipher_decrypt env key zero16 (title_key (xex2Security d))), zero16))) 2)
              = [0x4D, 0x5A]"
      using try_key_Some_D [of env d f key rd] by simp }
  { assume "peReader dinit = None
           \<and> getOptHdrTblEntry dinit (XEX2_OPTHDR_FILE_FORMAT_INFO env) = Some entry
           \<and> rpFile dinit = Some finit
           \<and> seekAndRead finit (unat (opt_offset entry)) (sizeof_XEX2_File_Format_Info env) = (fb, f)
           \<and> length fb = sizeof_XEX2_File_Format_Info env
           \<and> compression_type (decode_XEX2_File_Format_Info env fb) = XEX2_COMPRESSION_TYPE_NONE env
           \<and> d = dinit\<lparr>rpFile := Some f, fileFormatInfo := decode_XEX2_File_Format_Info env fb\<rparr>"
    then show "initPeReader env dinit
                = (Inr (fst (open_pe_reader env d f)), snd (open_pe_reader env d f))"
      using initPeReader_reaches_keys [of dinit env entry finit fb f] by simp }
qed

theorem key_fallback_witness:
  "encryption_type (fileFormatInfo (xex_after_ffi pe_retail))
     \<noteq> cpu_to_be16 xex_ref (XEX2_ENCRYPTION_TYPE_NONE xex_ref)
   \<and> ENABLE_DECRYPTION xex_ref
   \<and> KeyManager_getAndVerify xex_ref EncryptionKeyNames_0 EncryptionKeyVerifyData_0 = Some retail_key_ref
   \<and> initPeReader xex_ref (xex_with_ffi pe_retail)
       = (Inr (Some ([0x4D, 0x5A, 0x90, 0x00, 0x11, 0x11, 0x11, 0x19, 0x11, 0x10, 0x11, 0x11], 2)),
          (xex_after_ffi pe_retail)\<lparr>keyInUse := 0,
             peReader := Some ([0x4D, 0x5A, 0x90, 0x00, 0x11, 0x11, 0x11, 0x19, 0x11, 0x10, 0x11, 0x11], 2)\<rparr>)
   \<and> try_key xex_ref (xex_after_ffi pe_debug) (xex_file_after_ffi pe_debug) retail_key_ref = None
   \<and> initPeReader xex_ref (xex_with_ffi pe_debug)
       = (Inr (Some ([0x4D, 0x5A, 0x90, 0x00, 0, 0, 0, 8, 0, 1, 0, 0], 2)),
          (xex_after_ffi pe_debug)\<lparr>keyInUse := 1,
             peReader := Some ([0x4D, 0x5A, 0x90, 0x00, 0, 0, 0, 8, 0, 1, 0, 0], 2)\<rparr>)
   \<and> KeyManager_getAndVerify xex_ref_no_retail EncryptionKeyNames_0 EncryptionKeyVerifyData_0 = None
   \<and> open_pe_reader xex_ref_no_retail (xex_after_ffi pe_debug) (xex_file_after_ffi pe_debug)
       = (Some ([0x4D, 0x5A, 0x90, 0x00, 0, 0, 0, 8, 0, 1, 0, 0], 2),
          (xex_after_ffi pe_debug)\<lparr>keyInUse := 1,
             peReader := Some ([0x4D, 0x5A, 0x90, 0x00, 0, 0, 0, 8, 0, 1, 0, 0], 2)\<rparr>)
   \<and> try_key xex_ref (xex_after_ffi pe_garbage) (xex_file_after_ffi pe_garbage) retail_key_ref = None
   \<and> try_key xex_ref (xex_after_ffi pe_garbage) (xex_file_after_ffi pe_garbage) zero16 = None
   \<and> initPeReader xex_ref (xex_with_ffi pe_garbage) = (Inr None, xex_after_ffi pe_garbage)"
proof -
  let ?rdA = "([0x4D, 0x5A, 0x90, 0x00, 0x11, 0x11, 0x11, 0x19, 0x11, 0x10, 0x11, 0x11], 2) :: u8 list \<times> nat"
  let ?rdB = "([0x4D, 0x5A, 0x90, 0x00, 0, 0, 0, 8, 0, 1, 0, 0], 2) :: u8 list \<times> nat"
  let ?entry = "\<lparr>header_id = 0x3FF, opt_offset = 4\<rparr>"
  let ?fb = "[0, 0, 0, 8, 0, 1, 0, 0] :: u8 list"
  note e = xex_after_ffi_encrypted
  note t = try_key_examples
  have o: "CBCReader_isOpen xex_ref rd" for rd by (simp add: xex_ref_simps)
  have o': "CBCReader_isOpen xex_ref_no_retail rd" for rd
    by (simp add: xex_ref_no_retail_def xex_ref_simps)
  note A = key_fallback [OF e(1) e(3), where k = retail_key_ref and f = "xex_file_after_ffi pe_retail"
      and dinit = "xex_with_ffi pe_retail" and entry = ?entry and finit = "open_file (pe_retail @ ?fb)" and fb = ?fb]
  note B = key_fallback [OF e(1) e(3), where k = retail_key_ref and f = "xex_file_after_ffi pe_debug"
      and dinit = "xex_with_ffi pe_debug" and entry = ?entry and finit = "open_file (pe_debug @ ?fb)" and fb = ?fb]
  note C = key_fallback [OF e(1) e(3), where k = retail_key_ref and f = "xex_file_after_ffi pe_garbage"
      and dinit = "xex_with_ffi pe_garbage" and entry = ?entry and finit = "open_file (pe_garbage @ ?fb)" and fb = ?fb]
  note D = key_fallback [OF e(2) e(4), where k = retail_key_ref and f = "xex_file_after_ffi pe_debug"
      and dinit = "xex_with_ffi pe_debug" and entry = ?entry and finit = "open_file (pe_debug @ ?fb)" and fb = ?fb]
  have a: "open_pe_reader xex_ref (xex_after_ffi pe_retail) (xex_file_after_ffi pe_retail)
      = (Some ?rdA, (xex_after_ffi pe_retail)\<lparr>keyInUse := 0, peReader := Some ?rdA\<rparr>)"
    using A e(5) t(1) o by blast
  have b: "open_pe_reader xex_ref (xex_after_ffi pe_debug) (xex_file_after_ffi pe_debug)
      = (Some ?rdB, (xex_after_ffi pe_debug)\<lparr>keyInUse := 1, peReader := Some ?rdB\<rparr>)"
    using B e(5) t(2) t(3) o by blast
  have c: "open_pe_reader xex_ref (xex_after_ffi pe_garbage) (xex_file_after_ffi pe_garbage)
      = (None, xex_after_ffi pe_garbage)"
    using C e(5) t(4) t(5) by blast
  have d: "open_pe_reader xex_ref_no_retail (xex_after_ffi pe_debug) (xex_file_after_ffi pe_debug)
      = (Some ?rdB, (xex_after_ffi pe_debug)\<lparr>keyInUse := 1, peReader := Some ?rdB\<rparr>)"
    using D e(6) t(3) o' by (simp add: try_key_no_retail)
  have ia: "initPeReader xex_ref (xex_with_ffi pe_retail)
      = (Inr (fst (open_pe_reader xex_ref (xex_after_ffi pe_retail) (xex_file_after_ffi pe_retail))),
         snd (open_pe_reader xex_ref (xex_after_ffi pe_retail) (xex_file_after_ffi pe_retail)))"
    using A xex_with_ffi_reach [OF lens4(1)] by blast
  have ib: "initPeReader xex_ref (xex_with_ffi pe_debug)
      = (Inr (fst (open_pe_reader xex_ref (xex_after_ffi pe_debug) (xex_file_after_ffi pe_debug))),
         snd (open_pe_reader xex_ref (xex_after_ffi pe_debug) (xex_file_after_ffi pe_debug)))"
    using B xex_with_ffi_reach [OF lens4(2)] by blast
  have ic: "initPeReader xex_ref (xex_with_ffi pe_garbage)
      = (Inr (fst (open_pe_reader xex_ref (xex_after_ffi pe_garbage) (xex_file_after_ffi pe_garbage))),
         snd (open_pe_reader xex_ref (xex_after_ffi pe_garbage) (xex_file_after_ffi pe_garbage)))"
    using C xex_with_ffi_reach [OF lens4(3)] by blast
  show ?thesis
    unfolding ia ib ic a b c d using e t by simp
qed


section \<open>Properties of the lazy loaders\<close>

subsection \<open>The marks in \<open>headers_loaded\<close>\<close>

lemma hl_absorb: "(h::u32) AND (h OR m) = h"
  by (simp add: word_ao_absorbs)

lemma hl_bit_set:
  assumes "(h::u32) AND 2 ^ n \<noteq> 0"
  shows "h OR 2 ^ n = h"
proof -
  have "bit h n" using assms by (simp add: and_exp_eq_0_iff_not_bit)
  then show ?thesis by (intro bit_word_eqI) (auto simp: bit_simps)
qed

lemma loadTMD_srl_shape:
  "(fst (loadTMD_srl env d f) = Inr 0
      \<and> headers_loaded (snd (loadTMD_srl env d f)) = headers_loaded d OR HEADER_TMD)
   \<or> (fst (loadTMD_srl env d f) \<noteq> Inr 0
      \<and> headers_loaded (snd (loadTMD_srl env d f)) = headers_loaded d)"
  by (auto simp: loadTMD_srl_def mark_TMD_def Let_def split: option.splits prod.splits)

lemma loadTMD_read_shape:
  "(fst (loadTMD_read env d f a b) = Inr 0
      \<and> headers_loaded (snd (loadTMD_read env d f a b)) = headers_loaded d OR HEADER_TMD)
   \<or> (fst (loadTMD_read env d f a b) \<noteq> Inr 0
      \<and> headers_loaded (snd (loadTMD_read env d f a b)) = headers_loaded d)"
proof -
  have *: "(fst (loadTMD_srl env x g) = Inr 0
      \<and> headers_loaded (snd (loadTMD_srl env x g)) = headers_loaded d OR HEADER_TMD)
   \<or> (fst (loadTMD_srl env x g) \<noteq> Inr 0
      \<and> headers_loaded (snd (loadTMD_srl env x g)) = headers_loaded d)"
    if "headers_loaded x = headers_loaded d" for x g
    using loadTMD_srl_shape [of env x g] that by simp
  show ?thesis
    unfolding loadTMD_read_def Let_def
    by (auto split: prod.splits simp del: One_nat_def intro!: *)
qed

lemma HEADER_TMD_bit: "h AND HEADER_TMD \<noteq> 0 \<Longrightarrow> h OR HEADER_TMD = h"
  unfolding HEADER_TMD_def by (rule hl_bit_set)

lemma HEADER_NCCH_bit: "h AND HEADER_NCCH \<noteq> 0 \<Longrightarrow> h OR HEADER_NCCH = h"
  unfolding HEADER_NCCH_def by (rule hl_bit_set)

lemma loadTMD_shape:
  "(fst (loadTMD env d) = Inr 0
      \<and> headers_loaded (snd (loadTMD env d)) = headers_loaded d OR HEADER_TMD)
   \<or> (fst (loadTMD env d) \<noteq> Inr 0
      \<and> headers_loaded (snd (loadTMD env d)) = headers_loaded d)"
proof -
  have *: "(fst (loadTMD_read env x g a b) = Inr 0
      \<and> headers_loaded (snd (loadTMD_read env x g a b)) = headers_loaded d OR HEADER_TMD)
   \<or> (fst (loadTMD_read env x g a b) \<noteq> Inr 0
      \<and> headers_loaded (snd (loadTMD_read env x g a b)) = headers_loaded d)"
    if "headers_loaded x = headers_loaded d" for x g a b
    using loadTMD_read_shape [of env x g a b] that by simp
  show ?thesis
    unfolding loadTMD_def Let_def
    by (auto split: prod.splits option.splits simp: HEADER_TMD_bit intro!: *)
qed

lemma read_NCCH_header_hl:
  "read_NCCH_header env d hdr off len = (r, hdr2, off2, len2, d2)
     \<Longrightarrow> headers_loaded d2 = headers_loaded d"
  by (auto simp: read_NCCH_header_def Let_def split: option.splits prod.splits if_splits)

lemma loadNCCH_idx_shape:
  assumes "loadNCCH_idx env d idx hdr = (r, hdr2, off2, len2, d2)"
  shows "headers_loaded d2 = headers_loaded d \<or> headers_loaded d2 = headers_loaded d OR HEADER_TMD"
proof -
  have t: "headers_loaded (snd (loadTMD env d)) = headers_loaded d
           \<or> headers_loaded (snd (loadTMD env d)) = headers_loaded d OR HEADER_TMD"
    using loadTMD_shape [of env d] by blast
  show ?thesis
    using assms t
    unfolding loadNCCH_idx_def Let_def
    by (auto split: if_splits prod.splits option.splits sum.splits dest!: read_NCCH_header_hl)
qed

lemma loadNCCH_shape:
  "(fst (loadNCCH env d) = Inr 0
      \<and> (headers_loaded (snd (loadNCCH env d)) = headers_loaded d OR HEADER_NCCH
         \<or> headers_loaded (snd (loadNCCH env d)) = (headers_loaded d OR HEADER_TMD) OR HEADER_NCCH))
   \<or> (fst (loadNCCH env d) \<noteq> Inr 0
      \<and> (headers_loaded (snd (loadNCCH env d)) = headers_loaded d
         \<or> headers_loaded (snd (loadNCCH env d)) = headers_loaded d OR HEADER_TMD))"
proof (cases "headers_loaded d AND HEADER_NCCH \<noteq> 0")
  case True
  then show ?thesis by (simp add: loadNCCH_def HEADER_NCCH_bit)
next
  case False
  obtain r hdr off len d1 where e: "loadNCCH_idx env d 0 (ncch_header d) = (r, hdr, off, len, d1)"
    by (metis prod_cases5)
  from loadNCCH_idx_shape [OF e] False e show ?thesis
    by (auto simp: loadNCCH_def)
qed

lemma read_ExHeader_shape:
  "(fst (read_ExHeader env d h nc) = Inr 0
      \<and> headers_loaded (snd (read_ExHeader env d h nc)) = headers_loaded d OR HEADER_EXHEADER)
   \<or> (fst (read_ExHeader env d h nc) \<noteq> Inr 0
      \<and> headers_loaded (snd (read_ExHeader env d h nc)) = headers_loaded d)"
  unfolding read_ExHeader_def Let_def mark_EXHEADER_def
  by (auto split: prod.splits option.splits)

lemma HEADER_EXHEADER_bit: "h AND HEADER_EXHEADER \<noteq> 0 \<Longrightarrow> h OR HEADER_EXHEADER = h"
  unfolding HEADER_EXHEADER_def by (rule hl_bit_set)

lemma loadExHeader_shape:
  "(fst (loadExHeader env d) = Inr 0
      \<and> (\<exists>m \<in> {0, HEADER_NCCH, HEADER_TMD OR HEADER_NCCH}.
            headers_loaded (snd (loadExHeader env d)) = (headers_loaded d OR m) OR HEADER_EXHEADER))
   \<or> (fst (loadExHeader env d) \<noteq> Inr 0
      \<and> (\<exists>m \<in> {0, HEADER_TMD, HEADER_NCCH, HEADER_TMD OR HEADER_NCCH}.
            headers_loaded (snd (loadExHeader env d)) = headers_loaded d OR m))"
proof (cases "headers_loaded d AND HEADER_EXHEADER \<noteq> 0")
  case True
  then show ?thesis by (simp add: loadExHeader_def HEADER_EXHEADER_bit)
next
  case ex: False
  define after where "after x =
        (let h = decode_NCCH_Header_NoSig env (ncch_header x);
               bit_masks = ncch_flags h (N3DS_NCCH_FLAG_BIT_MASKS env);
               no_crypto = (bit_masks AND N3DS_NCCH_BIT_MASK_NoCrypto env \<noteq> 0);
               fixed_key = (bit_masks AND N3DS_NCCH_BIT_MASK_FixedCryptoKey env \<noteq> 0)
           in if (if N3DS_ENABLE_DECRYPTION env then \<not> no_crypto \<and> \<not> fixed_key
                  else \<not> no_crypto)
              then (Inr (-95), x)
              else read_ExHeader env x h no_crypto)" for x
  have rd: "(fst (after x) = Inr 0 \<and> headers_loaded (snd (after x)) = headers_loaded x OR HEADER_EXHEADER)
   \<or> (fst (after x) \<noteq> Inr 0 \<and> headers_loaded (snd (after x)) = headers_loaded x)" for x
    unfolding after_def Let_def
    using read_ExHeader_shape [of env x "decode_NCCH_Header_NoSig env (ncch_header x)"
        "ncch_flags (decode_NCCH_Header_NoSig env (ncch_header x)) (N3DS_NCCH_FLAG_BIT_MASKS env)
           AND N3DS_NCCH_BIT_MASK_NoCrypto env \<noteq> 0"]
    by (simp split: if_splits)
  show ?thesis
  proof (cases "headers_loaded d AND HEADER_NCCH = 0")
    case True
    obtain r d1 where e: "loadNCCH env d = (r, d1)" by (cases "loadNCCH env d")
    have sh: "(r = Inr 0 \<and> (headers_loaded d1 = headers_loaded d OR HEADER_NCCH
                 \<or> headers_loaded d1 = (headers_loaded d OR HEADER_TMD) OR HEADER_NCCH))
            \<or> (r \<noteq> Inr 0 \<and> (headers_loaded d1 = headers_loaded d
                 \<or> headers_loaded d1 = headers_loaded d OR HEADER_TMD))"
      using loadNCCH_shape [of env d] e by simp
    show ?thesis
    proof (cases "r = Inr 0")
      case False
      then have "fst (loadExHeader env d) \<noteq> Inr 0 \<and> snd (loadExHeader env d) = d1"
        using ex True e by (cases r) (auto simp: loadExHeader_def)
      then show ?thesis using sh False by auto
    next
      case r0: True
      have eq: "loadExHeader env d = after d1"
        using ex True e r0 by (simp add: loadExHeader_def after_def)
      from sh r0 have "headers_loaded d1 = headers_loaded d OR HEADER_NCCH
                 \<or> headers_loaded d1 = (headers_loaded d OR HEADER_TMD) OR HEADER_NCCH" by simp
      then show ?thesis
        unfolding eq using rd [of d1] by (auto simp: ac_simps)
    qed
  next
    case False
    have eq: "loadExHeader env d = after d"
      using ex False by (simp add: loadExHeader_def after_def)
    show ?thesis
      unfolding eq using rd [of d] by auto
  qed
qed

subsection \<open>The example images\<close>

lemma n3ds_load_ref_simps:
  "sizeof_N3DS_NCCH_Header_NoSig_t n3ds_load_ref = 0x100"
  "sizeof_N3DS_NCCH_Header_t n3ds_load_ref = 0x200"
  "N3DS_NCCH_HEADER_MAGIC n3ds_load_ref = ascii ''NCCH''"
  "N3DS_NCCH_FLAG_BIT_MASKS n3ds_load_ref = 7"
  "N3DS_NCCH_BIT_MASK_NoCrypto n3ds_load_ref = 0x04"
  "N3DS_NCCH_BIT_MASK_FixedCryptoKey n3ds_load_ref = 0x01"
  "N3DS_NCCH_EXHEADER_MIN_SIZE n3ds_load_ref = 1024"
  "sizeof_N3DS_NCCH_ExHeader_t n3ds_load_ref = 2048"
  "N3DS_ENABLE_DECRYPTION n3ds_load_ref = False"
  "decode_NCCH_Header_NoSig n3ds_load_ref = (\<lambda>bs. \<lparr>ncch_magic = take 4 bs,
        ncch_program_id = le64_at bs 0x18, ncch_exheader_size = le32_at bs 0x80,
        ncch_flags = (\<lambda>k. le_word (take 1 (drop (0x88 + k) bs)))\<rparr>)"
  by (simp_all add: n3ds_load_ref_def)

lemma length_ncch_header_bytes: "length (ncch_header_bytes b) = 256"
  by (simp add: ncch_header_bytes_def ascii_def)

lemma ncch_header_bytes_decode:
  "take 4 (ncch_header_bytes b) = ascii ''NCCH''"
  "le32_at (ncch_header_bytes b) 0x80 = 1024"
  "le_word (take (Suc 0) (drop 143 (ncch_header_bytes b))) = b"
  by (simp_all add: ncch_header_bytes_def ascii_def le_defs)

lemma cci_file_read:
  "take 256 (drop 8960 (cci_file b)) = ncch_header_bytes b"
  "take 1024 (drop 9216 (cci_file b)) = replicate 1024 0x41"
  by (simp_all add: cci_file_def length_ncch_header_bytes)

lemma length_cci_file: "length (cci_file b) = 10240"
  by (simp add: cci_file_def length_ncch_header_bytes)

lemma cci_decoder_simps:
  "rpFile (cci_decoder b) = Some (open_file (cci_file b))"
  "romType (cci_decoder b) = ROM_TYPE_CCI"
  "headers_loaded (cci_decoder b) = HEADER_NCSD"
  "media_unit_shift (cci_decoder b) = 9"
  "partition_offset (ncsd_header (cci_decoder b)) 0 = 0x11"
  "partition_length (ncsd_header (cci_decoder b)) 0 = 0x3"
  "ncch_header (cci_decoder b) = replicate 0x100 0"
  "ncch_exheader (cci_decoder b) = replicate 2048 0"
  by (simp_all add: cci_decoder_def)

lemma HEADER_simps:
  "HEADER_NCCH = 2" "HEADER_EXHEADER = 4" "HEADER_TMD = 16" "HEADER_NCSD = 32" "HEADER_CIA = 8"
  by (simp_all add: HEADER_NCCH_def HEADER_EXHEADER_def HEADER_TMD_def HEADER_NCSD_def HEADER_CIA_def)

lemma cci_loadNCCH:
  "loadNCCH n3ds_load_ref (cci_decoder b) =
     (Inr 0, (cci_decoder b)\<lparr>rpFile := Some \<lparr>f_data = cci_file b, f_pos = 0x2400,
                                                 f_log = [(0x2300, 0x100)]\<rparr>,
                ncch_header := ncch_header_bytes b, ncch_offset := 0x2200, ncch_length := 0x600,
                headers_loaded := 0x22\<rparr>)"
  by (simp add: loadNCCH_def loadNCCH_idx_def read_NCCH_header_def cci_decoder_simps HEADER_simps
      ROM_TYPE_simps file_seek_ret_def file_defs n3ds_load_ref_simps cci_file_read read_into_def
      length_ncch_header_bytes ncch_header_bytes_decode length_cci_file Let_def)

lemma cci_loadExHeader_fail:
  "loadExHeader n3ds_load_ref (cci_decoder 0) =
     (Inr (-95), (cci_decoder 0)\<lparr>rpFile := Some \<lparr>f_data = cci_file 0, f_pos = 0x2400,
                                                 f_log = [(0x2300, 0x100)]\<rparr>,
                ncch_header := ncch_header_bytes 0, ncch_offset := 0x2200, ncch_length := 0x600,
                headers_loaded := 0x22\<rparr>)"
  by (simp add: loadExHeader_def cci_loadNCCH cci_decoder_simps HEADER_simps n3ds_load_ref_simps
      ncch_header_bytes_decode Let_def)

lemma cci_loadExHeader_ok:
  "fst (loadExHeader n3ds_load_ref (cci_decoder 4)) = Inr 0"
  "headers_loaded (snd (loadExHeader n3ds_load_ref (cci_decoder 4))) = 0x26"
  "f_log (the (rpFile (snd (loadExHeader n3ds_load_ref (cci_decoder 4)))))
     = [(0x2400, 0x400), (0x2300, 0x100)]"
  "romType (snd (loadExHeader n3ds_load_ref (cci_decoder 4))) = ROM_TYPE_CCI"
  "last_read (rpFile (snd (loadExHeader n3ds_load_ref (cci_decoder 4)))) = Some (0x2400, 0x400)"
  by (simp_all add: loadExHeader_def cci_loadNCCH cci_decoder_simps HEADER_simps n3ds_load_ref_simps
      ncch_header_bytes_decode read_ExHeader_def mark_EXHEADER_def file_seek_ret_def file_defs
      cci_file_read length_cci_file read_into_def last_read_def Let_def)

lemma xdbf_decoder_whole_eq:
  "xdbf_decoder_whole = \<lparr>rpFile = Some \<lparr>f_data = xdbf_container_whole, f_pos = 60,
                                          f_log = [(24, 36), (0, 24)]\<rparr>, isValid = True,
     img_icon = None, map_images = Map.empty,
     xdbfHeader = \<lparr>xdbf_magic = 0x58444246, xdbf_version = 0x10000,
        entry_table_length = 2, entry_count = 2,
        free_space_table_length = 0, free_space_table_count = 0\<rparr>,
     entryTable = Some [xstr_entry_100, image_entry_64], data_offset = 60, m_langID = 0, xex = False,
     strTbl = (\<lambda>l. None)\<rparr>"
  by (simp add: xdbf_decoder_whole_def XDBF_init_def XDBF_Private_new_def xdbf_ref_simps
      XDBF_isRomSupported_static_def file_defs be_defs xdbf_container_whole_def
      xdbf_container_cut_def xstr_table_20_def
      xstr_entry_100_def image_entry_64_def decode_XDBF_Entry_ref_def
      upt_conv_Cons Let_def)

lemma whole_read_table:
  "take 100 (drop 60 xdbf_container_whole) = xstr_table_20 @ replicate 80 0"
  by (simp add: xdbf_container_whole_def xdbf_container_cut_def xstr_table_20_def)

lemma length_container_whole: "length xdbf_container_whole = 160"
  by (simp add: xdbf_container_whole_def length_container_cut)

lemma loadStringTable_whole:
  "fst (loadStringTable xdbf_ref xdbf_decoder_whole 1) = Some (xstr_table_20 @ replicate 80 0)"
  "strTbl (snd (loadStringTable xdbf_ref xdbf_decoder_whole 1)) 1 = Some (xstr_table_20 @ replicate 80 0)"
  "last_read (rpFile (snd (loadStringTable xdbf_ref xdbf_decoder_whole 1))) = Some (60, 100)"
  by (simp_all add: last_read_def loadStringTable_def xdbf_decoder_whole_eq xdbf_ref_simps findResource_def
      xstr_entry_100_def image_entry_64_def file_defs whole_read_table be_defs Let_def
      length_container_whole xstr_table_20_def)

lemma loadStringTable_cut_fails:
  "fst (loadStringTable xdbf_ref xdbf_decoder_cut 1) = None"
proof -
  have f: "rpFile xdbf_decoder_cut = Some xdbf_file_cut" "isValid xdbf_decoder_cut"
    "strTbl xdbf_decoder_cut 1 = None" "data_offset xdbf_decoder_cut = 60"
    by (simp_all add: xdbf_decoder_cut_eq)
  have e: "entry_offset xstr_entry_100 = 0" "entry_length xstr_entry_100 = 100"
    by (simp_all add: xstr_entry_100_def)
  have "loadStringTable xdbf_ref xdbf_decoder_cut 1 =
     (None, xdbf_decoder_cut\<lparr>rpFile := Some (snd (seekAndRead xdbf_file_cut
        (unat (entry_offset xstr_entry_100 + data_offset xdbf_decoder_cut))
        (unat (entry_length xstr_entry_100))))\<rparr>)"
    by (rule loadStringTable_short_read [OF f(1,2,3)])
       (simp_all add: xdbf_ref_simps findResource_cut e f file_size_def xdbf_file_cut_def
          length_container_cut)
  then show ?thesis by simp
qed

lemma marks_after_failure:
  assumes "m \<in> {0, HEADER_TMD, HEADER_NCCH, HEADER_TMD OR HEADER_NCCH}"
  shows "(h OR m) AND HEADER_EXHEADER = h AND HEADER_EXHEADER"
    and "(h OR m) AND NOT (HEADER_NCCH OR HEADER_TMD) = h AND NOT (HEADER_NCCH OR HEADER_TMD)"
  using assms by (auto simp: HEADER_simps bit.conj_disj_distrib2)

lemma marks_after_success: "(h OR HEADER_EXHEADER) AND HEADER_EXHEADER \<noteq> 0"
  by (simp add: HEADER_simps word_ao_absorbs)

lemma last_read_file_read: "last_read (Some (snd (file_read f n))) = Some (f_pos f, n)"
  by (simp add: last_read_def file_read_def Let_def)

lemma read_ExHeader_performs_read:
  assumes ok: "fst (read_ExHeader env d h nc) = Inr 0"
  shows "last_read (rpFile (snd (read_ExHeader env d h nc)))
           = Some (nat (sint (ncch_offset d + of_nat (sizeof_N3DS_NCCH_Header_t env))),
                   unat ((ncch_exheader_size h + 15) AND NOT 15))
         \<and> ncch_offset (snd (read_ExHeader env d h nc)) = ncch_offset d
         \<and> ncch_header (snd (read_ExHeader env d h nc)) = ncch_header d"
proof -
  let ?off = "sint (ncch_offset d + of_nat (sizeof_N3DS_NCCH_Header_t env))"
  let ?len = "unat ((ncch_exheader_size h + 15) AND NOT 15)"
  have a: "\<not> ncch_exheader_size h < N3DS_NCCH_EXHEADER_MIN_SIZE env"
    using ok by (auto simp: read_ExHeader_def Let_def)
  obtain f where f: "rpFile d = Some f"
    using ok a by (cases "rpFile d") (auto simp: read_ExHeader_def Let_def)
  have s: "\<not> ?off < 0"
    using ok a f by (auto simp: read_ExHeader_def Let_def file_seek_ret_def)
  obtain got f2 where r: "file_read (file_seek f (nat ?off)) ?len = (got, f2)"
    by (cases "file_read (file_seek f (nat ?off)) ?len")
  have f2: "last_read (Some f2) = Some (nat ?off, ?len)"
    using last_read_file_read [of "file_seek f (nat ?off)" ?len] r by (simp add: file_seek_def)
  have g: "\<not> length got > sizeof_N3DS_NCCH_ExHeader_t env"
    using ok a f s r by (auto simp: read_ExHeader_def Let_def file_seek_ret_def)
  have g2: "length got = ?len"
  proof (rule ccontr)
    assume "length got \<noteq> ?len"
    with a f s r g have "fst (read_ExHeader env d h nc) = Inr (-98)"
      by (simp add: read_ExHeader_def Let_def file_seek_ret_def)
    with ok show False by simp
  qed
  have "rpFile (snd (read_ExHeader env d h nc)) = Some f2
        \<and> ncch_offset (snd (read_ExHeader env d h nc)) = ncch_offset d
        \<and> ncch_header (snd (read_ExHeader env d h nc)) = ncch_header d"
    using ok a f s r g g2
    by (simp add: read_ExHeader_def Let_def file_seek_ret_def mark_EXHEADER_def split_def
          split: if_splits)
  then show ?thesis using f2 by simp
qed

lemma loadExHeader_performs_read:
  assumes "headers_loaded d AND HEADER_EXHEADER = 0" and "fst (loadExHeader env d) = Inr 0"
  shows "last_read (rpFile (snd (loadExHeader env d)))
           = Some (nat (sint (ncch_offset (snd (loadExHeader env d))
                              + of_nat (sizeof_N3DS_NCCH_Header_t env))),
                   unat ((ncch_exheader_size
                            (decode_NCCH_Header_NoSig env (ncch_header (snd (loadExHeader env d))))
                          + 15) AND NOT 15))"
proof -
  define after where "after y =
        (let h = decode_NCCH_Header_NoSig env (ncch_header y);
               bit_masks = ncch_flags h (N3DS_NCCH_FLAG_BIT_MASKS env);
               no_crypto = (bit_masks AND N3DS_NCCH_BIT_MASK_NoCrypto env \<noteq> 0);
               fixed_key = (bit_masks AND N3DS_NCCH_BIT_MASK_FixedCryptoKey env \<noteq> 0)
           in if (if N3DS_ENABLE_DECRYPTION env then \<not> no_crypto \<and> \<not> fixed_key
                  else \<not> no_crypto)
              then (Inr (-95), y)
              else read_ExHeader env y h no_crypto)" for y
  have rd: "last_read (rpFile (snd (after y)))
           = Some (nat (sint (ncch_offset (snd (after y)) + of_nat (sizeof_N3DS_NCCH_Header_t env))),
                   unat ((ncch_exheader_size (decode_NCCH_Header_NoSig env (ncch_header (snd (after y))))
                          + 15) AND NOT 15))"
    if "fst (after y) = Inr 0" for y
  proof -
    let ?h = "decode_NCCH_Header_NoSig env (ncch_header y)"
    let ?nc = "ncch_flags ?h (N3DS_NCCH_FLAG_BIT_MASKS env) AND N3DS_NCCH_BIT_MASK_NoCrypto env \<noteq> 0"
    have e: "after y = read_ExHeader env y ?h ?nc"
    proof (rule ccontr)
      assume "after y \<noteq> read_ExHeader env y ?h ?nc"
      then have "after y = (Inr (-95), y)"
        unfolding after_def Let_def by (simp split: if_splits)
      with that show False by simp
    qed
    from read_ExHeader_performs_read [of env y ?h ?nc] that e show ?thesis by simp
  qed
  obtain r d1 where n: "loadNCCH env d = (r, d1)" by (cases "loadNCCH env d")
  show ?thesis
  proof (cases "headers_loaded d AND HEADER_NCCH = 0")
    case True
    have "r = Inr 0"
      using assms True n by (cases r) (auto simp: loadExHeader_def split: if_splits)
    then have "loadExHeader env d = after d1"
      using assms(1) True n by (simp add: loadExHeader_def after_def)
    then show ?thesis using rd [of d1] assms(2) by simp
  next
    case False
    then have "loadExHeader env d = after d"
      using assms(1) by (simp add: loadExHeader_def after_def)
    then show ?thesis using rd [of d] assms(2) by simp
  qed
qed

lemma loadStringTable_performs_read:
  assumes "strTbl x l = None" and "fst (loadStringTable xenv x l) = Some v"
  shows "\<exists>e. findResource x (XDBF_SPA_NAMESPACE_STRING_TABLE xenv) (word_of_int l) = Some e
           \<and> last_read (rpFile (snd (loadStringTable xenv x l)))
               = Some (unat (entry_offset e + data_offset x), unat (entry_length e))
           \<and> length v = unat (entry_length e)"
proof -
  have a: "\<not> (l \<le> XDBF_LANGUAGE_UNKNOWN xenv \<or> l \<ge> XDBF_LANGUAGE_MAX xenv)"
    using assms by (auto simp: loadStringTable_def)
  obtain f where f: "rpFile x = Some f"
    using assms a by (cases "rpFile x") (auto simp: loadStringTable_def)
  have iv: "isValid x"
  proof (rule ccontr)
    assume "\<not> isValid x"
    with assms(1) a f have "fst (loadStringTable xenv x l) = None"
      by (simp add: loadStringTable_def)
    with assms(2) show False by simp
  qed
  obtain e where e: "findResource x (XDBF_SPA_NAMESPACE_STRING_TABLE xenv) (word_of_int l) = Some e"
    using assms a f iv
    by (cases "findResource x (XDBF_SPA_NAMESPACE_STRING_TABLE xenv) (word_of_int l)")
       (auto simp: loadStringTable_def)
  have sz: "\<not> (unat (entry_length e) \<le> sizeof_XSTR_Header xenv \<or> unat (entry_length e) > 1024 * 1024)"
  proof
    assume "unat (entry_length e) \<le> sizeof_XSTR_Header xenv \<or> unat (entry_length e) > 1024 * 1024"
    with assms(1) a f iv e have "fst (loadStringTable xenv x l) = None"
      by (simp add: loadStringTable_def Let_def)
    with assms(2) show False by simp
  qed
  obtain vec f1 where r: "seekAndRead f (unat (entry_offset e + data_offset x)) (unat (entry_length e))
      = (vec, f1)"
    by (cases "seekAndRead f (unat (entry_offset e + data_offset x)) (unat (entry_length e))")
  have lr: "last_read (Some f1) = Some (unat (entry_offset e + data_offset x), unat (entry_length e))"
    using last_read_file_read [of "file_seek f (unat (entry_offset e + data_offset x))"
        "unat (entry_length e)"] r
    by (simp add: seekAndRead_def file_seek_def)
  have "rpFile (snd (loadStringTable xenv x l)) = Some f1 \<and> v = vec \<and> length vec = unat (entry_length e)"
    using assms a f iv e sz r
    by (simp add: loadStringTable_def Let_def split: if_splits)
  then show ?thesis using e lr by simp
qed

subsection \<open>Lazy loading\<close>

text \<open>
  C8, as the code has it, for the ExHeader load of the Nintendo 3DS decoder and the
  string-table load of the XDBF decoder. The decoder is one of an image other than
  3DSX: \<open>HEADER_EXHEADER\<close> and \<open>HEADER_3DSX\<close> are the same bit, which the constructor sets
  for a 3DSX image, and what the ExHeader load does there is left out. Each load first
  looks at its loaded-state record (the bit \<open>HEADER_EXHEADER\<close> of \<open>headers_loaded\<close>; the
  cached table of the language): when the item is marked loaded, the call returns the
  cached success and leaves the decoder, and with it the file, as it was. Otherwise a
  call that succeeds has performed the load, its read request is the latest one on
  the file (for the ExHeader: the declared size rounded up to 16, behind the NCCH
  header; for the string table: the table entry's range), and it leaves the item
  marked. A call that does not succeed leaves the item's own mark as it was; for the
  ExHeader the only other marks it can add are those of the prerequisites it loaded on
  the way, the NCCH header and the TMD, and for the string table the whole cache is
  unchanged. Nothing that was loaded before is unmarked by a call, whatever its result.
\<close>

theorem lazy_load_marks:
  assumes "romType d \<noteq> ROM_TYPE_3DSX"
  shows
  "(headers_loaded d AND HEADER_EXHEADER \<noteq> 0 \<longrightarrow> loadExHeader env d = (Inr 0, d))
   \<and> (headers_loaded d AND HEADER_EXHEADER = 0 \<and> fst (loadExHeader env d) = Inr 0
        \<longrightarrow> last_read (rpFile (snd (loadExHeader env d)))
             = Some (nat (sint (ncch_offset (snd (loadExHeader env d))
                                + of_nat (sizeof_N3DS_NCCH_Header_t env))),
                     unat ((ncch_exheader_size
                              (decode_NCCH_Header_NoSig env (ncch_header (snd (loadExHeader env d))))
                            + 15) AND NOT 15)))
   \<and> (fst (loadExHeader env d) = Inr 0
        \<longrightarrow> headers_loaded (snd (loadExHeader env d)) AND HEADER_EXHEADER \<noteq> 0)
   \<and> (fst (loadExHeader env d) \<noteq> Inr 0
        \<longrightarrow> headers_loaded (snd (loadExHeader env d)) AND HEADER_EXHEADER
              = headers_loaded d AND HEADER_EXHEADER
          \<and> headers_loaded (snd (loadExHeader env d)) AND NOT (HEADER_NCCH OR HEADER_TMD)
              = headers_loaded d AND NOT (HEADER_NCCH OR HEADER_TMD))
   \<and> headers_loaded d AND headers_loaded (snd (loadExHeader env d)) = headers_loaded d
   \<and> (XDBF_LANGUAGE_UNKNOWN xenv < l \<and> l < XDBF_LANGUAGE_MAX xenv \<and> strTbl x l = Some v
        \<longrightarrow> loadStringTable xenv x l = (Some v, x))
   \<and> (strTbl x l = None \<and> fst (loadStringTable xenv x l) = Some v
        \<longrightarrow> (\<exists>e. findResource x (XDBF_SPA_NAMESPACE_STRING_TABLE xenv) (word_of_int l) = Some e
               \<and> last_read (rpFile (snd (loadStringTable xenv x l)))
                   = Some (unat (entry_offset e + data_offset x), unat (entry_length e))
               \<and> length v = unat (entry_length e)))
   \<and> (fst (loadStringTable xenv x l) = Some v
        \<longrightarrow> strTbl (snd (loadStringTable xenv x l)) l = Some v)
   \<and> (fst (loadStringTable xenv x l) = None
        \<longrightarrow> strTbl (snd (loadStringTable xenv x l)) = strTbl x)
   \<and> (strTbl x k = Some w \<longrightarrow> strTbl (snd (loadStringTable xenv x l)) k = Some w)"
proof -
  have cached: "loadExHeader env d = (Inr 0, d)" if "headers_loaded d AND HEADER_EXHEADER \<noteq> 0"
    using that by (simp add: loadExHeader_def)
  consider
    (ok) m where "fst (loadExHeader env d) = Inr 0"
      "headers_loaded (snd (loadExHeader env d)) = (headers_loaded d OR m) OR HEADER_EXHEADER"
  | (failed) m where "fst (loadExHeader env d) \<noteq> Inr 0"
      "m \<in> {0, HEADER_TMD, HEADER_NCCH, HEADER_TMD OR HEADER_NCCH}"
      "headers_loaded (snd (loadExHeader env d)) = headers_loaded d OR m"
    using loadExHeader_shape [of env d] by blast
  then have ex: "(fst (loadExHeader env d) = Inr 0
        \<longrightarrow> headers_loaded (snd (loadExHeader env d)) AND HEADER_EXHEADER \<noteq> 0)
   \<and> (fst (loadExHeader env d) \<noteq> Inr 0
        \<longrightarrow> headers_loaded (snd (loadExHeader env d)) AND HEADER_EXHEADER
              = headers_loaded d AND HEADER_EXHEADER
          \<and> headers_loaded (snd (loadExHeader env d)) AND NOT (HEADER_NCCH OR HEADER_TMD)
              = headers_loaded d AND NOT (HEADER_NCCH OR HEADER_TMD))
   \<and> headers_loaded d AND headers_loaded (snd (loadExHeader env d)) = headers_loaded d"
  proof cases
    case ok
    have "headers_loaded (snd (loadExHeader env d)) AND HEADER_EXHEADER \<noteq> 0"
      unfolding ok(2) by (rule marks_after_success)
    moreover have "headers_loaded d AND headers_loaded (snd (loadExHeader env d)) = headers_loaded d"
      unfolding ok(2) by (simp only: or.assoc hl_absorb)
    ultimately show ?thesis using ok(1) by simp
  next
    case failed
    have "headers_loaded (snd (loadExHeader env d)) AND HEADER_EXHEADER
            = headers_loaded d AND HEADER_EXHEADER"
      unfolding failed(3) by (rule marks_after_failure(1) [OF failed(2)])
    moreover have "headers_loaded (snd (loadExHeader env d)) AND NOT (HEADER_NCCH OR HEADER_TMD)
            = headers_loaded d AND NOT (HEADER_NCCH OR HEADER_TMD)"
      unfolding failed(3) by (rule marks_after_failure(2) [OF failed(2)])
    moreover have "headers_loaded d AND headers_loaded (snd (loadExHeader env d)) = headers_loaded d"
      unfolding failed(3) by (rule hl_absorb)
    ultimately show ?thesis using failed(1) by blast
  qed
  show ?thesis
    using cached ex loadExHeader_performs_read [of d env]
      loadStringTable_cached [of xenv l x v] loadStringTable_success [of xenv x l v]
      loadStringTable_fail [of xenv x l] loadStringTable_mono [of x k w xenv l]
      loadStringTable_performs_read [of x l xenv v]
    by blast
qed

text \<open>
  The cartridge image with the \<open>NoCrypto\<close> bit: the first call loads the NCCH header and
  the ExHeader, its latest read request is the one for the 1024 bytes of ExHeader at
  byte 0x2400, and it marks both; the second call returns success and changes nothing.
  The image with no crypto bit: the call fails with -95, the ExHeader stays unmarked,
  and outside the marks of the NCCH header and the TMD the bitmask is what it was. The
  whole XDBF container: the first call reads the 100 bytes of the table at byte 60 and
  stores the table, the second returns it from the cache. The container cut short: the
  call fails and the cache is as before.
\<close>

theorem lazy_load_marks_witness:
  "romType (cci_decoder 4) \<noteq> ROM_TYPE_3DSX
   \<and> headers_loaded (cci_decoder 4) AND HEADER_EXHEADER = 0
   \<and> fst (loadExHeader n3ds_load_ref (cci_decoder 4)) = Inr 0
   \<and> last_read (rpFile (snd (loadExHeader n3ds_load_ref (cci_decoder 4)))) = Some (0x2400, 0x400)
   \<and> headers_loaded (snd (loadExHeader n3ds_load_ref (cci_decoder 4))) AND HEADER_EXHEADER \<noteq> 0
   \<and> romType (snd (loadExHeader n3ds_load_ref (cci_decoder 4))) \<noteq> ROM_TYPE_3DSX
   \<and> loadExHeader n3ds_load_ref (snd (loadExHeader n3ds_load_ref (cci_decoder 4)))
       = (Inr 0, snd (loadExHeader n3ds_load_ref (cci_decoder 4)))
   \<and> romType (cci_decoder 0) \<noteq> ROM_TYPE_3DSX
   \<and> fst (loadExHeader n3ds_load_ref (cci_decoder 0)) = Inr (-95)
   \<and> headers_loaded (snd (loadExHeader n3ds_load_ref (cci_decoder 0))) AND HEADER_EXHEADER = 0
   \<and> headers_loaded (snd (loadExHeader n3ds_load_ref (cci_decoder 0)))
         AND NOT (HEADER_NCCH OR HEADER_TMD) = HEADER_NCSD
   \<and> strTbl xdbf_decoder_whole 1 = None
   \<and> fst (loadStringTable xdbf_ref xdbf_decoder_whole 1) = Some (xstr_table_20 @ replicate 80 0)
   \<and> last_read (rpFile (snd (loadStringTable xdbf_ref xdbf_decoder_whole 1))) = Some (60, 100)
   \<and> strTbl (snd (loadStringTable xdbf_ref xdbf_decoder_whole 1)) 1
       = Some (xstr_table_20 @ replicate 80 0)
   \<and> loadStringTable xdbf_ref (snd (loadStringTable xdbf_ref xdbf_decoder_whole 1)) 1
       = (Some (xstr_table_20 @ replicate 80 0), snd (loadStringTable xdbf_ref xdbf_decoder_whole 1))
   \<and> fst (loadStringTable xdbf_ref xdbf_decoder_cut 1) = None
   \<and> strTbl (snd (loadStringTable xdbf_ref xdbf_decoder_cut 1)) = strTbl xdbf_decoder_cut"
proof -
  have ty: "romType (cci_decoder 4) \<noteq> ROM_TYPE_3DSX" "romType (cci_decoder 0) \<noteq> ROM_TYPE_3DSX"
    "romType (snd (loadExHeader n3ds_load_ref (cci_decoder 4))) \<noteq> ROM_TYPE_3DSX"
    by (simp_all add: cci_decoder_simps cci_loadExHeader_ok ROM_TYPE_simps)
  have ok: "fst (loadExHeader n3ds_load_ref (cci_decoder 4)) = Inr 0"
    by (rule cci_loadExHeader_ok)
  have clear: "headers_loaded (cci_decoder 4) AND HEADER_EXHEADER = 0"
    by (simp add: cci_decoder_simps HEADER_simps)
  have bad: "fst (loadExHeader n3ds_load_ref (cci_decoder 0)) = Inr (-95)"
    "fst (loadExHeader n3ds_load_ref (cci_decoder 0)) \<noteq> Inr 0"
    by (simp_all add: cci_loadExHeader_fail)
  have before: "headers_loaded (cci_decoder 0) AND HEADER_EXHEADER = 0"
    "headers_loaded (cci_decoder 0) AND NOT (HEADER_NCCH OR HEADER_TMD) = HEADER_NCSD"
    by (simp_all add: cci_decoder_simps HEADER_simps)
  have lang: "XDBF_LANGUAGE_UNKNOWN xdbf_ref < 1" "1 < XDBF_LANGUAGE_MAX xdbf_ref"
    by (simp_all add: xdbf_ref_simps)
  have empty: "strTbl xdbf_decoder_whole 1 = None"
    by (simp add: xdbf_decoder_whole_eq)
  note first = lazy_load_marks [OF ty(1), where env = n3ds_load_ref
      and xenv = xdbf_ref and x = xdbf_decoder_whole and l = 1
      and v = "xstr_table_20 @ replicate 80 0"]
  note again = lazy_load_marks [OF ty(3), where env = n3ds_load_ref
      and xenv = xdbf_ref and x = "snd (loadStringTable xdbf_ref xdbf_decoder_whole 1)" and l = 1
      and v = "xstr_table_20 @ replicate 80 0"]
  note failing = lazy_load_marks [OF ty(2), where env = n3ds_load_ref
      and xenv = xdbf_ref and x = xdbf_decoder_cut and l = 1]
  from first ok have a: "headers_loaded (snd (loadExHeader n3ds_load_ref (cci_decoder 4)))
      AND HEADER_EXHEADER \<noteq> 0"
    by blast
  from first loadStringTable_whole(1)
  have b: "strTbl (snd (loadStringTable xdbf_ref xdbf_decoder_whole 1)) 1
       = Some (xstr_table_20 @ replicate 80 0)"
    by blast
  from again a b lang
  have c: "loadExHeader n3ds_load_ref (snd (loadExHeader n3ds_load_ref (cci_decoder 4)))
       = (Inr 0, snd (loadExHeader n3ds_load_ref (cci_decoder 4)))"
    "loadStringTable xdbf_ref (snd (loadStringTable xdbf_ref xdbf_decoder_whole 1)) 1
       = (Some (xstr_table_20 @ replicate 80 0), snd (loadStringTable xdbf_ref xdbf_decoder_whole 1))"
    by blast+
  from failing bad(2) loadStringTable_cut_fails before
  have e: "headers_loaded (snd (loadExHeader n3ds_load_ref (cci_decoder 0))) AND HEADER_EXHEADER = 0"
    "headers_loaded (snd (loadExHeader n3ds_load_ref (cci_decoder 0)))
         AND NOT (HEADER_NCCH OR HEADER_TMD) = HEADER_NCSD"
    "strTbl (snd (loadStringTable xdbf_ref xdbf_decoder_cut 1)) = strTbl xdbf_decoder_cut"
    by metis+
  from ty clear ok cci_loadExHeader_ok(5) a c bad(1) e empty loadStringTable_whole b
    loadStringTable_cut_fails
  show ?thesis by blast
qed

text \<open>
  The claim C8 as stated fails in its last part, that a failed load leaves the
  loaded-state unchanged. On the cartridge image whose NCCH header sets no crypto bit,
  in a build without decryption, \<open>loadExHeader\<close> first loads the NCCH header, which
  succeeds and is marked, and then fails with -95 on the crypto settings: the bitmask
  was \<open>HEADER_NCSD\<close> before the call and is \<open>HEADER_NCSD | HEADER_NCCH\<close> after it.
\<close>

theorem failed_load_changes_loaded_state:
  "fst (loadExHeader n3ds_load_ref (cci_decoder 0)) = Inr (-95)
   \<and> headers_loaded (cci_decoder 0) = HEADER_NCSD
   \<and> headers_loaded (snd (loadExHeader n3ds_load_ref (cci_decoder 0))) = HEADER_NCSD OR HEADER_NCCH
   \<and> headers_loaded (snd (loadExHeader n3ds_load_ref (cci_decoder 0)))
       \<noteq> headers_loaded (cci_decoder 0)"
  by (simp add: cci_loadExHeader_fail cci_decoder_simps HEADER_simps)

end
